theory Spec2Isabelle
  imports Main
begin

section \<open>The relational store\<close>

text \<open>
  The employee API keeps its data in four tables behind Django's ORM: departments,
  employees, projects, and the through table of the many-to-many relation between
  employees and projects (\<^verbatim>\<open>projects = models.ManyToManyField(Project)\<close>). A table is
  the list of its rows, in the order the database returns them. The store also carries
  the sequence of the employee primary key and a journal of the ORM calls the handlers
  have issued, one entry per call in the source, whether the call went through or not.

  Django runs each ORM call in a transaction of its own (autocommit), and the handlers
  open none around their calls. A call that violates a foreign key raises
  \<^verbatim>\<open>IntegrityError\<close> and writes nothing; what earlier calls of the same handler wrote
  stays.
\<close>

datatype date = Date int nat nat

text \<open>
  Modelled from the spec: the tables of \<^verbatim>\<open>company_basic.models\<close>, whose declarations
  are not among the sources. Section 3 of the specification gives the columns of a
  department (id, title), of an employee (id, first_name, last_name, optional birthdate,
  department_id optional in this variant) and of a project (id, title, department_id),
  and the many-to-many relation between employees and projects;
  \<^verbatim>\<open>company_ninja_crud/models.py\<close> and the seeding command use the same names.
\<close>

record department =
  dept_id :: int
  dept_title :: string

record employee =
  employee_id :: int
  first_name :: string
  last_name :: string
  department_id :: "int option"
  birthdate :: "date option"

record project =
  project_id :: int
  title :: string
  project_department_id :: int

datatype orm_call =
    Insert_employee int
  | Select_employee int
  | Update_employee int
  | Delete_employee int
  | Set_projects int "int list"

record db =
  department_rows :: "department list"
  employee_rows :: "employee list"
  project_rows :: "project list"
  employee_projects :: "(int \<times> int) list"
  employee_seq :: int
  queries :: "orm_call list"

text \<open>
  What a request can end with short of its answer: \<^verbatim>\<open>Http404\<close> (HTTP 404), and the two
  exceptions the handlers do not catch, which the router answers with HTTP 500: the
  \<^verbatim>\<open>IntegrityError\<close> of the database and the \<^verbatim>\<open>ValidationError\<close> of a response that
  does not fit its schema.
\<close>

datatype error = Http404 | IntegrityError | ValidationError

text \<open>The tables of a store, without the journal.\<close>

definition stored ::
  "db \<Rightarrow> department list \<times> employee list \<times> project list \<times> (int \<times> int) list \<times> int" where
  "stored s =
     (department_rows s, employee_rows s, project_rows s, employee_projects s, employee_seq s)"

text \<open>The calls a handler has added to the journal of \<open>s\<close>, given the store \<open>s'\<close> it left.\<close>

definition issued :: "db \<Rightarrow> db \<Rightarrow> orm_call list" where
  "issued s s' = drop (length (queries s)) (queries s')"

definition log_call :: "orm_call \<Rightarrow> db \<Rightarrow> db" where
  "log_call c s = s\<lparr>queries := queries s @ [c]\<rparr>"

subsection \<open>Foreign keys\<close>

text \<open>
  The department column of an employee is null or the id of a department; the project
  column of a through row is the id of a project.
\<close>

definition department_ok :: "db \<Rightarrow> int option \<Rightarrow> bool" where
  "department_ok s dep =
     (case dep of None \<Rightarrow> True | Some d \<Rightarrow> d \<in> set (map dept_id (department_rows s)))"

definition projects_exist :: "db \<Rightarrow> int list \<Rightarrow> bool" where
  "projects_exist s ids = list_all (\<lambda>p. p \<in> set (map project_id (project_rows s))) ids"

subsection \<open>ORM calls\<close>

text \<open>
  \<^verbatim>\<open>Employee.objects.create(...)\<close>: one INSERT; the key comes from the sequence. For a
  department that does not exist the insert raises and no row is written.
\<close>

definition objects_create ::
  "string \<Rightarrow> string \<Rightarrow> int option \<Rightarrow> date option \<Rightarrow> db \<Rightarrow> (error + employee) \<times> db" where
  "objects_create fn ln dep bd s =
     (let e = \<lparr>employee_id = employee_seq s, employee.first_name = fn,
                employee.last_name = ln, employee.department_id = dep,
                employee.birthdate = bd\<rparr>
      in if department_ok s dep
         then (Inr e, log_call (Insert_employee (employee_seq s))
                        (s\<lparr>employee_rows := employee_rows s @ [e],
                           employee_seq := employee_seq s + 1\<rparr>))
         else (Inl IntegrityError, log_call (Insert_employee (employee_seq s)) s))"

text \<open>
  \<^verbatim>\<open>get_object_or_404(Employee..., id=id)\<close>: the row with that key, or \<^verbatim>\<open>Http404\<close>
  when there is none.
\<close>

definition get_object_or_404 :: "int \<Rightarrow> db \<Rightarrow> (error + employee) \<times> db" where
  "get_object_or_404 i s =
     (case find (\<lambda>r. employee_id r = i) (employee_rows s) of
        None \<Rightarrow> (Inl Http404, log_call (Select_employee i) s)
      | Some e \<Rightarrow> (Inr e, log_call (Select_employee i) s))"

text \<open>
  \<^verbatim>\<open>instance.save()\<close>: an UPDATE of the row with the instance's key; Django falls back
  to an INSERT when no row has it. For a department that does not exist the call raises
  and the row stays as it was. The result is the exception, if any.
\<close>

definition save :: "employee \<Rightarrow> db \<Rightarrow> error option \<times> db" where
  "save e s =
     (if department_ok s (employee.department_id e)
      then (None, log_call (Update_employee (employee_id e))
                    (s\<lparr>employee_rows :=
                         (if employee_id e \<in> set (map employee_id (employee_rows s))
                          then map (\<lambda>r. if employee_id r = employee_id e then e else r)
                                 (employee_rows s)
                          else employee_rows s @ [e])\<rparr>))
      else (Some IntegrityError, log_call (Update_employee (employee_id e)) s))"

text \<open>
  \<^verbatim>\<open>instance.projects.set(ids)\<close>: the through rows of this employee whose project is
  not among \<open>ids\<close> are removed, and a row is added for each id that has none yet. The call
  is atomic: when one of the ids is the id of no project it raises and the through table
  stays as it was.
\<close>

definition projects_set :: "int \<Rightarrow> int list \<Rightarrow> db \<Rightarrow> error option \<times> db" where
  "projects_set i ids s =
     (if projects_exist s ids
      then (None, log_call (Set_projects i ids)
                    (s\<lparr>employee_projects :=
                         filter (\<lambda>l. fst l \<noteq> i \<or> snd l \<in> set ids) (employee_projects s) @
                         map (Pair i)
                           (filter (\<lambda>p. (i, p) \<notin> set (employee_projects s)) (remdups ids))\<rparr>))
      else (Some IntegrityError, log_call (Set_projects i ids) s))"

text \<open>
  \<^verbatim>\<open>instance.delete()\<close>: the row goes, and with it the through rows that refer to it.
\<close>

definition delete :: "employee \<Rightarrow> db \<Rightarrow> db" where
  "delete e s =
     log_call (Delete_employee (employee_id e))
       (s\<lparr>employee_rows := filter (\<lambda>r. employee_id r \<noteq> employee_id e) (employee_rows s),
          employee_projects :=
            filter (\<lambda>l. fst l \<noteq> employee_id e) (employee_projects s)\<rparr>)"

text \<open>
  \<^verbatim>\<open>obj.projects.all()\<close>: the projects joined to the employee through the through
  table, in the order of the project table.
\<close>

definition projects_all :: "db \<Rightarrow> int \<Rightarrow> project list" where
  "projects_all s i = filter (\<lambda>p. (i, project_id p) \<in> set (employee_projects s)) (project_rows s)"

text \<open>The project ids the through table associates with an employee.\<close>

definition associations :: "db \<Rightarrow> int \<Rightarrow> int list" where
  "associations s i = map snd (filter (\<lambda>l. fst l = i) (employee_projects s))"

section \<open>The hand-written API (\<^verbatim>\<open>company_basic/api/employee_api.py\<close>)\<close>

subsection \<open>Schemas\<close>

text \<open>
  The response schema annotates \<^verbatim>\<open>department_id\<close> with \<^verbatim>\<open>int\<close> and
  \<^verbatim>\<open>birthdate\<close> with \<^verbatim>\<open>date\<close>; the default \<^verbatim>\<open>None\<close> stands for an attribute
  that is missing, not for one that is \<^verbatim>\<open>None\<close>. A response holds an integer and a
  date there.
\<close>

record EmployeeResponse =
  id' :: int
  first_name :: string
  last_name :: string
  department_id :: int
  project_ids :: "int list"
  birthdate :: date

definition resolve_project_ids :: "db \<Rightarrow> employee \<Rightarrow> int list" where
  "resolve_project_ids s obj = map project_id (projects_all s (employee_id obj))"

text \<open>
  The response schema read off a model instance (\<^verbatim>\<open>from_attributes\<close>). The
  attributes of an instance are all there, so the defaults are never used: an instance
  whose department or birthdate is \<^verbatim>\<open>None\<close> fails the validation of the response.
\<close>

definition EmployeeResponse_from_orm :: "db \<Rightarrow> employee \<Rightarrow> error + EmployeeResponse" where
  "EmployeeResponse_from_orm s obj =
     (case (employee.department_id obj, employee.birthdate obj) of
        (Some d, Some b) \<Rightarrow>
          Inr \<lparr>id' = employee_id obj,
               EmployeeResponse.first_name = employee.first_name obj,
               EmployeeResponse.last_name = employee.last_name obj,
               EmployeeResponse.department_id = d,
               EmployeeResponse.project_ids = resolve_project_ids s obj,
               EmployeeResponse.birthdate = b\<rparr>
      | _ \<Rightarrow> Inl ValidationError)"

text \<open>
  The router builds the response (\<^verbatim>\<open>response=EmployeeResponse\<close>) from what the handler
  returns, after the handler and its writes.
\<close>

definition respond :: "(error + employee) \<times> db \<Rightarrow> (error + EmployeeResponse) \<times> db" where
  "respond r =
     (case r of
        (Inl err, s) \<Rightarrow> (Inl err, s)
      | (Inr obj, s) \<Rightarrow> (EmployeeResponse_from_orm s obj, s))"

record EmployeeRequest =
  first_name :: string
  last_name :: string
  department_id :: "int option"
  project_ids :: "int list"
  birthdate :: "date option"

text \<open>
  Every field of the update schema defaults to \<^verbatim>\<open>None\<close> and none of the annotations
  admits \<^verbatim>\<open>None\<close> as a value, so a field is \<open>None\<close> exactly when the request did not
  set it: \<^verbatim>\<open>model_dump(exclude_unset=True)\<close> has a key for the fields that are
  \<open>Some\<close>.
\<close>

record EmployeeUpdateRequest =
  first_name :: "string option"
  last_name :: "string option"
  department_id :: "int option"
  project_ids :: "int list option"
  birthdate :: "date option"

subsection \<open>Handlers\<close>

definition create_employee :: "EmployeeRequest \<Rightarrow> db \<Rightarrow> (error + employee) \<times> db" where
  "create_employee data s =
     (case objects_create (EmployeeRequest.first_name data) (EmployeeRequest.last_name data)
             (EmployeeRequest.department_id data) (EmployeeRequest.birthdate data) s of
        (Inl err, s1) \<Rightarrow> (Inl err, s1)
      | (Inr employee, s1) \<Rightarrow>
          (case projects_set (employee_id employee) (EmployeeRequest.project_ids data) s1 of
             (Some err, s2) \<Rightarrow> (Inl err, s2)
           | (None, s2) \<Rightarrow> (Inr employee, s2)))"

definition get_employee :: "int \<Rightarrow> db \<Rightarrow> (error + employee) \<times> db" where
  "get_employee i s = get_object_or_404 i s"

text \<open>\<^verbatim>\<open>provided_data.get(key, default)\<close> on a key that is present or absent.\<close>

definition dict_get :: "'a option \<Rightarrow> 'a \<Rightarrow> 'a" where
  "dict_get v d = (case v of Some x \<Rightarrow> x | None \<Rightarrow> d)"

text \<open>
  The four assignments of \<open>update_employee\<close>: the instance with the provided fields set.
  The columns department_id and birthdate are nullable: a provided value \<open>v\<close> is stored
  as \<open>Some v\<close>.
\<close>

definition assign_provided :: "EmployeeUpdateRequest \<Rightarrow> employee \<Rightarrow> employee" where
  "assign_provided data inst =
     inst\<lparr>employee.first_name :=
            dict_get (EmployeeUpdateRequest.first_name data) (employee.first_name inst),
          employee.last_name :=
            dict_get (EmployeeUpdateRequest.last_name data) (employee.last_name inst),
          employee.department_id :=
            dict_get (map_option Some (EmployeeUpdateRequest.department_id data))
              (employee.department_id inst),
          employee.birthdate :=
            dict_get (map_option Some (EmployeeUpdateRequest.birthdate data))
              (employee.birthdate inst)\<rparr>"

text \<open>
  The test on \<^verbatim>\<open>project_ids\<close> is one of truth: it fails for a list that was not
  provided and for the empty list.
\<close>

definition update_employee ::
  "int \<Rightarrow> EmployeeUpdateRequest \<Rightarrow> db \<Rightarrow> (error + employee) \<times> db" where
  "update_employee i data s =
     (case get_object_or_404 i s of
        (Inl err, s1) \<Rightarrow> (Inl err, s1)
      | (Inr inst, s1) \<Rightarrow>
          (case save (assign_provided data inst) s1 of
             (Some err, s2) \<Rightarrow> (Inl err, s2)
           | (None, s2) \<Rightarrow>
               (case EmployeeUpdateRequest.project_ids data of
                  None \<Rightarrow> (Inr (assign_provided data inst), s2)
                | Some [] \<Rightarrow> (Inr (assign_provided data inst), s2)
                | Some (p # ps) \<Rightarrow>
                    (case projects_set (employee_id (assign_provided data inst)) (p # ps) s2 of
                       (Some err, s3) \<Rightarrow> (Inl err, s3)
                     | (None, s3) \<Rightarrow> (Inr (assign_provided data inst), s3)))))"

definition delete_employee :: "int \<Rightarrow> db \<Rightarrow> (error + nat \<times> string) \<times> db" where
  "delete_employee i s =
     (case get_object_or_404 i s of
        (Inl err, s1) \<Rightarrow> (Inl err, s1)
      | (Inr inst, s1) \<Rightarrow> (Inr (204, ''''), delete inst s1))"

text \<open>
  What \<^verbatim>\<open>_seed_basic_app\<close> of the seeding command adds to a fresh database, where
  the two departments and their projects get the ids 1 and 2: the departments, the
  projects, and the employee Bob Smith of the first department, associated with both
  projects. \<open>today\<close> is \<^verbatim>\<open>date.today()\<close>.
\<close>

definition empty_db :: db where
  "empty_db = \<lparr>department_rows = [], employee_rows = [], project_rows = [],
                employee_projects = [], employee_seq = 1, queries = []\<rparr>"

definition seed_basic_app :: "date \<Rightarrow> db \<Rightarrow> db" where
  "seed_basic_app today s =
     (let growth_department = \<lparr>dept_id = 1, dept_title = ''Growth''\<rparr>;
          infrastructure_department = \<lparr>dept_id = 2, dept_title = ''Infrastructure''\<rparr>;
          growth_project =
            \<lparr>project_id = 1, title = ''Growth Project'',
             project_department_id = dept_id growth_department\<rparr>;
          infrastructure_project =
            \<lparr>project_id = 2, title = ''Infrastructure Project'',
             project_department_id = dept_id infrastructure_department\<rparr>;
          s0 = s\<lparr>department_rows :=
                   department_rows s @ [growth_department, infrastructure_department],
                 project_rows := project_rows s @ [growth_project, infrastructure_project]\<rparr>
      in case objects_create ''Bob'' ''Smith'' (Some (dept_id growth_department)) (Some today) s0 of
           (Inl err, s1) \<Rightarrow> s1
         | (Inr employee, s1) \<Rightarrow>
             snd (projects_set (employee_id employee)
                    [project_id growth_project, project_id infrastructure_project] s1))"

text \<open>
  The sequence is ahead of every key in use, so a new row never takes the key of an
  old one. It holds of the empty store and every handler keeps it.
\<close>

definition sequence_ahead :: "db \<Rightarrow> bool" where
  "sequence_ahead s = list_all (\<lambda>r. employee_id r < employee_seq s) (employee_rows s)"

section \<open>Request validation\<close>

text \<open>
  The router validates the body of a request against the schema class of the handler's
  \<^verbatim>\<open>data\<close> parameter before the handler runs. The body is a JSON object, read as
  a dictionary from keys to JSON values.

  What pydantic does with a single value is a parameter of the development: which
  characters count as whitespace, and which JSON values are accepted as an \<^verbatim>\<open>int\<close>
  and as a \<^verbatim>\<open>date\<close> (and converted to what). The schema classes decide the rest:
  the key each field is read from, whether the field is required, its default, and
  whether strings are stripped.
\<close>

text \<open>
  The JSON values the schemas meet: numbers are integers, and there are no nested objects.
\<close>

datatype json = JNull | JBool bool | JNum int | JStr string | JArr "json list"

type_synonym payload = "string \<rightharpoonup> json"

record validators =
  whitespace :: "char \<Rightarrow> bool"
  int_validator :: "json \<Rightarrow> int option"
  date_validator :: "json \<Rightarrow> date option"

record ConfigDict =
  str_strip_whitespace :: bool
  from_attributes :: bool

text \<open>The four request schemas of the two variants declare the same configuration.\<close>

definition model_config :: ConfigDict where
  "model_config = \<lparr>str_strip_whitespace = True, from_attributes = True\<rparr>"

definition strip :: "(char \<Rightarrow> bool) \<Rightarrow> string \<Rightarrow> string" where
  "strip ws s = rev (dropWhile ws (rev (dropWhile ws s)))"

definition str_validator :: "ConfigDict \<Rightarrow> validators \<Rightarrow> json \<Rightarrow> string option" where
  "str_validator cfg lib j =
     (case j of
        JStr s \<Rightarrow> Some (if str_strip_whitespace cfg then strip (whitespace lib) s else s)
      | _ \<Rightarrow> None)"

definition list_int_validator :: "validators \<Rightarrow> json \<Rightarrow> int list option" where
  "list_int_validator lib j =
     (case j of JArr js \<Rightarrow> those (map (int_validator lib) js) | _ \<Rightarrow> None)"

datatype error_detail = Missing string | Invalid string

datatype 'a field = Unset | Valid 'a | Error error_detail

text \<open>A field with a default: absent from the payload it stays unset.\<close>

definition field :: "payload \<Rightarrow> string \<Rightarrow> (json \<Rightarrow> 'a option) \<Rightarrow> 'a field" where
  "field payload key validator =
     (case payload key of
        None \<Rightarrow> Unset
      | Some j \<Rightarrow> (case validator j of None \<Rightarrow> Error (Invalid key) | Some v \<Rightarrow> Valid v))"

text \<open>A field without a default (or with the default \<^verbatim>\<open>...\<close>).\<close>

definition required :: "payload \<Rightarrow> string \<Rightarrow> (json \<Rightarrow> 'a option) \<Rightarrow> 'a field" where
  "required payload key validator =
     (case field payload key validator of Unset \<Rightarrow> Error (Missing key) | f \<Rightarrow> f)"

text \<open>
  The key a field is read from: its alias when the declaration gives one
  (\<^verbatim>\<open>Field(..., alias="project_ids")\<close>), its own name otherwise.
\<close>

definition alias_key :: "string \<Rightarrow> string option \<Rightarrow> string" where
  "alias_key name alias = (case alias of Some a \<Rightarrow> a | None \<Rightarrow> name)"

definition errors :: "'a field \<Rightarrow> error_detail list" where
  "errors f = (case f of Error e \<Rightarrow> [e] | _ \<Rightarrow> [])"

definition provided :: "'a field \<Rightarrow> 'a option" where
  "provided f = (case f of Valid v \<Rightarrow> Some v | _ \<Rightarrow> None)"

definition with_default :: "'a \<Rightarrow> 'a field \<Rightarrow> 'a" where
  "with_default d f = (case f of Valid v \<Rightarrow> v | _ \<Rightarrow> d)"

text \<open>
  An instance of the library parameters for the examples: the ASCII blanks, JSON
  integers as they are, and no value accepted as a date.
\<close>

definition example_validators :: validators where
  "example_validators =
     \<lparr>whitespace = (\<lambda>c. c \<in> set [CHR '' '', CHR 0x09, CHR 0x0A, CHR 0x0B, CHR 0x0C, CHR 0x0D]),
      int_validator = (\<lambda>j. case j of JNum n \<Rightarrow> Some n | _ \<Rightarrow> None),
      date_validator = (\<lambda>j. None)\<rparr>"

subsection \<open>The schemas of \<^verbatim>\<open>company_basic\<close>\<close>

definition EmployeeRequest_validate ::
  "validators \<Rightarrow> payload \<Rightarrow> error_detail list + EmployeeRequest" where
  "EmployeeRequest_validate lib payload =
     (let fn = required payload ''first_name'' (str_validator model_config lib);
          ln = required payload ''last_name'' (str_validator model_config lib);
          dep = field payload ''department_id'' (int_validator lib);
          pids = field payload ''project_ids'' (list_int_validator lib);
          bd = field payload ''birthdate'' (date_validator lib)
      in case (fn, ln, errors dep @ errors pids @ errors bd) of
           (Valid a, Valid b, []) \<Rightarrow>
             Inr \<lparr>EmployeeRequest.first_name = a,
                  EmployeeRequest.last_name = b,
                  EmployeeRequest.department_id = provided dep,
                  EmployeeRequest.project_ids = with_default [] pids,
                  EmployeeRequest.birthdate = provided bd\<rparr>
         | _ \<Rightarrow> Inl (errors fn @ errors ln @ errors dep @ errors pids @ errors bd))"

definition EmployeeUpdateRequest_validate ::
  "validators \<Rightarrow> payload \<Rightarrow> error_detail list + EmployeeUpdateRequest" where
  "EmployeeUpdateRequest_validate lib payload =
     (let fn = field payload ''first_name'' (str_validator model_config lib);
          ln = field payload ''last_name'' (str_validator model_config lib);
          dep = field payload ''department_id'' (int_validator lib);
          pids = field payload ''project_ids'' (list_int_validator lib);
          bd = field payload ''birthdate'' (date_validator lib)
      in case errors fn @ errors ln @ errors dep @ errors pids @ errors bd of
           [] \<Rightarrow>
             Inr \<lparr>EmployeeUpdateRequest.first_name = provided fn,
                  EmployeeUpdateRequest.last_name = provided ln,
                  EmployeeUpdateRequest.department_id = provided dep,
                  EmployeeUpdateRequest.project_ids = provided pids,
                  EmployeeUpdateRequest.birthdate = provided bd\<rparr>
         | errs \<Rightarrow> Inl errs)"

subsection \<open>The schemas of \<^verbatim>\<open>company_ninja_crud\<close>\<close>

text \<open>
  The generated views copy the validated fields onto the model by name, so the relation
  field is called \<^verbatim>\<open>projects\<close> as on the model; its alias keeps the key of the
  payload \<^verbatim>\<open>project_ids\<close>.
\<close>

record crud_EmployeeRequest =
  first_name :: string
  last_name :: string
  department_id :: "int option"
  projects :: "int list"
  birthdate :: "date option"

record crud_EmployeeUpdateRequest =
  first_name :: "string option"
  last_name :: "string option"
  department_id :: "int option"
  projects :: "int list option"
  birthdate :: "date option"

definition crud_EmployeeRequest_validate ::
  "validators \<Rightarrow> payload \<Rightarrow> error_detail list + crud_EmployeeRequest" where
  "crud_EmployeeRequest_validate lib payload =
     (let fn = required payload ''first_name'' (str_validator model_config lib);
          ln = required payload ''last_name'' (str_validator model_config lib);
          dep = field payload ''department_id'' (int_validator lib);
          prj = required payload (alias_key ''projects'' (Some ''project_ids''))
                  (list_int_validator lib);
          bd = field payload ''birthdate'' (date_validator lib)
      in case (fn, ln, prj, errors dep @ errors bd) of
           (Valid a, Valid b, Valid ps, []) \<Rightarrow>
             Inr \<lparr>crud_EmployeeRequest.first_name = a,
                  crud_EmployeeRequest.last_name = b,
                  crud_EmployeeRequest.department_id = provided dep,
                  crud_EmployeeRequest.projects = ps,
                  crud_EmployeeRequest.birthdate = provided bd\<rparr>
         | _ \<Rightarrow> Inl (errors fn @ errors ln @ errors dep @ errors prj @ errors bd))"

definition crud_EmployeeUpdateRequest_validate ::
  "validators \<Rightarrow> payload \<Rightarrow> error_detail list + crud_EmployeeUpdateRequest" where
  "crud_EmployeeUpdateRequest_validate lib payload =
     (let fn = field payload ''first_name'' (str_validator model_config lib);
          ln = field payload ''last_name'' (str_validator model_config lib);
          dep = field payload ''department_id'' (int_validator lib);
          prj = field payload (alias_key ''projects'' (Some ''project_ids''))
                  (list_int_validator lib);
          bd = field payload ''birthdate'' (date_validator lib)
      in case errors fn @ errors ln @ errors dep @ errors prj @ errors bd of
           [] \<Rightarrow>
             Inr \<lparr>crud_EmployeeUpdateRequest.first_name = provided fn,
                  crud_EmployeeUpdateRequest.last_name = provided ln,
                  crud_EmployeeUpdateRequest.department_id = provided dep,
                  crud_EmployeeUpdateRequest.projects = provided prj,
                  crud_EmployeeUpdateRequest.birthdate = provided bd\<rparr>
         | errs \<Rightarrow> Inl errs)"

section \<open>The bearer token (\<^verbatim>\<open>company_ninja_crud/auth.py\<close>)\<close>

record auth_user =
  auth_user_id :: int
  username :: string

datatype principal = User auth_user | AnonymousUser

record request =
  request_user :: principal

datatype auth_error = ValueError

text \<open>\<^verbatim>\<open>token.split(":")\<close>: the pieces between the separators, empty ones included.\<close>

fun split :: "string \<Rightarrow> char \<Rightarrow> string list" where
  "split [] sep = [[]]"
| "split (c # cs) sep =
     (if c = sep then [] # split cs sep
      else (case split cs sep of [] \<Rightarrow> [[c]] | p # ps \<Rightarrow> (c # p) # ps))"

text \<open>
  \<^verbatim>\<open>get_user_model().objects.filter(id=user_id).first()\<close>. The id arrives as a string;
  the integer field converts it (\<open>to_python\<close>) and raises \<^verbatim>\<open>ValueError\<close> when
  it is not a number.
\<close>

definition filter_first ::
  "(string \<Rightarrow> int option) \<Rightarrow> auth_user list \<Rightarrow> string \<Rightarrow> auth_error + auth_user option" where
  "filter_first to_python users uid =
     (case to_python uid of
        None \<Rightarrow> Inl ValueError
      | Some n \<Rightarrow> Inr (find (\<lambda>u. auth_user_id u = n) users))"

text \<open>
  \<open>authenticate\<close> returns the user, or \<^verbatim>\<open>None\<close>; the router takes a result that is
  not true as a failed authentication and answers 401. The second component is the
  request, with \<^verbatim>\<open>request.user\<close> as the method left it.
\<close>

definition authenticate ::
  "(string \<Rightarrow> int option) \<Rightarrow> auth_user list \<Rightarrow> request \<Rightarrow> string \<Rightarrow>
   auth_error + (auth_user option \<times> request)" where
  "authenticate to_python users request token =
     (case split token CHR '':'' of
        [token_value, user_id] \<Rightarrow>
          if token_value \<noteq> ''supersecret'' then Inr (None, request)
          else (case filter_first to_python users user_id of
                  Inl err \<Rightarrow> Inl err
                | Inr user \<Rightarrow>
                    Inr (user,
                         request\<lparr>request_user :=
                           (case user of Some u \<Rightarrow> User u | None \<Rightarrow> AnonymousUser)\<rparr>))
      | _ \<Rightarrow> Inr (None, request))"

section \<open>Facts about the store\<close>

lemma seeded_db:
  "seed_basic_app today empty_db =
     \<lparr>department_rows =
        [\<lparr>dept_id = 1, dept_title = ''Growth''\<rparr>,
         \<lparr>dept_id = 2, dept_title = ''Infrastructure''\<rparr>],
      employee_rows =
        [\<lparr>employee_id = 1, employee.first_name = ''Bob'', employee.last_name = ''Smith'',
          employee.department_id = Some 1, employee.birthdate = Some today\<rparr>],
      project_rows =
        [\<lparr>project_id = 1, title = ''Growth Project'', project_department_id = 1\<rparr>,
         \<lparr>project_id = 2, title = ''Infrastructure Project'', project_department_id = 2\<rparr>],
      employee_projects = [(1, 1), (1, 2)],
      employee_seq = 2,
      queries = [Insert_employee 1, Set_projects 1 [1, 2]]\<rparr>"
  by (simp add: seed_basic_app_def empty_db_def objects_create_def projects_set_def log_call_def
      department_ok_def projects_exist_def Let_def)

subsection \<open>The journal\<close>

lemma stored_log_call: "stored (log_call c s) = stored s"
  by (simp add: stored_def log_call_def)

lemma employee_rows_log_call: "employee_rows (log_call c s) = employee_rows s"
  by (simp add: log_call_def)

lemma employee_projects_log_call: "employee_projects (log_call c s) = employee_projects s"
  by (simp add: log_call_def)

lemma project_rows_log_call: "project_rows (log_call c s) = project_rows s"
  by (simp add: log_call_def)

lemma queries_log_call: "queries (log_call c s) = queries s @ [c]"
  by (simp add: log_call_def)

lemma issued_log_call: "issued s (log_call c s) = [c]"
  by (simp add: issued_def log_call_def)

lemma issued_append: "queries s' = queries s @ cs \<Longrightarrow> issued s s' = cs"
  by (simp add: issued_def)

lemma department_ok_log_call: "department_ok (log_call c s) dep = department_ok s dep"
  by (cases dep) (simp_all add: department_ok_def log_call_def)

lemma projects_exist_log_call: "projects_exist (log_call c s) ids = projects_exist s ids"
  by (simp add: projects_exist_def log_call_def)

lemma associations_log_call: "associations (log_call c s) j = associations s j"
  by (simp add: associations_def log_call_def)

subsection \<open>Finding a row\<close>

lemma find_no_key:
  "k \<notin> set (map employee_id rows) \<Longrightarrow> find (\<lambda>r. employee_id r = k) rows = None"
  by (induction rows) auto

lemma find_key:
  "k \<in> set (map employee_id rows) \<Longrightarrow> \<exists>e. find (\<lambda>r. employee_id r = k) rows = Some e"
  by (induction rows) auto

lemma find_replace:
  "k \<in> set (map employee_id rows) \<Longrightarrow> employee_id e = k \<Longrightarrow>
   find (\<lambda>r. employee_id r = k) (map (\<lambda>r. if employee_id r = k then e else r) rows) = Some e"
  by (induction rows) auto

lemma find_snoc:
  "find P (xs @ [x]) = (case find P xs of None \<Rightarrow> (if P x then Some x else None) | Some y \<Rightarrow> Some y)"
  by (induction xs) auto

lemma get_object_or_404_missing:
  assumes "i \<notin> set (map employee_id (employee_rows s))"
  shows "get_object_or_404 i s = (Inl Http404, log_call (Select_employee i) s)"
  by (simp add: get_object_or_404_def find_no_key[OF assms])

lemma get_object_or_404_found:
  assumes "find (\<lambda>r. employee_id r = i) (employee_rows s) = Some e"
  shows "get_object_or_404 i s = (Inr e, log_call (Select_employee i) s)"
    and "employee_id e = i"
    and "i \<in> set (map employee_id (employee_rows s))"
proof -
  show "get_object_or_404 i s = (Inr e, log_call (Select_employee i) s)"
    by (simp add: get_object_or_404_def assms)
  from assms obtain k where k: "k < length (employee_rows s)" "employee_id (employee_rows s ! k) = i"
    "e = employee_rows s ! k"
    by (auto simp: find_Some_iff)
  from k show "employee_id e = i" by simp
  from k show "i \<in> set (map employee_id (employee_rows s))"
    by (metis length_map nth_map nth_mem)
qed

subsection \<open>Saving a row\<close>

lemma save_ok:
  "department_ok s (employee.department_id e) \<Longrightarrow> fst (save e s) = None"
  by (simp add: save_def)

lemma save_fails:
  "\<not> department_ok s (employee.department_id e) \<Longrightarrow>
   save e s = (Some IntegrityError, log_call (Update_employee (employee_id e)) s)"
  by (simp add: save_def)

lemma find_save:
  assumes "department_ok s (employee.department_id e)"
  shows "find (\<lambda>r. employee_id r = employee_id e) (employee_rows (snd (save e s))) = Some e"
proof (cases "employee_id e \<in> set (map employee_id (employee_rows s))")
  case True
  with assms show ?thesis
    by (simp add: save_def log_call_def find_replace)
next
  case False
  then have "find (\<lambda>r. employee_id r = employee_id e) (employee_rows s) = None"
    by (rule find_no_key)
  with False assms show ?thesis
    by (simp add: save_def log_call_def find_snoc)
qed

lemma employee_projects_save: "employee_projects (snd (save e s)) = employee_projects s"
  by (simp add: save_def log_call_def)

lemma project_rows_save: "project_rows (snd (save e s)) = project_rows s"
  by (simp add: save_def log_call_def)

lemma queries_save: "queries (snd (save e s)) = queries s @ [Update_employee (employee_id e)]"
  by (simp add: save_def log_call_def)

lemma projects_exist_save: "projects_exist (snd (save e s)) ids = projects_exist s ids"
  by (simp add: projects_exist_def project_rows_save)

lemma associations_save: "associations (snd (save e s)) j = associations s j"
  by (simp add: associations_def employee_projects_save)

subsection \<open>Setting the associations\<close>

lemma projects_set_ok: "projects_exist s ids \<Longrightarrow> fst (projects_set i ids s) = None"
  by (simp add: projects_set_def)

lemma projects_set_fails:
  "\<not> projects_exist s ids \<Longrightarrow>
   projects_set i ids s = (Some IntegrityError, log_call (Set_projects i ids) s)"
  by (simp add: projects_set_def)

lemma projects_exist_Nil: "projects_exist s []"
  by (simp add: projects_exist_def)

lemma employee_rows_projects_set: "employee_rows (snd (projects_set i ids s)) = employee_rows s"
  by (simp add: projects_set_def log_call_def)

lemma project_rows_projects_set: "project_rows (snd (projects_set i ids s)) = project_rows s"
  by (simp add: projects_set_def log_call_def)

lemma queries_projects_set:
  "queries (snd (projects_set i ids s)) = queries s @ [Set_projects i ids]"
  by (simp add: projects_set_def log_call_def)

lemma in_projects_set:
  "projects_exist s ids \<Longrightarrow>
   (i, p) \<in> set (employee_projects (snd (projects_set i ids s))) \<longleftrightarrow> p \<in> set ids"
  by (auto simp: projects_set_def log_call_def)

lemma associations_projects_set:
  "projects_exist s ids \<Longrightarrow> set (associations (snd (projects_set i ids s)) i) = set ids"
  by (auto simp: associations_def projects_set_def log_call_def image_iff)

lemma associations_projects_set_other:
  "j \<noteq> i \<Longrightarrow> associations (snd (projects_set i ids s)) j = associations s j"
  by (auto simp: associations_def projects_set_def log_call_def
      intro!: filter_cong arg_cong[where f = "map snd"])

subsection \<open>Deleting a row\<close>

lemma queries_delete: "queries (delete e s) = queries s @ [Delete_employee (employee_id e)]"
  by (simp add: delete_def log_call_def)

subsection \<open>Reading the associations\<close>

lemma resolve_project_ids_set:
  "set (resolve_project_ids s obj) =
     {p \<in> set (map project_id (project_rows s)). (employee_id obj, p) \<in> set (employee_projects s)}"
  by (auto simp: resolve_project_ids_def projects_all_def)

section \<open>Facts about the handlers\<close>

subsection \<open>Create\<close>

lemma create_employee_bad_department:
  assumes "\<not> department_ok s (EmployeeRequest.department_id data)"
  shows "create_employee data s =
           (Inl IntegrityError, log_call (Insert_employee (employee_seq s)) s)"
  using assms by (simp add: create_employee_def objects_create_def Let_def)

text \<open>
  With a department that exists (or none) the row is inserted; what follows depends on
  the projects.
\<close>

lemma create_employee_inserted:
  assumes "department_ok s (EmployeeRequest.department_id data)"
    and "e = \<lparr>employee_id = employee_seq s,
               employee.first_name = EmployeeRequest.first_name data,
               employee.last_name = EmployeeRequest.last_name data,
               employee.department_id = EmployeeRequest.department_id data,
               employee.birthdate = EmployeeRequest.birthdate data\<rparr>"
    and "s1 = log_call (Insert_employee (employee_seq s))
                (s\<lparr>employee_rows := employee_rows s @ [e],
                   employee_seq := employee_seq s + 1\<rparr>)"
  shows "projects_exist s1 ids = projects_exist s ids"
    and "projects_exist s (EmployeeRequest.project_ids data) \<Longrightarrow>
         create_employee data s =
           (Inr e, snd (projects_set (employee_seq s) (EmployeeRequest.project_ids data) s1))"
    and "\<not> projects_exist s (EmployeeRequest.project_ids data) \<Longrightarrow>
         create_employee data s =
           (Inl IntegrityError,
            log_call (Set_projects (employee_seq s) (EmployeeRequest.project_ids data)) s1)"
proof -
  show p: "projects_exist s1 ids = projects_exist s ids" for ids
    by (simp add: assms(3) projects_exist_def log_call_def)
  have c: "create_employee data s =
      (case projects_set (employee_seq s) (EmployeeRequest.project_ids data) s1 of
         (Some err, s2) \<Rightarrow> (Inl err, s2)
       | (None, s2) \<Rightarrow> (Inr e, s2))"
    using assms(1) unfolding assms(2,3)
    by (simp add: create_employee_def objects_create_def Let_def)
  show "create_employee data s =
      (Inr e, snd (projects_set (employee_seq s) (EmployeeRequest.project_ids data) s1))"
    if "projects_exist s (EmployeeRequest.project_ids data)"
  proof -
    from that have "projects_exist s1 (EmployeeRequest.project_ids data)"
      by (simp add: p)
    then have "fst (projects_set (employee_seq s) (EmployeeRequest.project_ids data) s1) = None"
      by (rule projects_set_ok)
    then show ?thesis
      unfolding c by (simp add: case_prod_beta)
  qed
  show "create_employee data s =
      (Inl IntegrityError,
       log_call (Set_projects (employee_seq s) (EmployeeRequest.project_ids data)) s1)"
    if "\<not> projects_exist s (EmployeeRequest.project_ids data)"
  proof -
    from that have "\<not> projects_exist s1 (EmployeeRequest.project_ids data)"
      by (simp add: p)
    then show ?thesis
      unfolding c by (simp add: projects_set_fails)
  qed
qed

subsection \<open>Update\<close>

lemma employee_id_assign_provided: "employee_id (assign_provided data e) = employee_id e"
  by (simp add: assign_provided_def)

lemma assign_provided_absent:
  "EmployeeUpdateRequest.first_name data = None \<Longrightarrow>
     employee.first_name (assign_provided data e) = employee.first_name e"
  "EmployeeUpdateRequest.last_name data = None \<Longrightarrow>
     employee.last_name (assign_provided data e) = employee.last_name e"
  "EmployeeUpdateRequest.department_id data = None \<Longrightarrow>
     employee.department_id (assign_provided data e) = employee.department_id e"
  "EmployeeUpdateRequest.birthdate data = None \<Longrightarrow>
     employee.birthdate (assign_provided data e) = employee.birthdate e"
  by (simp_all add: assign_provided_def dict_get_def)

lemma assign_provided_present:
  "EmployeeUpdateRequest.first_name data = Some a \<Longrightarrow>
     employee.first_name (assign_provided data e) = a"
  "EmployeeUpdateRequest.last_name data = Some b \<Longrightarrow>
     employee.last_name (assign_provided data e) = b"
  "EmployeeUpdateRequest.department_id data = Some d \<Longrightarrow>
     employee.department_id (assign_provided data e) = Some d"
  "EmployeeUpdateRequest.birthdate data = Some t \<Longrightarrow>
     employee.birthdate (assign_provided data e) = Some t"
  by (simp_all add: assign_provided_def dict_get_def)

lemma department_ok_assign_provided:
  assumes "department_ok s (employee.department_id e)"
    and "department_ok s (EmployeeUpdateRequest.department_id data)"
  shows "department_ok s (employee.department_id (assign_provided data e))"
  using assms
  by (cases "EmployeeUpdateRequest.department_id data")
     (simp_all add: assign_provided_def dict_get_def)

text \<open>What \<open>update_employee\<close> does to an employee that exists, case by case.\<close>

lemma update_employee_found:
  assumes "find (\<lambda>r. employee_id r = i) (employee_rows s) = Some e"
    and "e' = assign_provided data e"
    and "s1 = log_call (Select_employee i) s"
  shows "update_employee i data s =
           (case save e' s1 of
              (Some err, s2) \<Rightarrow> (Inl err, s2)
            | (None, s2) \<Rightarrow>
                (case EmployeeUpdateRequest.project_ids data of
                   None \<Rightarrow> (Inr e', s2)
                 | Some [] \<Rightarrow> (Inr e', s2)
                 | Some (p # ps) \<Rightarrow>
                     (case projects_set i (p # ps) s2 of
                        (Some err, s3) \<Rightarrow> (Inl err, s3)
                      | (None, s3) \<Rightarrow> (Inr e', s3))))"
proof -
  have eq: "employee_id (assign_provided data e) = i"
    using get_object_or_404_found(2)[OF assms(1)] by (simp add: employee_id_assign_provided)
  show ?thesis
    unfolding assms(2,3) update_employee_def get_object_or_404_found(1)[OF assms(1)]
      prod.case sum.case eq
    by (rule refl)
qed

lemma update_employee_bad_department:
  assumes "find (\<lambda>r. employee_id r = i) (employee_rows s) = Some e"
    and "\<not> department_ok s (employee.department_id (assign_provided data e))"
  shows "update_employee i data s =
           (Inl IntegrityError,
            log_call (Update_employee i) (log_call (Select_employee i) s))"
proof -
  have "\<not> department_ok (log_call (Select_employee i) s)
      (employee.department_id (assign_provided data e))"
    using assms(2) by (simp add: department_ok_log_call)
  then have "save (assign_provided data e) (log_call (Select_employee i) s) =
      (Some IntegrityError, log_call (Update_employee i) (log_call (Select_employee i) s))"
    using get_object_or_404_found(2)[OF assms(1)]
    by (simp add: save_fails employee_id_assign_provided)
  then show ?thesis
    by (simp add: update_employee_found[OF assms(1) refl refl])
qed

lemma update_employee_saved:
  assumes "find (\<lambda>r. employee_id r = i) (employee_rows s) = Some e"
    and "department_ok s (employee.department_id (assign_provided data e))"
    and "e' = assign_provided data e"
    and "s2 = snd (save e' (log_call (Select_employee i) s))"
  shows "find (\<lambda>r. employee_id r = i) (employee_rows s2) = Some e'"
    and "employee_projects s2 = employee_projects s"
    and "projects_exist s2 ids = projects_exist s ids"
    and "queries s2 = queries s @ [Select_employee i, Update_employee i]"
    and "EmployeeUpdateRequest.project_ids data = None \<or>
         EmployeeUpdateRequest.project_ids data = Some [] \<Longrightarrow>
         update_employee i data s = (Inr e', s2)"
    and "EmployeeUpdateRequest.project_ids data = Some ids \<Longrightarrow> ids \<noteq> [] \<Longrightarrow>
         projects_exist s ids \<Longrightarrow>
         update_employee i data s = (Inr e', snd (projects_set i ids s2))"
    and "EmployeeUpdateRequest.project_ids data = Some ids \<Longrightarrow> ids \<noteq> [] \<Longrightarrow>
         \<not> projects_exist s ids \<Longrightarrow>
         update_employee i data s = (Inl IntegrityError, log_call (Set_projects i ids) s2)"
proof -
  let ?s1 = "log_call (Select_employee i) s"
  have i: "employee_id e' = i"
    using get_object_or_404_found(2)[OF assms(1)] assms(3)
    by (simp add: employee_id_assign_provided)
  have ok: "department_ok ?s1 (employee.department_id e')"
    using assms(2,3) by (simp add: department_ok_log_call)
  have sv: "save e' ?s1 = (None, s2)"
    using save_ok[OF ok] assms(4) by (simp add: prod_eq_iff)
  show "find (\<lambda>r. employee_id r = i) (employee_rows s2) = Some e'"
    using find_save[OF ok] i assms(4) by simp
  show "employee_projects s2 = employee_projects s"
    by (simp add: assms(4) employee_projects_save employee_projects_log_call)
  show pe: "projects_exist s2 ids = projects_exist s ids" for ids
    by (simp add: assms(4) projects_exist_save projects_exist_log_call)
  show "queries s2 = queries s @ [Select_employee i, Update_employee i]"
    by (simp add: assms(4) queries_save queries_log_call i)
  note u = update_employee_found[OF assms(1,3) refl]
  show "update_employee i data s = (Inr e', s2)"
    if "EmployeeUpdateRequest.project_ids data = None \<or>
        EmployeeUpdateRequest.project_ids data = Some []"
    using that unfolding u sv by auto
  show "update_employee i data s = (Inr e', snd (projects_set i ids s2))"
    if "EmployeeUpdateRequest.project_ids data = Some ids" "ids \<noteq> []" "projects_exist s ids"
  proof -
    from that(2) obtain p ps where ids: "ids = p # ps"
      by (cases ids) auto
    from that(3) have "projects_exist s2 ids"
      by (simp add: pe)
    then have "fst (projects_set i ids s2) = None"
      by (rule projects_set_ok)
    then show ?thesis
      unfolding u sv using that(1) ids by (simp add: case_prod_beta)
  qed
  show "update_employee i data s = (Inl IntegrityError, log_call (Set_projects i ids) s2)"
    if "EmployeeUpdateRequest.project_ids data = Some ids" "ids \<noteq> []" "\<not> projects_exist s ids"
  proof -
    from that(2) obtain p ps where ids: "ids = p # ps"
      by (cases ids) auto
    from that(3) have "\<not> projects_exist s2 ids"
      by (simp add: pe)
    then have "projects_set i ids s2 = (Some IntegrityError, log_call (Set_projects i ids) s2)"
      by (rule projects_set_fails)
    then show ?thesis
      unfolding u sv using that(1) ids by simp
  qed
qed

subsection \<open>Delete\<close>

lemma delete_employee_found:
  assumes "find (\<lambda>r. employee_id r = i) (employee_rows s) = Some e"
  shows "delete_employee i s = (Inr (204, ''''), delete e (log_call (Select_employee i) s))"
  by (simp add: delete_employee_def get_object_or_404_found(1)[OF assms])

subsection \<open>The sequence stays ahead of the keys\<close>

lemma sequence_ahead_fresh:
  assumes "sequence_ahead s"
  shows "employee_seq s \<notin> set (map employee_id (employee_rows s))"
  using assms by (auto simp: sequence_ahead_def list_all_iff)

lemma find_created:
  assumes "sequence_ahead s" and "employee_id e = employee_seq s"
  shows "find (\<lambda>r. employee_id r = employee_seq s) (employee_rows s @ [e]) = Some e"
  using find_no_key[OF sequence_ahead_fresh[OF assms(1)]] assms(2)
  by (simp add: find_snoc)

lemma sequence_ahead_empty: "sequence_ahead empty_db"
  by (simp add: sequence_ahead_def empty_db_def)

lemma sequence_ahead_log_call: "sequence_ahead (log_call c s) = sequence_ahead s"
  by (simp add: sequence_ahead_def log_call_def)

lemma sequence_ahead_projects_set:
  "sequence_ahead (snd (projects_set i ids s)) = sequence_ahead s"
  by (simp add: sequence_ahead_def projects_set_def log_call_def)

lemma sequence_ahead_save:
  assumes "sequence_ahead s" and "employee_id e \<in> set (map employee_id (employee_rows s))"
  shows "sequence_ahead (snd (save e s))"
  using assms by (auto simp: sequence_ahead_def save_def log_call_def list_all_iff)

lemma sequence_ahead_delete:
  assumes "sequence_ahead s"
  shows "sequence_ahead (delete e s)"
  using assms by (auto simp: sequence_ahead_def delete_def log_call_def list_all_iff)

lemma sequence_ahead_create:
  assumes "sequence_ahead s"
  shows "sequence_ahead (snd (create_employee data s))"
proof -
  from assms have "list_all (\<lambda>r. employee_id r < employee_seq s + 1) (employee_rows s)"
    by (auto simp: sequence_ahead_def list_all_iff)
  with assms show ?thesis
    by (simp add: create_employee_def objects_create_def Let_def case_prod_beta
        sequence_ahead_projects_set sequence_ahead_log_call split: option.split)
       (simp add: sequence_ahead_def)
qed

lemma sequence_ahead_get: "sequence_ahead (snd (get_employee i s)) = sequence_ahead s"
  by (simp add: get_employee_def get_object_or_404_def sequence_ahead_log_call
      split: option.split)

lemma sequence_ahead_delete_employee:
  assumes "sequence_ahead s"
  shows "sequence_ahead (snd (delete_employee i s))"
  using assms
  by (simp add: delete_employee_def get_object_or_404_def sequence_ahead_log_call
      sequence_ahead_delete split: option.split)

lemma sequence_ahead_update:
  assumes "sequence_ahead s"
  shows "sequence_ahead (snd (update_employee i data s))"
proof (cases "find (\<lambda>r. employee_id r = i) (employee_rows s)")
  case None
  with assms show ?thesis
    by (simp add: update_employee_def get_object_or_404_def sequence_ahead_log_call)
next
  case (Some e)
  let ?s1 = "log_call (Select_employee i) s"
  have "employee_id (assign_provided data e) \<in> set (map employee_id (employee_rows ?s1))"
    using get_object_or_404_found(2,3)[OF Some]
    by (simp add: employee_rows_log_call employee_id_assign_provided)
  then have "sequence_ahead (snd (save (assign_provided data e) ?s1))"
    using assms by (intro sequence_ahead_save) (simp add: sequence_ahead_log_call)
  then show ?thesis
    by (simp add: update_employee_found[OF Some refl refl] case_prod_beta
        sequence_ahead_projects_set split: option.split list.split)
qed

subsection \<open>The outcomes of a create and of an update\<close>

lemma create_employee_succeeds:
  assumes "department_ok s (EmployeeRequest.department_id data)"
    and "projects_exist s (EmployeeRequest.project_ids data)"
    and "e = \<lparr>employee_id = employee_seq s,
               employee.first_name = EmployeeRequest.first_name data,
               employee.last_name = EmployeeRequest.last_name data,
               employee.department_id = EmployeeRequest.department_id data,
               employee.birthdate = EmployeeRequest.birthdate data\<rparr>"
  shows "\<exists>s'. create_employee data s = (Inr e, s') \<and>
           employee_rows s' = employee_rows s @ [e] \<and>
           project_rows s' = project_rows s \<and>
           queries s' = queries s @
             [Insert_employee (employee_seq s),
              Set_projects (employee_seq s) (EmployeeRequest.project_ids data)] \<and>
           set (associations s' (employee_seq s)) = set (EmployeeRequest.project_ids data) \<and>
           (\<forall>p. (employee_seq s, p) \<in> set (employee_projects s') \<longleftrightarrow>
                p \<in> set (EmployeeRequest.project_ids data)) \<and>
           (\<forall>j. j \<noteq> employee_seq s \<longrightarrow> associations s' j = associations s j)"
proof -
  let ?s1 = "log_call (Insert_employee (employee_seq s))
      (s\<lparr>employee_rows := employee_rows s @ [e], employee_seq := employee_seq s + 1\<rparr>)"
  let ?ids = "EmployeeRequest.project_ids data"
  let ?s' = "snd (projects_set (employee_seq s) ?ids ?s1)"
  note ins = create_employee_inserted[OF assms(1,3) refl]
  have ex: "projects_exist ?s1 ?ids"
    using assms(2) by (simp add: ins(1))
  have c: "create_employee data s = (Inr e, ?s')"
    by (rule ins(2)[OF assms(2)])
  have rows: "employee_rows ?s' = employee_rows s @ [e]"
    by (simp add: employee_rows_projects_set employee_rows_log_call)
  have prj: "project_rows ?s' = project_rows s"
    by (simp add: project_rows_projects_set project_rows_log_call)
  have q: "queries ?s' = queries s @ [Insert_employee (employee_seq s),
      Set_projects (employee_seq s) ?ids]"
    by (simp add: queries_projects_set queries_log_call)
  have a: "set (associations ?s' (employee_seq s)) = set ?ids"
    by (rule associations_projects_set[OF ex])
  have l: "\<forall>p. (employee_seq s, p) \<in> set (employee_projects ?s') \<longleftrightarrow> p \<in> set ?ids"
    using in_projects_set[OF ex] by blast
  have s1: "associations ?s1 j = associations s j" for j
    by (simp add: associations_def employee_projects_log_call)
  have o: "\<forall>j. j \<noteq> employee_seq s \<longrightarrow> associations ?s' j = associations s j"
    by (simp add: associations_projects_set_other s1)
  show ?thesis
    by (intro exI[of _ ?s'] conjI) (rule c rows prj q a l o)+
qed

lemma create_employee_missing_project:
  assumes "department_ok s (EmployeeRequest.department_id data)"
    and "\<not> projects_exist s (EmployeeRequest.project_ids data)"
    and "e = \<lparr>employee_id = employee_seq s,
               employee.first_name = EmployeeRequest.first_name data,
               employee.last_name = EmployeeRequest.last_name data,
               employee.department_id = EmployeeRequest.department_id data,
               employee.birthdate = EmployeeRequest.birthdate data\<rparr>"
  shows "\<exists>s'. create_employee data s = (Inl IntegrityError, s') \<and>
           employee_rows s' = employee_rows s @ [e] \<and>
           employee_projects s' = employee_projects s \<and>
           queries s' = queries s @
             [Insert_employee (employee_seq s),
              Set_projects (employee_seq s) (EmployeeRequest.project_ids data)]"
proof -
  let ?s1 = "log_call (Insert_employee (employee_seq s))
      (s\<lparr>employee_rows := employee_rows s @ [e], employee_seq := employee_seq s + 1\<rparr>)"
  let ?s' = "log_call (Set_projects (employee_seq s) (EmployeeRequest.project_ids data)) ?s1"
  have c: "create_employee data s = (Inl IntegrityError, ?s')"
    by (rule create_employee_inserted(3)[OF assms(1,3) refl assms(2)])
  have rows: "employee_rows ?s' = employee_rows s @ [e]"
    by (simp add: employee_rows_log_call)
  have links: "employee_projects ?s' = employee_projects s"
    by (simp add: employee_projects_log_call)
  have q: "queries ?s' = queries s @ [Insert_employee (employee_seq s),
      Set_projects (employee_seq s) (EmployeeRequest.project_ids data)]"
    by (simp add: queries_log_call)
  show ?thesis
    by (intro exI[of _ ?s'] conjI) (rule c rows links q)+
qed

text \<open>The row an update leaves under the id, whether the call on the projects goes through or not.\<close>

lemma update_employee_row:
  assumes "find (\<lambda>r. employee_id r = i) (employee_rows s) = Some e"
    and "department_ok s (employee.department_id (assign_provided data e))"
  shows "find (\<lambda>r. employee_id r = i) (employee_rows (snd (update_employee i data s))) =
           Some (assign_provided data e)"
proof -
  let ?s2 = "snd (save (assign_provided data e) (log_call (Select_employee i) s))"
  note sv = update_employee_saved[OF assms refl refl]
  show ?thesis
  proof (cases "EmployeeUpdateRequest.project_ids data")
    case None
    then show ?thesis
      using sv(1) sv(5) by simp
  next
    case (Some ids)
    show ?thesis
    proof (cases "ids = []")
      case True
      with Some show ?thesis
        using sv(1) sv(5) by simp
    next
      case False
      show ?thesis
      proof (cases "projects_exist s ids")
        case True
        from sv(6)[OF Some False True] sv(1) show ?thesis
          by (simp add: employee_rows_projects_set)
      next
        case no: False
        from sv(7)[OF Some False no] sv(1) show ?thesis
          by (simp add: employee_rows_log_call)
      qed
    qed
  qed
qed

lemma update_employee_unsaved:
  assumes "find (\<lambda>r. employee_id r = i) (employee_rows s) = Some e"
    and "\<not> department_ok s (employee.department_id (assign_provided data e))"
  shows "fst (update_employee i data s) = Inl IntegrityError"
    and "stored (snd (update_employee i data s)) = stored s"
    and "employee_rows (snd (update_employee i data s)) = employee_rows s"
    and "employee_projects (snd (update_employee i data s)) = employee_projects s"
  by (simp_all add: update_employee_bad_department[OF assms] stored_log_call
      employee_rows_log_call employee_projects_log_call)

text \<open>The through table stays unless a list that is not empty, of projects that exist, is set.\<close>

lemma update_employee_links_kept:
  assumes "find (\<lambda>r. employee_id r = i) (employee_rows s) = Some e"
    and "EmployeeUpdateRequest.project_ids data = None \<or>
         EmployeeUpdateRequest.project_ids data = Some [] \<or>
         (\<exists>ids. EmployeeUpdateRequest.project_ids data = Some ids \<and> \<not> projects_exist s ids)"
  shows "employee_projects (snd (update_employee i data s)) = employee_projects s"
proof (cases "department_ok s (employee.department_id (assign_provided data e))")
  case False
  then show ?thesis
    by (rule update_employee_unsaved(4)[OF assms(1)])
next
  case True
  note sv = update_employee_saved[OF assms(1) True refl refl]
  from assms(2) consider
    (none) "EmployeeUpdateRequest.project_ids data = None \<or>
        EmployeeUpdateRequest.project_ids data = Some []"
    | (miss) ids where "EmployeeUpdateRequest.project_ids data = Some ids" "ids \<noteq> []"
        "\<not> projects_exist s ids"
    by (auto simp: projects_exist_Nil)
  then show ?thesis
  proof cases
    case none
    from sv(5)[OF none] sv(2) show ?thesis
      by simp
  next
    case miss
    from sv(7)[OF miss] sv(2) show ?thesis
      by (simp add: employee_projects_log_call)
  qed
qed

lemma update_employee_missing_project:
  assumes "find (\<lambda>r. employee_id r = i) (employee_rows s) = Some e"
    and "EmployeeUpdateRequest.project_ids data = Some ids"
    and "ids \<noteq> []"
    and "\<not> projects_exist s ids"
  shows "fst (update_employee i data s) = Inl IntegrityError"
proof (cases "department_ok s (employee.department_id (assign_provided data e))")
  case False
  then show ?thesis
    by (rule update_employee_unsaved(1)[OF assms(1)])
next
  case True
  from update_employee_saved(7)[OF assms(1) True refl refl assms(2,3,4)] show ?thesis
    by simp
qed

lemma update_employee_links_set:
  assumes "find (\<lambda>r. employee_id r = i) (employee_rows s) = Some e"
    and "department_ok s (employee.department_id (assign_provided data e))"
    and "EmployeeUpdateRequest.project_ids data = Some ids"
    and "ids \<noteq> []"
    and "projects_exist s ids"
  shows "fst (update_employee i data s) = Inr (assign_provided data e)"
    and "set (associations (snd (update_employee i data s)) i) = set ids"
    and "j \<noteq> i \<Longrightarrow> associations (snd (update_employee i data s)) j = associations s j"
proof -
  let ?s2 = "snd (save (assign_provided data e) (log_call (Select_employee i) s))"
  note sv = update_employee_saved[OF assms(1,2) refl refl]
  note u = sv(6)[OF assms(3,4,5)]
  have ex: "projects_exist ?s2 ids"
    using assms(5) by (simp add: sv(3))
  show "fst (update_employee i data s) = Inr (assign_provided data e)"
    by (simp add: u)
  show "set (associations (snd (update_employee i data s)) i) = set ids"
    by (simp add: u associations_projects_set[OF ex])
  show "associations (snd (update_employee i data s)) j = associations s j" if "j \<noteq> i"
    using that
    by (simp add: u associations_projects_set_other associations_save associations_log_call)
qed

lemma update_employee_result:
  assumes "find (\<lambda>r. employee_id r = i) (employee_rows s) = Some e"
    and "department_ok s (employee.department_id (assign_provided data e))"
    and "EmployeeUpdateRequest.project_ids data = None \<or>
         EmployeeUpdateRequest.project_ids data = Some []"
  shows "fst (update_employee i data s) = Inr (assign_provided data e)"
  by (simp add: update_employee_saved(5)[OF assms(1,2) refl refl assms(3)])

subsection \<open>The calls issued and the failures\<close>

lemma not_projects_exist_not_Nil: "\<not> projects_exist s ids \<Longrightarrow> ids \<noteq> []"
  by (auto simp: projects_exist_Nil)

lemma create_employee_rejected:
  assumes "\<not> department_ok s (EmployeeRequest.department_id data)"
  shows "fst (create_employee data s) = Inl IntegrityError"
    and "stored (snd (create_employee data s)) = stored s"
    and "issued s (snd (create_employee data s)) = [Insert_employee (employee_seq s)]"
    and "employee_rows (snd (create_employee data s)) = employee_rows s"
  by (simp_all add: create_employee_bad_department[OF assms] stored_log_call issued_log_call
      employee_rows_log_call)

lemma create_employee_issued:
  assumes "department_ok s (EmployeeRequest.department_id data)"
  shows "issued s (snd (create_employee data s)) =
           [Insert_employee (employee_seq s),
            Set_projects (employee_seq s) (EmployeeRequest.project_ids data)]"
proof (cases "projects_exist s (EmployeeRequest.project_ids data)")
  case True
  from create_employee_succeeds[OF assms True refl] obtain s' where
    "create_employee data s =
       (Inr \<lparr>employee_id = employee_seq s,
             employee.first_name = EmployeeRequest.first_name data,
             employee.last_name = EmployeeRequest.last_name data,
             employee.department_id = EmployeeRequest.department_id data,
             employee.birthdate = EmployeeRequest.birthdate data\<rparr>, s')"
    "queries s' = queries s @
       [Insert_employee (employee_seq s),
        Set_projects (employee_seq s) (EmployeeRequest.project_ids data)]"
    by (elim exE conjE)
  then show ?thesis
    by (simp add: issued_append)
next
  case False
  from create_employee_missing_project[OF assms False refl] obtain s' where
    "create_employee data s = (Inl IntegrityError, s')"
    "queries s' = queries s @
       [Insert_employee (employee_seq s),
        Set_projects (employee_seq s) (EmployeeRequest.project_ids data)]"
    by (elim exE conjE)
  then show ?thesis
    by (simp add: issued_append)
qed

lemma create_employee_half_done:
  assumes "department_ok s (EmployeeRequest.department_id data)"
    and "\<not> projects_exist s (EmployeeRequest.project_ids data)"
  shows "fst (create_employee data s) = Inl IntegrityError"
    and "employee_rows (snd (create_employee data s)) =
           employee_rows s @
             [\<lparr>employee_id = employee_seq s,
               employee.first_name = EmployeeRequest.first_name data,
               employee.last_name = EmployeeRequest.last_name data,
               employee.department_id = EmployeeRequest.department_id data,
               employee.birthdate = EmployeeRequest.birthdate data\<rparr>]"
    and "employee_projects (snd (create_employee data s)) = employee_projects s"
proof -
  from create_employee_missing_project[OF assms refl] obtain s' where
    c: "create_employee data s = (Inl IntegrityError, s')"
    and r: "employee_rows s' =
       employee_rows s @
         [\<lparr>employee_id = employee_seq s,
           employee.first_name = EmployeeRequest.first_name data,
           employee.last_name = EmployeeRequest.last_name data,
           employee.department_id = EmployeeRequest.department_id data,
           employee.birthdate = EmployeeRequest.birthdate data\<rparr>]"
    and l: "employee_projects s' = employee_projects s"
    by (elim exE conjE)
  show "fst (create_employee data s) = Inl IntegrityError"
    by (simp add: c)
  show "employee_rows (snd (create_employee data s)) =
           employee_rows s @
             [\<lparr>employee_id = employee_seq s,
               employee.first_name = EmployeeRequest.first_name data,
               employee.last_name = EmployeeRequest.last_name data,
               employee.department_id = EmployeeRequest.department_id data,
               employee.birthdate = EmployeeRequest.birthdate data\<rparr>]"
    by (simp add: c r)
  show "employee_projects (snd (create_employee data s)) = employee_projects s"
    by (simp add: c l)
qed

lemma update_employee_missing:
  assumes "find (\<lambda>r. employee_id r = i) (employee_rows s) = None"
  shows "update_employee i upd s = (Inl Http404, log_call (Select_employee i) s)"
  by (simp add: update_employee_def get_object_or_404_def assms)

lemma update_employee_issued:
  assumes "find (\<lambda>r. employee_id r = i) (employee_rows s) = Some e"
  shows "issued s (snd (update_employee i upd s)) =
           (if department_ok s (employee.department_id (assign_provided upd e))
            then [Select_employee i, Update_employee i] @
                 (case EmployeeUpdateRequest.project_ids upd of
                    None \<Rightarrow> []
                  | Some [] \<Rightarrow> []
                  | Some (p # ps) \<Rightarrow> [Set_projects i (p # ps)])
            else [Select_employee i, Update_employee i])"
proof (cases "department_ok s (employee.department_id (assign_provided upd e))")
  case False
  have "issued s (snd (update_employee i upd s)) = [Select_employee i, Update_employee i]"
    by (rule issued_append)
       (simp add: update_employee_bad_department[OF assms False] queries_log_call)
  with False show ?thesis
    by simp
next
  case True
  note sv = update_employee_saved[OF assms True refl refl]
  have "issued s (snd (update_employee i upd s)) =
      [Select_employee i, Update_employee i] @
        (case EmployeeUpdateRequest.project_ids upd of
           None \<Rightarrow> []
         | Some [] \<Rightarrow> []
         | Some (p # ps) \<Rightarrow> [Set_projects i (p # ps)])"
  proof (cases "EmployeeUpdateRequest.project_ids upd")
    case None
    then show ?thesis
      by (intro issued_append) (simp add: sv(5) sv(4))
  next
    case (Some ids)
    show ?thesis
    proof (cases ids)
      case Nil
      with Some show ?thesis
        by (intro issued_append) (simp add: sv(5) sv(4))
    next
      case (Cons p ps)
      then have ne: "ids \<noteq> []"
        by simp
      show ?thesis
      proof (cases "projects_exist s ids")
        case True
        show ?thesis
          by (rule issued_append)
             (simp add: sv(6)[OF Some ne True] queries_projects_set sv(4) Some Cons)
      next
        case False
        show ?thesis
          by (rule issued_append)
             (simp add: sv(7)[OF Some ne False] queries_log_call sv(4) Some Cons)
      qed
    qed
  qed
  with True show ?thesis
    by simp
qed

lemma update_employee_ok:
  assumes "find (\<lambda>r. employee_id r = i) (employee_rows s) = Some e"
    and "department_ok s (employee.department_id (assign_provided data e))"
    and "\<forall>ids. EmployeeUpdateRequest.project_ids data = Some ids \<longrightarrow> projects_exist s ids"
  shows "fst (update_employee i data s) = Inr (assign_provided data e)"
proof (cases "EmployeeUpdateRequest.project_ids data")
  case None
  then show ?thesis
    by (intro update_employee_result[OF assms(1,2)]) simp
next
  case (Some ids)
  show ?thesis
  proof (cases "ids = []")
    case True
    with Some show ?thesis
      by (intro update_employee_result[OF assms(1,2)]) simp
  next
    case False
    from assms(3) Some have "projects_exist s ids"
      by simp
    then show ?thesis
      by (rule update_employee_links_set(1)[OF assms(1,2) Some False])
  qed
qed

lemma update_employee_half_done:
  assumes "find (\<lambda>r. employee_id r = i) (employee_rows s) = Some e"
    and "department_ok s (employee.department_id (assign_provided data e))"
    and "EmployeeUpdateRequest.project_ids data = Some ids"
    and "\<not> projects_exist s ids"
  shows "fst (update_employee i data s) = Inl IntegrityError"
    and "find (\<lambda>r. employee_id r = i) (employee_rows (snd (update_employee i data s))) =
           Some (assign_provided data e)"
    and "employee_projects (snd (update_employee i data s)) = employee_projects s"
proof -
  show "fst (update_employee i data s) = Inl IntegrityError"
    by (rule update_employee_missing_project[OF assms(1,3)
          not_projects_exist_not_Nil[OF assms(4)] assms(4)])
  show "find (\<lambda>r. employee_id r = i) (employee_rows (snd (update_employee i data s))) =
           Some (assign_provided data e)"
    by (rule update_employee_row[OF assms(1,2)])
  show "employee_projects (snd (update_employee i data s)) = employee_projects s"
    using assms(3,4) by (intro update_employee_links_kept[OF assms(1)]) simp
qed

text \<open>The row under the id after an update, and what the update answers.\<close>

lemma update_employee_stored_row:
  assumes "find (\<lambda>r. employee_id r = i) (employee_rows s) = Some e"
  shows "find (\<lambda>r. employee_id r = i) (employee_rows (snd (update_employee i data s))) =
           Some (if department_ok s (employee.department_id (assign_provided data e))
                 then assign_provided data e else e)"
proof (cases "department_ok s (employee.department_id (assign_provided data e))")
  case True
  with update_employee_row[OF assms True] show ?thesis
    by simp
next
  case False
  with update_employee_unsaved(3)[OF assms False] assms show ?thesis
    by simp
qed

lemma delete_employee_issued:
  "issued s (snd (delete_employee i s)) =
     (if i \<in> set (map employee_id (employee_rows s))
      then [Select_employee i, Delete_employee i]
      else [Select_employee i])"
proof (cases "i \<in> set (map employee_id (employee_rows s))")
  case False
  then show ?thesis
    by (simp add: delete_employee_def get_object_or_404_missing issued_log_call)
next
  case True
  then obtain e where e: "find (\<lambda>r. employee_id r = i) (employee_rows s) = Some e"
    using find_key by blast
  have "issued s (snd (delete_employee i s)) = [Select_employee i, Delete_employee i]"
    by (rule issued_append)
       (simp add: delete_employee_found[OF e] queries_delete queries_log_call
          get_object_or_404_found(2)[OF e])
  with True show ?thesis
    by simp
qed

lemma delete_employee_failed:
  assumes "isl (fst (delete_employee i s))"
  shows "fst (delete_employee i s) = Inl Http404"
    and "stored (snd (delete_employee i s)) = stored s"
proof -
  have n: "find (\<lambda>r. employee_id r = i) (employee_rows s) = None"
  proof (cases "find (\<lambda>r. employee_id r = i) (employee_rows s)")
    case None
    then show ?thesis .
  next
    case (Some e)
    with assms show ?thesis
      by (simp add: delete_employee_found[OF Some])
  qed
  show "fst (delete_employee i s) = Inl Http404"
    by (simp add: delete_employee_def get_object_or_404_def n)
  show "stored (snd (delete_employee i s)) = stored s"
    by (simp add: delete_employee_def get_object_or_404_def n stored_log_call)
qed

lemma get_employee_calls:
  "issued s (snd (get_employee i s)) = [Select_employee i]"
  "stored (snd (get_employee i s)) = stored s"
  by (simp_all add: get_employee_def get_object_or_404_def issued_log_call stored_log_call
      split: option.split)

lemma create_employee_row:
  assumes "department_ok s (EmployeeRequest.department_id data)"
  shows "employee_rows (snd (create_employee data s)) =
           employee_rows s @
             [\<lparr>employee_id = employee_seq s,
               employee.first_name = EmployeeRequest.first_name data,
               employee.last_name = EmployeeRequest.last_name data,
               employee.department_id = EmployeeRequest.department_id data,
               employee.birthdate = EmployeeRequest.birthdate data\<rparr>]"
proof (cases "projects_exist s (EmployeeRequest.project_ids data)")
  case True
  from create_employee_succeeds[OF assms True refl] obtain s' where
    "create_employee data s =
       (Inr \<lparr>employee_id = employee_seq s,
             employee.first_name = EmployeeRequest.first_name data,
             employee.last_name = EmployeeRequest.last_name data,
             employee.department_id = EmployeeRequest.department_id data,
             employee.birthdate = EmployeeRequest.birthdate data\<rparr>, s')"
    "employee_rows s' =
       employee_rows s @
         [\<lparr>employee_id = employee_seq s,
           employee.first_name = EmployeeRequest.first_name data,
           employee.last_name = EmployeeRequest.last_name data,
           employee.department_id = EmployeeRequest.department_id data,
           employee.birthdate = EmployeeRequest.birthdate data\<rparr>]"
    by (elim exE conjE)
  then show ?thesis
    by simp
next
  case False
  then show ?thesis
    by (rule create_employee_half_done(2)[OF assms])
qed

lemma create_employee_ok:
  assumes "department_ok s (EmployeeRequest.department_id data)"
    and "projects_exist s (EmployeeRequest.project_ids data)"
  shows "fst (create_employee data s) =
           Inr \<lparr>employee_id = employee_seq s,
                employee.first_name = EmployeeRequest.first_name data,
                employee.last_name = EmployeeRequest.last_name data,
                employee.department_id = EmployeeRequest.department_id data,
                employee.birthdate = EmployeeRequest.birthdate data\<rparr>"
proof -
  from create_employee_succeeds[OF assms refl] obtain s' where
    "create_employee data s =
       (Inr \<lparr>employee_id = employee_seq s,
             employee.first_name = EmployeeRequest.first_name data,
             employee.last_name = EmployeeRequest.last_name data,
             employee.department_id = EmployeeRequest.department_id data,
             employee.birthdate = EmployeeRequest.birthdate data\<rparr>, s')"
    by (elim exE conjE)
  then show ?thesis
    by simp
qed

section \<open>Facts about validation\<close>

lemma provided_field_absent: "payload key = None \<Longrightarrow> provided (field payload key v) = None"
  by (simp add: provided_def field_def)

lemma provided_field_present:
  "payload key = Some j \<Longrightarrow> errors (field payload key v) = [] \<Longrightarrow>
   provided (field payload key v) = v j \<and> v j \<noteq> None"
  by (auto simp: provided_def field_def errors_def split: option.splits)

lemma EmployeeUpdateRequest_validate_Inr:
  assumes "EmployeeUpdateRequest_validate lib payload = Inr data"
  shows "EmployeeUpdateRequest.first_name data =
           provided (field payload ''first_name'' (str_validator model_config lib))"
    and "EmployeeUpdateRequest.last_name data =
           provided (field payload ''last_name'' (str_validator model_config lib))"
    and "EmployeeUpdateRequest.department_id data =
           provided (field payload ''department_id'' (int_validator lib))"
    and "EmployeeUpdateRequest.project_ids data =
           provided (field payload ''project_ids'' (list_int_validator lib))"
    and "EmployeeUpdateRequest.birthdate data =
           provided (field payload ''birthdate'' (date_validator lib))"
    and "errors (field payload ''first_name'' (str_validator model_config lib)) = []"
    and "errors (field payload ''last_name'' (str_validator model_config lib)) = []"
    and "errors (field payload ''department_id'' (int_validator lib)) = []"
    and "errors (field payload ''project_ids'' (list_int_validator lib)) = []"
    and "errors (field payload ''birthdate'' (date_validator lib)) = []"
  using assms
  by (auto simp: EmployeeUpdateRequest_validate_def Let_def split: list.splits)

lemma list_int_validator_empty: "list_int_validator lib (JArr []) = Some []"
  by (simp add: list_int_validator_def)

lemma rev_dropWhile_split: "t = rev (dropWhile P (rev t)) @ rev (takeWhile P (rev t))"
proof -
  have "rev t = takeWhile P (rev t) @ dropWhile P (rev t)"
    by simp
  then have "rev (rev t) = rev (takeWhile P (rev t) @ dropWhile P (rev t))"
    by (rule arg_cong)
  then show ?thesis
    by (simp only: rev_rev_ident rev_append)
qed

lemma strip_decompose:
  "\<exists>pre suf. s = pre @ strip ws s @ suf \<and> list_all ws pre \<and> list_all ws suf"
proof -
  let ?t = "dropWhile ws s"
  have 1: "s = takeWhile ws s @ ?t"
    by simp
  have 2: "?t = strip ws s @ rev (takeWhile ws (rev ?t))"
    unfolding strip_def by (rule rev_dropWhile_split)
  have 3: "list_all ws (takeWhile ws s)"
    by (auto simp: list_all_iff dest: set_takeWhileD)
  have 4: "list_all ws (rev (takeWhile ws (rev ?t)))"
    by (auto simp: list_all_iff dest: set_takeWhileD)
  from 1 2 have "s = takeWhile ws s @ strip ws s @ rev (takeWhile ws (rev ?t))"
    by metis
  with 3 4 show ?thesis
    by blast
qed

lemma strip_ends:
  "strip ws s = [] \<or> (\<not> ws (hd (strip ws s)) \<and> \<not> ws (last (strip ws s)))"
proof (cases "strip ws s = []")
  case True
  then show ?thesis by simp
next
  case False
  let ?t = "dropWhile ws s"
  let ?u = "dropWhile ws (rev ?t)"
  from False have u: "?u \<noteq> []"
    by (simp add: strip_def)
  then have "\<not> ws (hd ?u)"
    by (rule hd_dropWhile)
  with u have l: "\<not> ws (last (strip ws s))"
    by (simp add: strip_def last_rev)
  have t: "?t = strip ws s @ rev (takeWhile ws (rev ?t))"
    unfolding strip_def by (rule rev_dropWhile_split)
  with False have "?t \<noteq> []"
    by (metis append_is_Nil_conv)
  then have "\<not> ws (hd ?t)"
    by (rule hd_dropWhile)
  moreover from t False have "hd ?t = hd (strip ws s)"
    by (metis hd_append2)
  ultimately have "\<not> ws (hd (strip ws s))"
    by simp
  with l show ?thesis
    by simp
qed

lemma str_validator_JStr:
  "str_validator model_config lib (JStr a) = Some (strip (whitespace lib) a)"
  by (simp add: str_validator_def model_config_def)

lemma EmployeeRequest_validate_Inr:
  assumes "EmployeeRequest_validate lib payload = Inr data"
  shows "required payload ''first_name'' (str_validator model_config lib) =
           Valid (EmployeeRequest.first_name data)"
    and "required payload ''last_name'' (str_validator model_config lib) =
           Valid (EmployeeRequest.last_name data)"
    and "EmployeeRequest.department_id data =
           provided (field payload ''department_id'' (int_validator lib))"
    and "EmployeeRequest.project_ids data =
           with_default [] (field payload ''project_ids'' (list_int_validator lib))"
    and "EmployeeRequest.birthdate data =
           provided (field payload ''birthdate'' (date_validator lib))"
    and "errors (field payload ''department_id'' (int_validator lib)) = []"
    and "errors (field payload ''project_ids'' (list_int_validator lib)) = []"
    and "errors (field payload ''birthdate'' (date_validator lib)) = []"
  using assms
  by (auto simp: EmployeeRequest_validate_def Let_def split: field.splits list.splits)

lemma crud_EmployeeRequest_validate_Inr:
  assumes "crud_EmployeeRequest_validate lib payload = Inr data"
  shows "required payload ''first_name'' (str_validator model_config lib) =
           Valid (crud_EmployeeRequest.first_name data)"
    and "required payload ''last_name'' (str_validator model_config lib) =
           Valid (crud_EmployeeRequest.last_name data)"
    and "crud_EmployeeRequest.department_id data =
           provided (field payload ''department_id'' (int_validator lib))"
    and "required payload ''project_ids'' (list_int_validator lib) =
           Valid (crud_EmployeeRequest.projects data)"
    and "crud_EmployeeRequest.birthdate data =
           provided (field payload ''birthdate'' (date_validator lib))"
    and "errors (field payload ''department_id'' (int_validator lib)) = []"
    and "errors (field payload ''birthdate'' (date_validator lib)) = []"
  using assms
  by (auto simp: crud_EmployeeRequest_validate_def alias_key_def Let_def
      split: field.splits list.splits)

lemma crud_EmployeeUpdateRequest_validate_Inr:
  assumes "crud_EmployeeUpdateRequest_validate lib payload = Inr data"
  shows "crud_EmployeeUpdateRequest.first_name data =
           provided (field payload ''first_name'' (str_validator model_config lib))"
    and "crud_EmployeeUpdateRequest.last_name data =
           provided (field payload ''last_name'' (str_validator model_config lib))"
    and "crud_EmployeeUpdateRequest.department_id data =
           provided (field payload ''department_id'' (int_validator lib))"
    and "crud_EmployeeUpdateRequest.projects data =
           provided (field payload ''project_ids'' (list_int_validator lib))"
    and "crud_EmployeeUpdateRequest.birthdate data =
           provided (field payload ''birthdate'' (date_validator lib))"
    and "errors (field payload ''first_name'' (str_validator model_config lib)) = []"
    and "errors (field payload ''last_name'' (str_validator model_config lib)) = []"
    and "errors (field payload ''department_id'' (int_validator lib)) = []"
    and "errors (field payload ''project_ids'' (list_int_validator lib)) = []"
    and "errors (field payload ''birthdate'' (date_validator lib)) = []"
  using assms
  by (auto simp: crud_EmployeeUpdateRequest_validate_def alias_key_def Let_def
      split: list.splits)

lemmas validation_defs =
  field_def required_def errors_def provided_def with_default_def alias_key_def
  list_int_validator_def str_validator_def model_config_def

lemma required_JStr:
  assumes "required payload key (str_validator model_config lib) = Valid x"
    and "payload key = Some (JStr a)"
  shows "x = strip (whitespace lib) a"
  using assms by (simp add: required_def field_def str_validator_JStr)

lemma provided_JStr:
  assumes "payload key = Some (JStr a)"
  shows "provided (field payload key (str_validator model_config lib)) =
           Some (strip (whitespace lib) a)"
  using assms by (simp add: provided_def field_def str_validator_JStr)

lemma create_strips:
  assumes "EmployeeRequest_validate lib payload = Inr data"
    and "payload ''first_name'' = Some (JStr a)"
    and "payload ''last_name'' = Some (JStr b)"
  shows "\<exists>r s'. create_employee data s = (r, s') \<and>
           (if department_ok s (EmployeeRequest.department_id data)
            then \<exists>e. e \<in> set (employee_rows s') \<and> employee_id e = employee_seq s \<and>
                   employee.first_name e = strip (whitespace lib) a \<and>
                   employee.last_name e = strip (whitespace lib) b \<and>
                   (projects_exist s (EmployeeRequest.project_ids data) \<longrightarrow> r = Inr e)
            else r = Inl IntegrityError \<and> employee_rows s' = employee_rows s)"
proof -
  note v = EmployeeRequest_validate_Inr[OF assms(1)]
  have fn: "EmployeeRequest.first_name data = strip (whitespace lib) a"
    by (rule required_JStr[OF v(1) assms(2)])
  have ln: "EmployeeRequest.last_name data = strip (whitespace lib) b"
    by (rule required_JStr[OF v(2) assms(3)])
  let ?r = "fst (create_employee data s)"
  let ?s' = "snd (create_employee data s)"
  have "if department_ok s (EmployeeRequest.department_id data)
        then \<exists>e. e \<in> set (employee_rows ?s') \<and> employee_id e = employee_seq s \<and>
               employee.first_name e = strip (whitespace lib) a \<and>
               employee.last_name e = strip (whitespace lib) b \<and>
               (projects_exist s (EmployeeRequest.project_ids data) \<longrightarrow> ?r = Inr e)
        else ?r = Inl IntegrityError \<and> employee_rows ?s' = employee_rows s"
  proof (cases "department_ok s (EmployeeRequest.department_id data)")
    case False
    then show ?thesis
      by (simp add: create_employee_rejected)
  next
    case True
    let ?e = "\<lparr>employee_id = employee_seq s,
          employee.first_name = EmployeeRequest.first_name data,
          employee.last_name = EmployeeRequest.last_name data,
          employee.department_id = EmployeeRequest.department_id data,
          employee.birthdate = EmployeeRequest.birthdate data\<rparr>"
    have 1: "?e \<in> set (employee_rows ?s')"
      by (simp add: create_employee_row[OF True])
    have 2: "employee_id ?e = employee_seq s"
      by simp
    have 3: "employee.first_name ?e = strip (whitespace lib) a"
      by (simp add: fn)
    have 4: "employee.last_name ?e = strip (whitespace lib) b"
      by (simp add: ln)
    have 5: "projects_exist s (EmployeeRequest.project_ids data) \<longrightarrow> ?r = Inr ?e"
      by (simp add: create_employee_ok[OF True])
    have "\<exists>e. e \<in> set (employee_rows ?s') \<and> employee_id e = employee_seq s \<and>
               employee.first_name e = strip (whitespace lib) a \<and>
               employee.last_name e = strip (whitespace lib) b \<and>
               (projects_exist s (EmployeeRequest.project_ids data) \<longrightarrow> ?r = Inr e)"
      by (intro exI[of _ ?e] conjI) (rule 1 2 3 4 5)+
    with True show ?thesis
      by (simp only: if_True)
  qed
  then show ?thesis
    by (intro exI[of _ ?r] exI[of _ ?s'] conjI) simp_all
qed

lemma update_strips:
  assumes "EmployeeUpdateRequest_validate lib payload = Inr upd"
    and "find (\<lambda>r. employee_id r = i) (employee_rows s) = Some old"
  shows "\<exists>r s'. update_employee i upd s = (r, s') \<and>
           (if department_ok s (employee.department_id (assign_provided upd old))
            then \<exists>e'. find (\<lambda>r. employee_id r = i) (employee_rows s') = Some e' \<and>
                   (payload ''first_name'' = Some (JStr a) \<longrightarrow>
                      employee.first_name e' = strip (whitespace lib) a) \<and>
                   (payload ''last_name'' = Some (JStr b) \<longrightarrow>
                      employee.last_name e' = strip (whitespace lib) b) \<and>
                   ((\<forall>ids. EmployeeUpdateRequest.project_ids upd = Some ids \<longrightarrow>
                       projects_exist s ids) \<longrightarrow> r = Inr e')
            else r = Inl IntegrityError \<and> employee_rows s' = employee_rows s)"
proof -
  note v = EmployeeUpdateRequest_validate_Inr[OF assms(1)]
  let ?r = "fst (update_employee i upd s)"
  let ?s' = "snd (update_employee i upd s)"
  let ?e' = "assign_provided upd old"
  have "if department_ok s (employee.department_id ?e')
        then \<exists>e'. find (\<lambda>r. employee_id r = i) (employee_rows ?s') = Some e' \<and>
               (payload ''first_name'' = Some (JStr a) \<longrightarrow>
                  employee.first_name e' = strip (whitespace lib) a) \<and>
               (payload ''last_name'' = Some (JStr b) \<longrightarrow>
                  employee.last_name e' = strip (whitespace lib) b) \<and>
               ((\<forall>ids. EmployeeUpdateRequest.project_ids upd = Some ids \<longrightarrow>
                   projects_exist s ids) \<longrightarrow> ?r = Inr e')
        else ?r = Inl IntegrityError \<and> employee_rows ?s' = employee_rows s"
  proof (cases "department_ok s (employee.department_id ?e')")
    case False
    then show ?thesis
      by (simp add: update_employee_unsaved[OF assms(2)])
  next
    case True
    have 1: "find (\<lambda>r. employee_id r = i) (employee_rows ?s') = Some ?e'"
      by (rule update_employee_row[OF assms(2) True])
    have 2: "payload ''first_name'' = Some (JStr a) \<longrightarrow>
        employee.first_name ?e' = strip (whitespace lib) a"
      by (simp add: assign_provided_def v(1) provided_JStr dict_get_def)
    have 3: "payload ''last_name'' = Some (JStr b) \<longrightarrow>
        employee.last_name ?e' = strip (whitespace lib) b"
      by (simp add: assign_provided_def v(2) provided_JStr dict_get_def)
    have 4: "(\<forall>ids. EmployeeUpdateRequest.project_ids upd = Some ids \<longrightarrow>
        projects_exist s ids) \<longrightarrow> ?r = Inr ?e'"
      using update_employee_ok[OF assms(2) True] by blast
    have "\<exists>e'. find (\<lambda>r. employee_id r = i) (employee_rows ?s') = Some e' \<and>
               (payload ''first_name'' = Some (JStr a) \<longrightarrow>
                  employee.first_name e' = strip (whitespace lib) a) \<and>
               (payload ''last_name'' = Some (JStr b) \<longrightarrow>
                  employee.last_name e' = strip (whitespace lib) b) \<and>
               ((\<forall>ids. EmployeeUpdateRequest.project_ids upd = Some ids \<longrightarrow>
                   projects_exist s ids) \<longrightarrow> ?r = Inr e')"
      by (intro exI[of _ ?e'] conjI) (rule 1 2 3 4)+
    with True show ?thesis
      by (simp only: if_True)
  qed
  then show ?thesis
    by (intro exI[of _ ?r] exI[of _ ?s'] conjI) simp_all
qed

lemma crud_create_strips:
  assumes "crud_EmployeeRequest_validate lib payload = Inr data"
    and "payload ''first_name'' = Some (JStr a)"
    and "payload ''last_name'' = Some (JStr b)"
  shows "crud_EmployeeRequest.first_name data = strip (whitespace lib) a \<and>
         crud_EmployeeRequest.last_name data = strip (whitespace lib) b"
  using crud_EmployeeRequest_validate_Inr(1,2)[OF assms(1)] assms(2,3)
  by (simp add: required_JStr)

lemma crud_update_strips:
  assumes "crud_EmployeeUpdateRequest_validate lib payload = Inr upd"
  shows "(payload ''first_name'' = Some (JStr a) \<longrightarrow>
            crud_EmployeeUpdateRequest.first_name upd = Some (strip (whitespace lib) a)) \<and>
         (payload ''last_name'' = Some (JStr b) \<longrightarrow>
            crud_EmployeeUpdateRequest.last_name upd = Some (strip (whitespace lib) b))"
  using crud_EmployeeUpdateRequest_validate_Inr(1,2)[OF assms]
  by (simp add: provided_JStr)

lemma required_not_Unset: "required payload key v \<noteq> Unset"
  by (simp add: required_def split: field.split)

lemma field_other_key: "k \<noteq> key \<Longrightarrow> field (payload(k := x)) key v = field payload key v"
  by (simp add: field_def)

lemma required_other_key:
  "k \<noteq> key \<Longrightarrow> required (payload(k := x)) key v = required payload key v"
  by (simp add: required_def field_other_key)

lemma create_schemas_agree:
  assumes "fn \<noteq> Unset" and "ln \<noteq> Unset" and "prj \<noteq> Unset"
  shows "map_sum id
           (\<lambda>d. \<lparr>EmployeeRequest.first_name = crud_EmployeeRequest.first_name d,
                 last_name = crud_EmployeeRequest.last_name d,
                 department_id = crud_EmployeeRequest.department_id d,
                 project_ids = crud_EmployeeRequest.projects d,
                 birthdate = crud_EmployeeRequest.birthdate d\<rparr>)
           (case (fn, ln, prj, errors dep @ errors bd) of
              (Valid a, Valid b, Valid ps, []) \<Rightarrow>
                Inr \<lparr>crud_EmployeeRequest.first_name = a,
                     crud_EmployeeRequest.last_name = b,
                     crud_EmployeeRequest.department_id = provided dep,
                     crud_EmployeeRequest.projects = ps,
                     crud_EmployeeRequest.birthdate = provided bd\<rparr>
            | _ \<Rightarrow> Inl (errors fn @ errors ln @ errors dep @ errors prj @ errors bd)) =
         (case (fn, ln, errors dep @ errors prj @ errors bd) of
            (Valid a, Valid b, []) \<Rightarrow>
              Inr \<lparr>EmployeeRequest.first_name = a,
                   EmployeeRequest.last_name = b,
                   EmployeeRequest.department_id = provided dep,
                   EmployeeRequest.project_ids = with_default [] prj,
                   EmployeeRequest.birthdate = provided bd\<rparr>
          | _ \<Rightarrow> Inl (errors fn @ errors ln @ errors dep @ errors prj @ errors bd))"
  using assms
  by (cases fn; cases ln; cases prj; cases dep; cases bd)
     (simp_all add: errors_def provided_def with_default_def)

lemma update_schemas_agree:
  "map_sum id
     (\<lambda>d. \<lparr>EmployeeUpdateRequest.first_name = crud_EmployeeUpdateRequest.first_name d,
           last_name = crud_EmployeeUpdateRequest.last_name d,
           department_id = crud_EmployeeUpdateRequest.department_id d,
           project_ids = crud_EmployeeUpdateRequest.projects d,
           birthdate = crud_EmployeeUpdateRequest.birthdate d\<rparr>)
     (crud_EmployeeUpdateRequest_validate lib payload) =
   EmployeeUpdateRequest_validate lib payload"
  by (simp add: crud_EmployeeUpdateRequest_validate_def EmployeeUpdateRequest_validate_def
      alias_key_def Let_def split: list.split)

lemma crud_create_requires_project_ids:
  assumes "payload ''project_ids'' = None"
  shows "\<exists>errs. crud_EmployeeRequest_validate lib payload = Inl errs \<and>
           Missing ''project_ids'' \<in> set errs"
proof -
  have "required payload ''project_ids'' (list_int_validator lib) = Error (Missing ''project_ids'')"
    by (simp add: required_def field_def assms)
  then show ?thesis
    by (simp add: crud_EmployeeRequest_validate_def alias_key_def Let_def errors_def
        split: field.split)
qed

lemma create_default_project_ids:
  assumes "payload ''project_ids'' = None"
  shows "EmployeeRequest_validate lib (payload(''project_ids'' \<mapsto> JArr [])) =
           EmployeeRequest_validate lib payload"
proof -
  let ?p = "payload(''project_ids'' \<mapsto> JArr [])"
  have 1: "field ?p ''project_ids'' (list_int_validator lib) = Valid []"
    by (simp add: field_def list_int_validator_empty)
  have 2: "field payload ''project_ids'' (list_int_validator lib) = Unset"
    by (simp add: field_def assms)
  have fn: "required ?p ''first_name'' (str_validator model_config lib) =
      required payload ''first_name'' (str_validator model_config lib)"
    by (simp add: required_def field_def)
  have ln: "required ?p ''last_name'' (str_validator model_config lib) =
      required payload ''last_name'' (str_validator model_config lib)"
    by (simp add: required_def field_def)
  have dep: "field ?p ''department_id'' (int_validator lib) =
      field payload ''department_id'' (int_validator lib)"
    by (simp add: field_def)
  have bd: "field ?p ''birthdate'' (date_validator lib) =
      field payload ''birthdate'' (date_validator lib)"
    by (simp add: field_def)
  have e: "errors (Valid ([]::int list)) = errors (Unset::int list field)"
    by (simp add: errors_def)
  have w: "with_default [] (Valid ([]::int list)) = with_default [] Unset"
    by (simp add: with_default_def)
  show ?thesis
    unfolding EmployeeRequest_validate_def fn ln dep bd 1 2 Let_def e w by (rule refl)
qed

lemma create_without_associations:
  assumes "EmployeeRequest.project_ids data = []"
    and "department_ok s (EmployeeRequest.department_id data)"
  shows "\<exists>e s'. create_employee data s = (Inr e, s') \<and> e \<in> set (employee_rows s') \<and>
           associations s' (employee_id e) = []"
proof -
  let ?e = "\<lparr>employee_id = employee_seq s,
          employee.first_name = EmployeeRequest.first_name data,
          employee.last_name = EmployeeRequest.last_name data,
          employee.department_id = EmployeeRequest.department_id data,
          employee.birthdate = EmployeeRequest.birthdate data\<rparr>"
  have ex: "projects_exist s (EmployeeRequest.project_ids data)"
    by (simp add: assms(1) projects_exist_Nil)
  from create_employee_succeeds[OF assms(2) ex refl] obtain s' where
    c: "create_employee data s = (Inr ?e, s')"
    and r: "employee_rows s' = employee_rows s @ [?e]"
    and a: "set (associations s' (employee_seq s)) = set (EmployeeRequest.project_ids data)"
    by (elim exE conjE)
  have 1: "?e \<in> set (employee_rows s')"
    by (simp add: r)
  from a have "set (associations s' (employee_seq s)) = {}"
    by (simp add: assms(1))
  then have "associations s' (employee_seq s) = []"
    by (simp only: set_empty)
  then have 2: "associations s' (employee_id ?e) = []"
    by simp
  show ?thesis
    by (intro exI[of _ ?e] exI[of _ s'] conjI) (rule c 1 2)+
qed

lemma create_valid:
  assumes "payload ''first_name'' = Some (JStr a)"
    and "payload ''last_name'' = Some (JStr b)"
    and "\<forall>j. payload ''department_id'' = Some j \<longrightarrow> int_validator lib j \<noteq> None"
    and "\<forall>j. payload ''project_ids'' = Some j \<longrightarrow> list_int_validator lib j \<noteq> None"
    and "\<forall>j. payload ''birthdate'' = Some j \<longrightarrow> date_validator lib j \<noteq> None"
  shows "\<exists>data. EmployeeRequest_validate lib payload = Inr data"
proof -
  have fn: "required payload ''first_name'' (str_validator model_config lib) =
      Valid (strip (whitespace lib) a)"
    by (simp add: required_def field_def assms(1) str_validator_JStr)
  have ln: "required payload ''last_name'' (str_validator model_config lib) =
      Valid (strip (whitespace lib) b)"
    by (simp add: required_def field_def assms(2) str_validator_JStr)
  have dep: "errors (field payload ''department_id'' (int_validator lib)) = []"
    using assms(3) by (auto simp: field_def errors_def split: option.splits)
  have pids: "errors (field payload ''project_ids'' (list_int_validator lib)) = []"
    using assms(4) by (auto simp: field_def errors_def split: option.splits)
  have bd: "errors (field payload ''birthdate'' (date_validator lib)) = []"
    using assms(5) by (auto simp: field_def errors_def split: option.splits)
  show ?thesis
    by (simp add: EmployeeRequest_validate_def fn ln dep pids bd)
qed

section \<open>Facts about the bearer token\<close>

lemma split_not_Nil: "split s sep \<noteq> []"
  by (induction s) (auto split: list.splits)

lemma length_split: "length (split s sep) = Suc (length (filter (\<lambda>c. c = sep) s))"
  by (induction s) (auto split: list.splits simp: split_not_Nil)

text \<open>
  The pieces of a split contain no separator; a string splits into exactly two pieces
  when it has exactly one separator, and the pieces are what stands before and after it.
\<close>

lemma split_one_iff: "split s sep = [a] \<longleftrightarrow> s = a \<and> sep \<notin> set a"
proof (induction s arbitrary: a)
  case Nil
  then show ?case by auto
next
  case (Cons c s)
  show ?case
  proof (cases "c = sep")
    case True
    then show ?thesis by (auto simp: split_not_Nil)
  next
    case False
    with Cons show ?thesis
      by (cases "split s sep"; cases a) (auto simp: split_not_Nil)
  qed
qed

lemma split_two_iff:
  "split s sep = [a, b] \<longleftrightarrow> s = a @ sep # b \<and> sep \<notin> set a \<and> sep \<notin> set b"
proof (induction s arbitrary: a)
  case Nil
  then show ?case by auto
next
  case (Cons c s)
  show ?case
  proof (cases "c = sep")
    case True
    then show ?thesis
      by (cases a) (auto simp: split_one_iff)
  next
    case False
    with Cons show ?thesis
      by (cases "split s sep"; cases a) (auto simp: split_not_Nil)
  qed
qed


lemma authenticate_rejected:
  assumes "length (split token CHR '':'') \<noteq> 2 \<or> hd (split token CHR '':'') \<noteq> ''supersecret''"
  shows "authenticate to_python users request token = Inr (None, request)"
  using assms by (auto simp: authenticate_def split: list.splits)

lemma authenticate_user:
  assumes "split token CHR '':'' = [''supersecret'', uid]"
    and "to_python uid = Some n"
    and "find (\<lambda>u. auth_user_id u = n) users = Some u"
  shows "authenticate to_python users request token =
           Inr (Some u, request\<lparr>request_user := User u\<rparr>)"
  using assms by (simp add: authenticate_def filter_first_def)

lemma authenticate_unknown_user:
  assumes "split token CHR '':'' = [''supersecret'', uid]"
    and "to_python uid = Some n"
    and "find (\<lambda>u. auth_user_id u = n) users = None"
  shows "authenticate to_python users request token =
           Inr (None, request\<lparr>request_user := AnonymousUser\<rparr>)"
  using assms by (simp add: authenticate_def filter_first_def)

lemma authenticate_not_a_number:
  assumes "split token CHR '':'' = [''supersecret'', uid]"
    and "to_python uid = None"
  shows "authenticate to_python users request token = Inl ValueError"
  using assms by (simp add: authenticate_def filter_first_def)

lemma two_parts:
  assumes "length (split token CHR '':'') = 2" and "hd (split token CHR '':'') = ''supersecret''"
  shows "\<exists>uid. split token CHR '':'' = [''supersecret'', uid]"
proof -
  from assms(1) obtain a b where "split token CHR '':'' = [a, b]"
    by (cases "split token CHR '':''"; cases "tl (split token CHR '':'')") auto
  with assms(2) show ?thesis by simp
qed

section \<open>Missing employees\<close>

text \<open>
  C4. For an employee id that no row of the store has, reading, updating and deleting by
  that id each fail with \<open>Http404\<close> (HTTP 404); the delete leaves every table as it was,
  so no entity is removed.
\<close>

theorem missing_id_not_found:
  assumes "i \<notin> set (map employee_id (employee_rows s))"
  shows "fst (get_employee i s) = Inl Http404 \<and>
         fst (update_employee i data s) = Inl Http404 \<and>
         fst (delete_employee i s) = Inl Http404 \<and>
         stored (snd (delete_employee i s)) = stored s"
  using assms
  by (simp add: get_employee_def update_employee_def delete_employee_def
      get_object_or_404_missing stored_log_call)

theorem missing_id_not_found_witness:
  "(7::int) \<notin> set (map employee_id (employee_rows (seed_basic_app (Date 2024 3 15) empty_db))) \<and>
   fst (get_employee 7 (seed_basic_app (Date 2024 3 15) empty_db)) = Inl Http404 \<and>
   fst (update_employee 7
          \<lparr>EmployeeUpdateRequest.first_name = None, last_name = Some ''Jones'',
           department_id = None, project_ids = None, birthdate = None\<rparr>
          (seed_basic_app (Date 2024 3 15) empty_db)) = Inl Http404 \<and>
   fst (delete_employee 7 (seed_basic_app (Date 2024 3 15) empty_db)) = Inl Http404 \<and>
   employee_rows (snd (delete_employee 7 (seed_basic_app (Date 2024 3 15) empty_db))) =
     employee_rows (seed_basic_app (Date 2024 3 15) empty_db)"
proof -
  have h: "(7::int) \<notin> set (map employee_id (employee_rows (seed_basic_app (Date 2024 3 15) empty_db)))"
    by (simp add: seeded_db)
  from missing_id_not_found[OF h] h show ?thesis
    by (simp add: stored_def)
qed

section \<open>Partial update\<close>

text \<open>
  C1. For an employee that exists and a PATCH payload that validates, look at the row
  stored under the id after the update. Every field whose key is absent from the payload
  (first_name, last_name, department_id, birthdate) has the value it had, and without
  project_ids the through table is as it was; this holds however the update ends. The
  fields whose key is present are applied: when the database accepts the row (the
  department the row had and the department the payload gives, if any, exist), the
  stored row has, for each key present, the validated value of the payload, and a list
  of project ids (not empty, all of projects that exist) has become the employee's
  associations. When moreover every project id provided exists, the update answers with
  that row.
\<close>

theorem patch_applies_present_fields:
  assumes "find (\<lambda>r. employee_id r = i) (employee_rows s) = Some e"
    and "EmployeeUpdateRequest_validate lib payload = Inr data"
  shows "\<exists>r s' e'. update_employee i data s = (r, s') \<and>
           find (\<lambda>r. employee_id r = i) (employee_rows s') = Some e' \<and>
           (payload ''first_name'' = None \<longrightarrow> employee.first_name e' = employee.first_name e) \<and>
           (payload ''last_name'' = None \<longrightarrow> employee.last_name e' = employee.last_name e) \<and>
           (payload ''department_id'' = None \<longrightarrow>
              employee.department_id e' = employee.department_id e) \<and>
           (payload ''birthdate'' = None \<longrightarrow> employee.birthdate e' = employee.birthdate e) \<and>
           (payload ''project_ids'' = None \<longrightarrow> employee_projects s' = employee_projects s) \<and>
           (department_ok s (employee.department_id e) \<and>
            department_ok s (EmployeeUpdateRequest.department_id data) \<longrightarrow>
              (\<forall>j. payload ''first_name'' = Some j \<longrightarrow>
                 str_validator model_config lib j = Some (employee.first_name e')) \<and>
              (\<forall>j. payload ''last_name'' = Some j \<longrightarrow>
                 str_validator model_config lib j = Some (employee.last_name e')) \<and>
              (\<forall>j. payload ''department_id'' = Some j \<longrightarrow>
                 int_validator lib j = employee.department_id e' \<and>
                 employee.department_id e' \<noteq> None) \<and>
              (\<forall>j. payload ''birthdate'' = Some j \<longrightarrow>
                 date_validator lib j = employee.birthdate e' \<and>
                 employee.birthdate e' \<noteq> None) \<and>
              (\<forall>j ids. payload ''project_ids'' = Some j \<and>
                 list_int_validator lib j = Some ids \<and> ids \<noteq> [] \<and> projects_exist s ids \<longrightarrow>
                 set (associations s' i) = set ids) \<and>
              ((\<forall>ids. EmployeeUpdateRequest.project_ids data = Some ids \<longrightarrow>
                  projects_exist s ids) \<longrightarrow> r = Inr e'))"
proof -
  note v = EmployeeUpdateRequest_validate_Inr[OF assms(2)]
  let ?r = "fst (update_employee i data s)"
  let ?s' = "snd (update_employee i data s)"
  let ?e' = "if department_ok s (employee.department_id (assign_provided data e))
             then assign_provided data e else e"
  have u: "update_employee i data s = (?r, ?s')"
    by simp
  have row: "find (\<lambda>r. employee_id r = i) (employee_rows ?s') = Some ?e'"
    by (rule update_employee_stored_row[OF assms(1)])
  have fn: "payload ''first_name'' = None \<longrightarrow>
      employee.first_name ?e' = employee.first_name e"
    by (simp add: v(1) provided_field_absent assign_provided_absent)
  have ln: "payload ''last_name'' = None \<longrightarrow> employee.last_name ?e' = employee.last_name e"
    by (simp add: v(2) provided_field_absent assign_provided_absent)
  have dep: "payload ''department_id'' = None \<longrightarrow>
      employee.department_id ?e' = employee.department_id e"
    by (simp add: v(3) provided_field_absent assign_provided_absent)
  have bd: "payload ''birthdate'' = None \<longrightarrow> employee.birthdate ?e' = employee.birthdate e"
    by (simp add: v(5) provided_field_absent assign_provided_absent)
  have pids: "payload ''project_ids'' = None \<longrightarrow> employee_projects ?s' = employee_projects s"
  proof
    assume "payload ''project_ids'' = None"
    then have "EmployeeUpdateRequest.project_ids data = None"
      by (simp add: v(4) provided_field_absent)
    then show "employee_projects ?s' = employee_projects s"
      by (intro update_employee_links_kept[OF assms(1)]) simp
  qed
  have app: "department_ok s (employee.department_id e) \<and>
      department_ok s (EmployeeUpdateRequest.department_id data) \<longrightarrow>
        (\<forall>j. payload ''first_name'' = Some j \<longrightarrow>
           str_validator model_config lib j = Some (employee.first_name ?e')) \<and>
        (\<forall>j. payload ''last_name'' = Some j \<longrightarrow>
           str_validator model_config lib j = Some (employee.last_name ?e')) \<and>
        (\<forall>j. payload ''department_id'' = Some j \<longrightarrow>
           int_validator lib j = employee.department_id ?e' \<and>
           employee.department_id ?e' \<noteq> None) \<and>
        (\<forall>j. payload ''birthdate'' = Some j \<longrightarrow>
           date_validator lib j = employee.birthdate ?e' \<and>
           employee.birthdate ?e' \<noteq> None) \<and>
        (\<forall>j ids. payload ''project_ids'' = Some j \<and>
           list_int_validator lib j = Some ids \<and> ids \<noteq> [] \<and> projects_exist s ids \<longrightarrow>
           set (associations ?s' i) = set ids) \<and>
        ((\<forall>ids. EmployeeUpdateRequest.project_ids data = Some ids \<longrightarrow>
            projects_exist s ids) \<longrightarrow> ?r = Inr ?e')"
  proof
    assume "department_ok s (employee.department_id e) \<and>
      department_ok s (EmployeeUpdateRequest.department_id data)"
    then have ok: "department_ok s (employee.department_id (assign_provided data e))"
      by (simp add: department_ok_assign_provided)
    then have e': "?e' = assign_provided data e"
      by simp
    have a1: "\<forall>j. payload ''first_name'' = Some j \<longrightarrow>
        str_validator model_config lib j = Some (employee.first_name ?e')"
    proof (intro allI impI)
      fix j
      assume p: "payload ''first_name'' = Some j"
      from provided_field_present[OF p v(6)] obtain x where
        x: "str_validator model_config lib j = Some x"
          "EmployeeUpdateRequest.first_name data = Some x"
        by (auto simp: v(1))
      show "str_validator model_config lib j = Some (employee.first_name ?e')"
        unfolding e' by (simp add: x(1) assign_provided_present(1)[OF x(2)])
    qed
    have a2: "\<forall>j. payload ''last_name'' = Some j \<longrightarrow>
        str_validator model_config lib j = Some (employee.last_name ?e')"
    proof (intro allI impI)
      fix j
      assume p: "payload ''last_name'' = Some j"
      from provided_field_present[OF p v(7)] obtain x where
        x: "str_validator model_config lib j = Some x"
          "EmployeeUpdateRequest.last_name data = Some x"
        by (auto simp: v(2))
      show "str_validator model_config lib j = Some (employee.last_name ?e')"
        unfolding e' by (simp add: x(1) assign_provided_present(2)[OF x(2)])
    qed
    have a3: "\<forall>j. payload ''department_id'' = Some j \<longrightarrow>
        int_validator lib j = employee.department_id ?e' \<and>
        employee.department_id ?e' \<noteq> None"
    proof (intro allI impI)
      fix j
      assume p: "payload ''department_id'' = Some j"
      from provided_field_present[OF p v(8)] obtain x where
        x: "int_validator lib j = Some x"
          "EmployeeUpdateRequest.department_id data = Some x"
        by (auto simp: v(3))
      show "int_validator lib j = employee.department_id ?e' \<and>
        employee.department_id ?e' \<noteq> None"
        unfolding e' by (simp add: x(1) assign_provided_present(3)[OF x(2)])
    qed
    have a4: "\<forall>j. payload ''birthdate'' = Some j \<longrightarrow>
        date_validator lib j = employee.birthdate ?e' \<and>
        employee.birthdate ?e' \<noteq> None"
    proof (intro allI impI)
      fix j
      assume p: "payload ''birthdate'' = Some j"
      from provided_field_present[OF p v(10)] obtain x where
        x: "date_validator lib j = Some x"
          "EmployeeUpdateRequest.birthdate data = Some x"
        by (auto simp: v(5))
      show "date_validator lib j = employee.birthdate ?e' \<and>
        employee.birthdate ?e' \<noteq> None"
        unfolding e' by (simp add: x(1) assign_provided_present(4)[OF x(2)])
    qed
    have a5: "\<forall>j ids. payload ''project_ids'' = Some j \<and>
        list_int_validator lib j = Some ids \<and> ids \<noteq> [] \<and> projects_exist s ids \<longrightarrow>
        set (associations ?s' i) = set ids"
    proof (intro allI impI)
      fix j ids
      assume p: "payload ''project_ids'' = Some j \<and>
        list_int_validator lib j = Some ids \<and> ids \<noteq> [] \<and> projects_exist s ids"
      then have pj: "payload ''project_ids'' = Some j"
        by simp
      from provided_field_present[OF pj v(9)] p
      have d: "EmployeeUpdateRequest.project_ids data = Some ids"
        by (simp add: v(4))
      from p have ne: "ids \<noteq> []" and ex: "projects_exist s ids"
        by simp_all
      show "set (associations ?s' i) = set ids"
        by (rule update_employee_links_set(2)[OF assms(1) ok d ne ex])
    qed
    have a6: "(\<forall>ids. EmployeeUpdateRequest.project_ids data = Some ids \<longrightarrow>
        projects_exist s ids) \<longrightarrow> ?r = Inr ?e'"
      unfolding e' using update_employee_ok[OF assms(1) ok] by blast
    show "(\<forall>j. payload ''first_name'' = Some j \<longrightarrow>
           str_validator model_config lib j = Some (employee.first_name ?e')) \<and>
        (\<forall>j. payload ''last_name'' = Some j \<longrightarrow>
           str_validator model_config lib j = Some (employee.last_name ?e')) \<and>
        (\<forall>j. payload ''department_id'' = Some j \<longrightarrow>
           int_validator lib j = employee.department_id ?e' \<and>
           employee.department_id ?e' \<noteq> None) \<and>
        (\<forall>j. payload ''birthdate'' = Some j \<longrightarrow>
           date_validator lib j = employee.birthdate ?e' \<and>
           employee.birthdate ?e' \<noteq> None) \<and>
        (\<forall>j ids. payload ''project_ids'' = Some j \<and>
           list_int_validator lib j = Some ids \<and> ids \<noteq> [] \<and> projects_exist s ids \<longrightarrow>
           set (associations ?s' i) = set ids) \<and>
        ((\<forall>ids. EmployeeUpdateRequest.project_ids data = Some ids \<longrightarrow>
            projects_exist s ids) \<longrightarrow> ?r = Inr ?e')"
      by (rule conjI[OF a1 conjI[OF a2 conjI[OF a3 conjI[OF a4 conjI[OF a5 a6]]]]])
  qed
  show ?thesis
    by (intro exI[of _ ?r] exI[of _ ?s'] exI[of _ ?e'])
       (rule conjI[OF u conjI[OF row conjI[OF fn conjI[OF ln conjI[OF dep conjI[OF bd
          conjI[OF pids app]]]]]]])
qed

theorem patch_applies_present_fields_witness:
  "find (\<lambda>r. employee_id r = 1) (employee_rows (seed_basic_app (Date 2024 3 15) empty_db)) =
     Some \<lparr>employee_id = 1, employee.first_name = ''Bob'', employee.last_name = ''Smith'',
           employee.department_id = Some 1, employee.birthdate = Some (Date 2024 3 15)\<rparr> \<and>
   EmployeeUpdateRequest_validate example_validators
     [''last_name'' \<mapsto> JStr '' Jones'', ''department_id'' \<mapsto> JNum 2,
      ''project_ids'' \<mapsto> JArr [JNum 2]] =
     Inr \<lparr>EmployeeUpdateRequest.first_name = None, last_name = Some ''Jones'',
          department_id = Some 2, project_ids = Some [2], birthdate = None\<rparr> \<and>
   department_ok (seed_basic_app (Date 2024 3 15) empty_db) (Some 1) \<and>
   department_ok (seed_basic_app (Date 2024 3 15) empty_db) (Some 2) \<and>
   projects_exist (seed_basic_app (Date 2024 3 15) empty_db) [2] \<and>
   (\<exists>r s' e'.
      update_employee 1
        \<lparr>EmployeeUpdateRequest.first_name = None, last_name = Some ''Jones'',
         department_id = Some 2, project_ids = Some [2], birthdate = None\<rparr>
        (seed_basic_app (Date 2024 3 15) empty_db) = (r, s') \<and>
      find (\<lambda>r. employee_id r = 1) (employee_rows s') = Some e' \<and>
      r = Inr e' \<and>
      employee.first_name e' = ''Bob'' \<and>
      employee.last_name e' = ''Jones'' \<and>
      employee.department_id e' = Some 2 \<and>
      employee.birthdate e' = Some (Date 2024 3 15) \<and>
      set (associations s' 1) = {2})"
proof -
  let ?s = "seed_basic_app (Date 2024 3 15) empty_db"
  let ?e = "\<lparr>employee_id = 1, employee.first_name = ''Bob'', employee.last_name = ''Smith'',
           employee.department_id = Some 1, employee.birthdate = Some (Date 2024 3 15)\<rparr>"
  let ?p = "[''last_name'' \<mapsto> JStr '' Jones'', ''department_id'' \<mapsto> JNum 2,
      ''project_ids'' \<mapsto> JArr [JNum 2]]"
  let ?d = "\<lparr>EmployeeUpdateRequest.first_name = None, last_name = Some ''Jones'',
         department_id = Some 2, project_ids = Some [2], birthdate = None\<rparr>"
  have h1: "find (\<lambda>r. employee_id r = 1) (employee_rows ?s) = Some ?e"
    by (simp add: seeded_db)
  have h2: "EmployeeUpdateRequest_validate example_validators ?p = Inr ?d"
    by (simp add: EmployeeUpdateRequest_validate_def validation_defs example_validators_def
        strip_def)
  have k1: "department_ok ?s (Some 1)" and k2: "department_ok ?s (Some 2)"
    and k3: "projects_exist ?s [2]"
    by (simp_all add: seeded_db department_ok_def projects_exist_def)
  have sv: "str_validator model_config example_validators (JStr '' Jones'') = Some ''Jones''"
    by (simp add: str_validator_def model_config_def example_validators_def strip_def)
  have iv: "int_validator example_validators (JNum 2) = Some 2"
    by (simp add: example_validators_def)
  have lv: "list_int_validator example_validators (JArr [JNum 2]) = Some [2]"
    by (simp add: list_int_validator_def example_validators_def)
  from patch_applies_present_fields[OF h1 h2] obtain r s' e' where
    u: "update_employee 1 ?d ?s = (r, s')"
    and row: "find (\<lambda>r. employee_id r = 1) (employee_rows s') = Some e'"
    and fn: "?p ''first_name'' = None \<longrightarrow> employee.first_name e' = employee.first_name ?e"
    and bd: "?p ''birthdate'' = None \<longrightarrow> employee.birthdate e' = employee.birthdate ?e"
    and app: "department_ok ?s (employee.department_id ?e) \<and>
      department_ok ?s (EmployeeUpdateRequest.department_id ?d) \<longrightarrow>
        (\<forall>j. ?p ''first_name'' = Some j \<longrightarrow>
           str_validator model_config example_validators j = Some (employee.first_name e')) \<and>
        (\<forall>j. ?p ''last_name'' = Some j \<longrightarrow>
           str_validator model_config example_validators j = Some (employee.last_name e')) \<and>
        (\<forall>j. ?p ''department_id'' = Some j \<longrightarrow>
           int_validator example_validators j = employee.department_id e' \<and>
           employee.department_id e' \<noteq> None) \<and>
        (\<forall>j. ?p ''birthdate'' = Some j \<longrightarrow>
           date_validator example_validators j = employee.birthdate e' \<and>
           employee.birthdate e' \<noteq> None) \<and>
        (\<forall>j ids. ?p ''project_ids'' = Some j \<and>
           list_int_validator example_validators j = Some ids \<and> ids \<noteq> [] \<and>
           projects_exist ?s ids \<longrightarrow>
           set (associations s' 1) = set ids) \<and>
        ((\<forall>ids. EmployeeUpdateRequest.project_ids ?d = Some ids \<longrightarrow>
            projects_exist ?s ids) \<longrightarrow> r = Inr e')"
    by (elim exE conjE)
  from k1 k2 have k: "department_ok ?s (employee.department_id ?e) \<and>
      department_ok ?s (EmployeeUpdateRequest.department_id ?d)"
    by simp
  note a = app[rule_format, OF k]
  from fn have 1: "employee.first_name e' = ''Bob''"
    by simp
  from bd have 2: "employee.birthdate e' = Some (Date 2024 3 15)"
    by simp
  from a[THEN conjunct2, THEN conjunct1, rule_format, of "JStr '' Jones''"] sv
  have 3: "employee.last_name e' = ''Jones''"
    by simp
  from a[THEN conjunct2, THEN conjunct2, THEN conjunct1, rule_format, of "JNum 2"] iv
  have 4: "employee.department_id e' = Some 2"
    by simp
  from a[THEN conjunct2, THEN conjunct2, THEN conjunct2, THEN conjunct2, THEN conjunct1,
      rule_format, of "JArr [JNum 2]" "[2]"] lv k3
  have 5: "set (associations s' 1) = {2}"
    by simp
  from a[THEN conjunct2, THEN conjunct2, THEN conjunct2, THEN conjunct2, THEN conjunct2] k3
  have 6: "r = Inr e'"
    by simp
  have "\<exists>r s' e'.
      update_employee 1 ?d ?s = (r, s') \<and>
      find (\<lambda>r. employee_id r = 1) (employee_rows s') = Some e' \<and>
      r = Inr e' \<and>
      employee.first_name e' = ''Bob'' \<and>
      employee.last_name e' = ''Jones'' \<and>
      employee.department_id e' = Some 2 \<and>
      employee.birthdate e' = Some (Date 2024 3 15) \<and>
      set (associations s' 1) = {2}"
    by (intro exI[of _ r] exI[of _ s'] exI[of _ e'] conjI) (rule u row 6 1 3 4 2 5)+
  then show ?thesis
    by (intro conjI) (rule h1 h2 k1 k2 k3)+
qed

text \<open>
  C2 says that a provided list that is not empty replaces the associations. It does not
  when the list names a project that does not exist: on the seeded store, the PATCH of
  employee 1 with project_ids [99] validates, the call that sets the associations
  raises \<open>IntegrityError\<close>, and the employee is associated with the projects 1 and 2 as
  before, not with 99.
\<close>

theorem missing_project_not_replaced_counterexample:
  "EmployeeUpdateRequest_validate example_validators [''project_ids'' \<mapsto> JArr [JNum 99]] =
     Inr \<lparr>EmployeeUpdateRequest.first_name = None, last_name = None,
          department_id = None, project_ids = Some [99], birthdate = None\<rparr> \<and>
   fst (update_employee 1
          \<lparr>EmployeeUpdateRequest.first_name = None, last_name = None,
           department_id = None, project_ids = Some [99], birthdate = None\<rparr>
          (seed_basic_app (Date 2024 3 15) empty_db)) = Inl IntegrityError \<and>
   associations (snd (update_employee 1
          \<lparr>EmployeeUpdateRequest.first_name = None, last_name = None,
           department_id = None, project_ids = Some [99], birthdate = None\<rparr>
          (seed_basic_app (Date 2024 3 15) empty_db))) 1 = [1, 2] \<and>
   set (associations (snd (update_employee 1
          \<lparr>EmployeeUpdateRequest.first_name = None, last_name = None,
           department_id = None, project_ids = Some [99], birthdate = None\<rparr>
          (seed_basic_app (Date 2024 3 15) empty_db))) 1) \<noteq> set [99]"
proof -
  let ?s = "seed_basic_app (Date 2024 3 15) empty_db"
  let ?e = "\<lparr>employee_id = 1, employee.first_name = ''Bob'', employee.last_name = ''Smith'',
           employee.department_id = Some 1, employee.birthdate = Some (Date 2024 3 15)\<rparr>"
  let ?d = "\<lparr>EmployeeUpdateRequest.first_name = None, last_name = None,
           department_id = None, project_ids = Some [99], birthdate = None\<rparr>"
  have v: "EmployeeUpdateRequest_validate example_validators [''project_ids'' \<mapsto> JArr [JNum 99]] =
      Inr ?d"
    by (simp add: EmployeeUpdateRequest_validate_def validation_defs example_validators_def)
  have h1: "find (\<lambda>r. employee_id r = 1) (employee_rows ?s) = Some ?e"
    by (simp add: seeded_db)
  have ok: "department_ok ?s (employee.department_id (assign_provided ?d ?e))"
    by (simp add: seeded_db department_ok_def assign_provided_def dict_get_def)
  have d: "EmployeeUpdateRequest.project_ids ?d = Some [99]"
    by simp
  have no: "\<not> projects_exist ?s [99]"
    by (simp add: seeded_db projects_exist_def)
  note hd = update_employee_half_done[OF h1 ok d no]
  have "employee_projects ?s = [(1, 1), (1, 2)]"
    by (simp add: seeded_db)
  then have "employee_projects (snd (update_employee 1 ?d ?s)) = [(1, 1), (1, 2)]"
    by (simp only: hd(3))
  then have a: "associations (snd (update_employee 1 ?d ?s)) 1 = [1, 2]"
    by (simp add: associations_def)
  then have n: "set (associations (snd (update_employee 1 ?d ?s)) 1) \<noteq> set [99]"
    by simp
  show ?thesis
    by (intro conjI) (rule v hd(1) a n)+
qed

text \<open>
  C2, as the handler and the database have it. For an employee that exists and a PATCH
  payload that validates: a project_ids that is the empty list validates to a provided,
  empty list, and the update leaves the through table as it was. A provided list that is
  not empty replaces the employee's associations when the database accepts the update,
  that is, when every id of the list is the id of a project that exists (and the row
  itself is saved: the department it had and the department the payload gives, if any,
  exist): afterwards the associations are, as a set, the ids of the list, and those of
  the other employees are as they were. A provided list with an id of no project makes
  the update fail with \<open>IntegrityError\<close>, and the through table is as it was.
\<close>

theorem project_ids_replaced_or_kept:
  assumes "find (\<lambda>r. employee_id r = i) (employee_rows s) = Some e"
    and "EmployeeUpdateRequest_validate lib payload = Inr data"
  shows "\<exists>r s'. update_employee i data s = (r, s') \<and>
           (payload ''project_ids'' = Some (JArr []) \<longrightarrow>
              EmployeeUpdateRequest.project_ids data = Some [] \<and>
              employee_projects s' = employee_projects s) \<and>
           (\<forall>ids. EmployeeUpdateRequest.project_ids data = Some ids \<and> ids \<noteq> [] \<and>
              projects_exist s ids \<and>
              department_ok s (employee.department_id e) \<and>
              department_ok s (EmployeeUpdateRequest.department_id data) \<longrightarrow>
              \<not> isl r \<and>
              set (associations s' i) = set ids \<and>
              (\<forall>j. j \<noteq> i \<longrightarrow> associations s' j = associations s j)) \<and>
           (\<forall>ids. EmployeeUpdateRequest.project_ids data = Some ids \<and>
              \<not> projects_exist s ids \<longrightarrow>
              r = Inl IntegrityError \<and> employee_projects s' = employee_projects s)"
proof -
  note v = EmployeeUpdateRequest_validate_Inr[OF assms(2)]
  let ?r = "fst (update_employee i data s)"
  let ?s' = "snd (update_employee i data s)"
  have u: "update_employee i data s = (?r, ?s')"
    by simp
  have empty: "payload ''project_ids'' = Some (JArr []) \<longrightarrow>
      EmployeeUpdateRequest.project_ids data = Some [] \<and>
      employee_projects ?s' = employee_projects s"
  proof
    assume p: "payload ''project_ids'' = Some (JArr [])"
    from provided_field_present[OF p v(9)]
    have d: "EmployeeUpdateRequest.project_ids data = Some []"
      by (simp add: v(4) list_int_validator_empty)
    then have "employee_projects ?s' = employee_projects s"
      by (intro update_employee_links_kept[OF assms(1)]) simp
    with d show "EmployeeUpdateRequest.project_ids data = Some [] \<and>
      employee_projects ?s' = employee_projects s"
      by simp
  qed
  have replaced: "\<forall>ids. EmployeeUpdateRequest.project_ids data = Some ids \<and> ids \<noteq> [] \<and>
      projects_exist s ids \<and>
      department_ok s (employee.department_id e) \<and>
      department_ok s (EmployeeUpdateRequest.department_id data) \<longrightarrow>
      \<not> isl ?r \<and>
      set (associations ?s' i) = set ids \<and>
      (\<forall>j. j \<noteq> i \<longrightarrow> associations ?s' j = associations s j)"
  proof (intro allI impI)
    fix ids
    assume h: "EmployeeUpdateRequest.project_ids data = Some ids \<and> ids \<noteq> [] \<and>
      projects_exist s ids \<and>
      department_ok s (employee.department_id e) \<and>
      department_ok s (EmployeeUpdateRequest.department_id data)"
    then have d: "EmployeeUpdateRequest.project_ids data = Some ids" and ne: "ids \<noteq> []"
      and ex: "projects_exist s ids"
      by simp_all
    from h have ok: "department_ok s (employee.department_id (assign_provided data e))"
      by (simp add: department_ok_assign_provided)
    note ls = update_employee_links_set[OF assms(1) ok d ne ex]
    have 1: "\<not> isl ?r"
      by (simp add: ls(1))
    have 3: "\<forall>j. j \<noteq> i \<longrightarrow> associations ?s' j = associations s j"
      using ls(3) by blast
    show "\<not> isl ?r \<and>
      set (associations ?s' i) = set ids \<and>
      (\<forall>j. j \<noteq> i \<longrightarrow> associations ?s' j = associations s j)"
      by (rule conjI[OF 1 conjI[OF ls(2) 3]])
  qed
  have failed: "\<forall>ids. EmployeeUpdateRequest.project_ids data = Some ids \<and>
      \<not> projects_exist s ids \<longrightarrow>
      ?r = Inl IntegrityError \<and> employee_projects ?s' = employee_projects s"
  proof (intro allI impI)
    fix ids
    assume h: "EmployeeUpdateRequest.project_ids data = Some ids \<and> \<not> projects_exist s ids"
    then have d: "EmployeeUpdateRequest.project_ids data = Some ids"
      and no: "\<not> projects_exist s ids"
      by simp_all
    have 1: "?r = Inl IntegrityError"
      by (rule update_employee_missing_project[OF assms(1) d
            not_projects_exist_not_Nil[OF no] no])
    have 2: "employee_projects ?s' = employee_projects s"
      using d no by (intro update_employee_links_kept[OF assms(1)]) simp
    show "?r = Inl IntegrityError \<and> employee_projects ?s' = employee_projects s"
      by (rule conjI[OF 1 2])
  qed
  show ?thesis
    by (intro exI[of _ ?r] exI[of _ ?s'])
       (rule conjI[OF u conjI[OF empty conjI[OF replaced failed]]])
qed

theorem project_ids_replaced_or_kept_witness:
  "find (\<lambda>r. employee_id r = 1) (employee_rows (seed_basic_app (Date 2024 3 15) empty_db)) =
     Some \<lparr>employee_id = 1, employee.first_name = ''Bob'', employee.last_name = ''Smith'',
           employee.department_id = Some 1, employee.birthdate = Some (Date 2024 3 15)\<rparr> \<and>
   EmployeeUpdateRequest_validate example_validators [''project_ids'' \<mapsto> JArr []] =
     Inr \<lparr>EmployeeUpdateRequest.first_name = None, last_name = None,
          department_id = None, project_ids = Some [], birthdate = None\<rparr> \<and>
   EmployeeUpdateRequest_validate example_validators [''project_ids'' \<mapsto> JArr [JNum 2]] =
     Inr \<lparr>EmployeeUpdateRequest.first_name = None, last_name = None,
          department_id = None, project_ids = Some [2], birthdate = None\<rparr> \<and>
   EmployeeUpdateRequest_validate example_validators [''project_ids'' \<mapsto> JArr [JNum 2, JNum 99]] =
     Inr \<lparr>EmployeeUpdateRequest.first_name = None, last_name = None,
          department_id = None, project_ids = Some [2, 99], birthdate = None\<rparr> \<and>
   projects_exist (seed_basic_app (Date 2024 3 15) empty_db) [2] \<and>
   \<not> projects_exist (seed_basic_app (Date 2024 3 15) empty_db) [2, 99] \<and>
   employee_projects (snd (update_employee 1
        \<lparr>EmployeeUpdateRequest.first_name = None, last_name = None,
          department_id = None, project_ids = Some [], birthdate = None\<rparr>
        (seed_basic_app (Date 2024 3 15) empty_db))) = [(1, 1), (1, 2)] \<and>
   \<not> isl (fst (update_employee 1
        \<lparr>EmployeeUpdateRequest.first_name = None, last_name = None,
          department_id = None, project_ids = Some [2], birthdate = None\<rparr>
        (seed_basic_app (Date 2024 3 15) empty_db))) \<and>
   set (associations (snd (update_employee 1
        \<lparr>EmployeeUpdateRequest.first_name = None, last_name = None,
          department_id = None, project_ids = Some [2], birthdate = None\<rparr>
        (seed_basic_app (Date 2024 3 15) empty_db))) 1) = {2} \<and>
   fst (update_employee 1
        \<lparr>EmployeeUpdateRequest.first_name = None, last_name = None,
          department_id = None, project_ids = Some [2, 99], birthdate = None\<rparr>
        (seed_basic_app (Date 2024 3 15) empty_db)) = Inl IntegrityError \<and>
   employee_projects (snd (update_employee 1
        \<lparr>EmployeeUpdateRequest.first_name = None, last_name = None,
          department_id = None, project_ids = Some [2, 99], birthdate = None\<rparr>
        (seed_basic_app (Date 2024 3 15) empty_db))) = [(1, 1), (1, 2)]"
proof -
  let ?s = "seed_basic_app (Date 2024 3 15) empty_db"
  let ?e = "\<lparr>employee_id = 1, employee.first_name = ''Bob'', employee.last_name = ''Smith'',
           employee.department_id = Some 1, employee.birthdate = Some (Date 2024 3 15)\<rparr>"
  let ?d0 = "\<lparr>EmployeeUpdateRequest.first_name = None, last_name = None,
          department_id = None, project_ids = Some [], birthdate = None\<rparr>"
  let ?d1 = "\<lparr>EmployeeUpdateRequest.first_name = None, last_name = None,
          department_id = None, project_ids = Some [2], birthdate = None\<rparr>"
  let ?d2 = "\<lparr>EmployeeUpdateRequest.first_name = None, last_name = None,
          department_id = None, project_ids = Some [2, 99], birthdate = None\<rparr>"
  have h1: "find (\<lambda>r. employee_id r = 1) (employee_rows ?s) = Some ?e"
    by (simp add: seeded_db)
  have v0: "EmployeeUpdateRequest_validate example_validators [''project_ids'' \<mapsto> JArr []] =
      Inr ?d0"
    by (simp add: EmployeeUpdateRequest_validate_def validation_defs)
  have v1: "EmployeeUpdateRequest_validate example_validators
      [''project_ids'' \<mapsto> JArr [JNum 2]] = Inr ?d1"
    by (simp add: EmployeeUpdateRequest_validate_def validation_defs example_validators_def)
  have v2: "EmployeeUpdateRequest_validate example_validators
      [''project_ids'' \<mapsto> JArr [JNum 2, JNum 99]] = Inr ?d2"
    by (simp add: EmployeeUpdateRequest_validate_def validation_defs example_validators_def)
  have ex: "projects_exist ?s [2]" and no: "\<not> projects_exist ?s [2, 99]"
    by (simp_all add: seeded_db projects_exist_def)
  have k: "department_ok ?s (Some 1)" "department_ok ?s None"
    by (simp_all add: seeded_db department_ok_def)
  have links: "employee_projects ?s = [(1, 1), (1, 2)]"
    by (simp add: seeded_db)
  from project_ids_replaced_or_kept[OF h1 v0] obtain r0 s0 where
    u0: "update_employee 1 ?d0 ?s = (r0, s0)"
    and k0: "[''project_ids'' \<mapsto> JArr []] ''project_ids'' = Some (JArr []) \<longrightarrow>
      EmployeeUpdateRequest.project_ids ?d0 = Some [] \<and>
      employee_projects s0 = employee_projects ?s"
    by (elim exE conjE)
  from k0 links have "employee_projects s0 = [(1, 1), (1, 2)]"
    by simp
  with u0 have a: "employee_projects (snd (update_employee 1 ?d0 ?s)) = [(1, 1), (1, 2)]"
    by simp
  from project_ids_replaced_or_kept[OF h1 v1] obtain r1 s1 where
    u1: "update_employee 1 ?d1 ?s = (r1, s1)"
    and k1: "\<forall>ids. EmployeeUpdateRequest.project_ids ?d1 = Some ids \<and> ids \<noteq> [] \<and>
      projects_exist ?s ids \<and>
      department_ok ?s (employee.department_id ?e) \<and>
      department_ok ?s (EmployeeUpdateRequest.department_id ?d1) \<longrightarrow>
      \<not> isl r1 \<and>
      set (associations s1 1) = set ids \<and>
      (\<forall>j. j \<noteq> 1 \<longrightarrow> associations s1 j = associations ?s j)"
    by (elim exE conjE)
  from k1[rule_format, of "[2]"] ex k have "\<not> isl r1" "set (associations s1 1) = {2}"
    by simp_all
  with u1 have b: "\<not> isl (fst (update_employee 1 ?d1 ?s))"
    and c: "set (associations (snd (update_employee 1 ?d1 ?s)) 1) = {2}"
    by simp_all
  from project_ids_replaced_or_kept[OF h1 v2] obtain r2 s2 where
    u2: "update_employee 1 ?d2 ?s = (r2, s2)"
    and k2: "\<forall>ids. EmployeeUpdateRequest.project_ids ?d2 = Some ids \<and>
      \<not> projects_exist ?s ids \<longrightarrow>
      r2 = Inl IntegrityError \<and> employee_projects s2 = employee_projects ?s"
    by (elim exE conjE)
  from k2[rule_format, of "[2, 99]"] no links
  have "r2 = Inl IntegrityError" "employee_projects s2 = [(1, 1), (1, 2)]"
    by simp_all
  with u2 have d: "fst (update_employee 1 ?d2 ?s) = Inl IntegrityError"
    and e: "employee_projects (snd (update_employee 1 ?d2 ?s)) = [(1, 1), (1, 2)]"
    by simp_all
  show ?thesis
    by (intro conjI) (rule h1 v0 v1 v2 ex no a b c d e)+
qed

section \<open>Create\<close>

text \<open>
  C6 says that every create request ends with the employee created and associated with
  exactly the provided projects. Two requests on the seeded store show otherwise. With
  project_ids [99], the id of no project, the employee is inserted, the call that sets
  the associations raises \<open>IntegrityError\<close>, and the new employee has no association at
  all. With department_id 9, the id of no department, the insert itself raises and no
  employee is created.
\<close>

theorem create_missing_reference_counterexample:
  "fst (create_employee
          \<lparr>EmployeeRequest.first_name = ''Ann'', last_name = ''Lee'', department_id = None,
           project_ids = [99], birthdate = None\<rparr>
          (seed_basic_app (Date 2024 3 15) empty_db)) = Inl IntegrityError \<and>
   employee_rows (snd (create_employee
          \<lparr>EmployeeRequest.first_name = ''Ann'', last_name = ''Lee'', department_id = None,
           project_ids = [99], birthdate = None\<rparr>
          (seed_basic_app (Date 2024 3 15) empty_db))) =
     [\<lparr>employee_id = 1, employee.first_name = ''Bob'', employee.last_name = ''Smith'',
       employee.department_id = Some 1, employee.birthdate = Some (Date 2024 3 15)\<rparr>,
      \<lparr>employee_id = 2, employee.first_name = ''Ann'', employee.last_name = ''Lee'',
       employee.department_id = None, employee.birthdate = None\<rparr>] \<and>
   associations (snd (create_employee
          \<lparr>EmployeeRequest.first_name = ''Ann'', last_name = ''Lee'', department_id = None,
           project_ids = [99], birthdate = None\<rparr>
          (seed_basic_app (Date 2024 3 15) empty_db))) 2 = [] \<and>
   set (associations (snd (create_employee
          \<lparr>EmployeeRequest.first_name = ''Ann'', last_name = ''Lee'', department_id = None,
           project_ids = [99], birthdate = None\<rparr>
          (seed_basic_app (Date 2024 3 15) empty_db))) 2) \<noteq> set [99] \<and>
   fst (create_employee
          \<lparr>EmployeeRequest.first_name = ''Ann'', last_name = ''Lee'', department_id = Some 9,
           project_ids = [1], birthdate = None\<rparr>
          (seed_basic_app (Date 2024 3 15) empty_db)) = Inl IntegrityError \<and>
   stored (snd (create_employee
          \<lparr>EmployeeRequest.first_name = ''Ann'', last_name = ''Lee'', department_id = Some 9,
           project_ids = [1], birthdate = None\<rparr>
          (seed_basic_app (Date 2024 3 15) empty_db))) =
     stored (seed_basic_app (Date 2024 3 15) empty_db)"
proof -
  let ?s = "seed_basic_app (Date 2024 3 15) empty_db"
  let ?d = "\<lparr>EmployeeRequest.first_name = ''Ann'', last_name = ''Lee'', department_id = None,
           project_ids = [99], birthdate = None\<rparr>"
  let ?d9 = "\<lparr>EmployeeRequest.first_name = ''Ann'', last_name = ''Lee'',
           department_id = Some 9, project_ids = [1], birthdate = None\<rparr>"
  have ok: "department_ok ?s (EmployeeRequest.department_id ?d)"
    by (simp add: department_ok_def)
  have no: "\<not> projects_exist ?s (EmployeeRequest.project_ids ?d)"
    by (simp add: seeded_db projects_exist_def)
  have no9: "\<not> department_ok ?s (EmployeeRequest.department_id ?d9)"
    by (simp add: seeded_db department_ok_def)
  have seq: "employee_seq ?s = 2"
    and rows: "employee_rows ?s =
      [\<lparr>employee_id = 1, employee.first_name = ''Bob'', employee.last_name = ''Smith'',
        employee.department_id = Some 1, employee.birthdate = Some (Date 2024 3 15)\<rparr>]"
    and links: "employee_projects ?s = [(1, 1), (1, 2)]"
    by (simp_all add: seeded_db)
  note hd = create_employee_half_done[OF ok no]
  have 1: "employee_rows (snd (create_employee ?d ?s)) =
      [\<lparr>employee_id = 1, employee.first_name = ''Bob'', employee.last_name = ''Smith'',
        employee.department_id = Some 1, employee.birthdate = Some (Date 2024 3 15)\<rparr>,
       \<lparr>employee_id = 2, employee.first_name = ''Ann'', employee.last_name = ''Lee'',
        employee.department_id = None, employee.birthdate = None\<rparr>]"
    unfolding hd(2) seq rows by simp
  have 2: "associations (snd (create_employee ?d ?s)) 2 = []"
    unfolding associations_def hd(3) links by simp
  then have 3: "set (associations (snd (create_employee ?d ?s)) 2) \<noteq> set [99]"
    by simp
  show ?thesis
    by (intro conjI)
       (rule hd(1) 1 2 3 create_employee_rejected(1)[OF no9] create_employee_rejected(2)[OF no9])+
qed

text \<open>
  C6, as the handler and the database have it. For every create request that the
  database accepts, that is, whose department, if given, exists and whose project ids
  are ids of projects that exist, \<open>create_employee\<close> first inserts the employee built
  from the scalar fields of the request, and then sets the associations of that
  employee: the journal shows the two calls in this order, and afterwards the project
  ids associated with the new key are, as a set, those of the provided list, whatever
  through rows with that key there were (replaced, not merged). With the empty list the
  employee has no association. The associations of the other employees stay.
\<close>

theorem create_sets_given_projects:
  assumes "department_ok s (EmployeeRequest.department_id data)"
    and "projects_exist s (EmployeeRequest.project_ids data)"
  shows "\<exists>e s'. create_employee data s = (Inr e, s') \<and>
           e = \<lparr>employee_id = employee_seq s,
                employee.first_name = EmployeeRequest.first_name data,
                employee.last_name = EmployeeRequest.last_name data,
                employee.department_id = EmployeeRequest.department_id data,
                employee.birthdate = EmployeeRequest.birthdate data\<rparr> \<and>
           employee_rows s' = employee_rows s @ [e] \<and>
           issued s s' = [Insert_employee (employee_id e),
                          Set_projects (employee_id e) (EmployeeRequest.project_ids data)] \<and>
           set (associations s' (employee_id e)) = set (EmployeeRequest.project_ids data) \<and>
           (EmployeeRequest.project_ids data = [] \<longrightarrow> associations s' (employee_id e) = []) \<and>
           (\<forall>j. j \<noteq> employee_id e \<longrightarrow> associations s' j = associations s j)"
proof -
  let ?e = "\<lparr>employee_id = employee_seq s,
          employee.first_name = EmployeeRequest.first_name data,
          employee.last_name = EmployeeRequest.last_name data,
          employee.department_id = EmployeeRequest.department_id data,
          employee.birthdate = EmployeeRequest.birthdate data\<rparr>"
  from create_employee_succeeds[OF assms refl] obtain s' where
    c: "create_employee data s = (Inr ?e, s')"
    and rows: "employee_rows s' = employee_rows s @ [?e]"
    and q: "queries s' = queries s @
       [Insert_employee (employee_seq s),
        Set_projects (employee_seq s) (EmployeeRequest.project_ids data)]"
    and a: "set (associations s' (employee_seq s)) = set (EmployeeRequest.project_ids data)"
    and o: "\<forall>j. j \<noteq> employee_seq s \<longrightarrow> associations s' j = associations s j"
    by (elim exE conjE)
  have calls: "issued s s' = [Insert_employee (employee_id ?e),
      Set_projects (employee_id ?e) (EmployeeRequest.project_ids data)]"
    using q by (simp add: issued_append)
  have assoc: "set (associations s' (employee_id ?e)) = set (EmployeeRequest.project_ids data)"
    using a by simp
  have none: "EmployeeRequest.project_ids data = [] \<longrightarrow> associations s' (employee_id ?e) = []"
  proof
    assume "EmployeeRequest.project_ids data = []"
    with assoc have "set (associations s' (employee_id ?e)) = {}"
      by (simp only: list.set)
    then show "associations s' (employee_id ?e) = []"
      by (simp only: set_empty)
  qed
  have other: "\<forall>j. j \<noteq> employee_id ?e \<longrightarrow> associations s' j = associations s j"
    using o by simp
  show ?thesis
    by (intro exI[of _ ?e] exI[of _ s'] conjI) (rule c refl rows calls assoc none other)+
qed

theorem create_sets_given_projects_witness:
  "department_ok (seed_basic_app (Date 2024 3 15) empty_db) (Some 2) \<and>
   projects_exist (seed_basic_app (Date 2024 3 15) empty_db) [] \<and>
   projects_exist (seed_basic_app (Date 2024 3 15) empty_db) [2, 1] \<and>
   fst (create_employee
          \<lparr>EmployeeRequest.first_name = ''Ann'', last_name = ''Lee'', department_id = Some 2,
           project_ids = [], birthdate = None\<rparr>
          (seed_basic_app (Date 2024 3 15) empty_db)) =
     Inr \<lparr>employee_id = 2, employee.first_name = ''Ann'', employee.last_name = ''Lee'',
          employee.department_id = Some 2, employee.birthdate = None\<rparr> \<and>
   associations (snd (create_employee
          \<lparr>EmployeeRequest.first_name = ''Ann'', last_name = ''Lee'', department_id = Some 2,
           project_ids = [], birthdate = None\<rparr>
          (seed_basic_app (Date 2024 3 15) empty_db))) 2 = [] \<and>
   set (associations (snd (create_employee
          \<lparr>EmployeeRequest.first_name = ''Ann'', last_name = ''Lee'', department_id = Some 2,
           project_ids = [2, 1], birthdate = None\<rparr>
          (seed_basic_app (Date 2024 3 15) empty_db))) 2) = {1, 2} \<and>
   issued (seed_basic_app (Date 2024 3 15) empty_db)
     (snd (create_employee
          \<lparr>EmployeeRequest.first_name = ''Ann'', last_name = ''Lee'', department_id = Some 2,
           project_ids = [2, 1], birthdate = None\<rparr>
          (seed_basic_app (Date 2024 3 15) empty_db))) =
     [Insert_employee 2, Set_projects 2 [2, 1]] \<and>
   associations (snd (create_employee
          \<lparr>EmployeeRequest.first_name = ''Ann'', last_name = ''Lee'', department_id = Some 2,
           project_ids = [2, 1], birthdate = None\<rparr>
          (seed_basic_app (Date 2024 3 15) empty_db))) 1 = [1, 2]"
proof -
  let ?s = "seed_basic_app (Date 2024 3 15) empty_db"
  let ?d0 = "\<lparr>EmployeeRequest.first_name = ''Ann'', last_name = ''Lee'',
           department_id = Some 2, project_ids = [], birthdate = None\<rparr>"
  let ?d1 = "\<lparr>EmployeeRequest.first_name = ''Ann'', last_name = ''Lee'',
           department_id = Some 2, project_ids = [2, 1], birthdate = None\<rparr>"
  have seq: "employee_seq ?s = 2" and old: "associations ?s 1 = [1, 2]"
    by (simp_all add: seeded_db associations_def)
  have k: "department_ok ?s (Some 2)" and x0: "projects_exist ?s []"
    and x1: "projects_exist ?s [2, 1]"
    by (simp_all add: seeded_db department_ok_def projects_exist_def)
  have k0: "department_ok ?s (EmployeeRequest.department_id ?d0)"
    and k1: "department_ok ?s (EmployeeRequest.department_id ?d1)"
    using k by simp_all
  have p0: "projects_exist ?s (EmployeeRequest.project_ids ?d0)"
    and p1: "projects_exist ?s (EmployeeRequest.project_ids ?d1)"
    using x0 x1 by simp_all
  from create_sets_given_projects[OF k0 p0] obtain e0 s0 where
    c0: "create_employee ?d0 ?s = (Inr e0, s0)"
    and e0: "e0 = \<lparr>employee_id = employee_seq ?s,
          employee.first_name = EmployeeRequest.first_name ?d0,
          employee.last_name = EmployeeRequest.last_name ?d0,
          employee.department_id = EmployeeRequest.department_id ?d0,
          employee.birthdate = EmployeeRequest.birthdate ?d0\<rparr>"
    and n0: "EmployeeRequest.project_ids ?d0 = [] \<longrightarrow> associations s0 (employee_id e0) = []"
    by (elim exE conjE)
  from e0 seq have e0': "e0 = \<lparr>employee_id = 2, employee.first_name = ''Ann'',
      employee.last_name = ''Lee'', employee.department_id = Some 2,
      employee.birthdate = None\<rparr>"
    by simp
  from n0 e0' have a0: "associations s0 2 = []"
    by simp
  from create_sets_given_projects[OF k1 p1] obtain e1 s1 where
    c1: "create_employee ?d1 ?s = (Inr e1, s1)"
    and e1: "e1 = \<lparr>employee_id = employee_seq ?s,
          employee.first_name = EmployeeRequest.first_name ?d1,
          employee.last_name = EmployeeRequest.last_name ?d1,
          employee.department_id = EmployeeRequest.department_id ?d1,
          employee.birthdate = EmployeeRequest.birthdate ?d1\<rparr>"
    and q1: "issued ?s s1 = [Insert_employee (employee_id e1),
                          Set_projects (employee_id e1) (EmployeeRequest.project_ids ?d1)]"
    and a1: "set (associations s1 (employee_id e1)) = set (EmployeeRequest.project_ids ?d1)"
    and o1: "\<forall>j. j \<noteq> employee_id e1 \<longrightarrow> associations s1 j = associations ?s j"
    by (elim exE conjE)
  from e1 seq have id1: "employee_id e1 = 2"
    by simp
  from a1 id1 have a1': "set (associations s1 2) = {1, 2}"
    by auto
  from q1 id1 have q1': "issued ?s s1 = [Insert_employee 2, Set_projects 2 [2, 1]]"
    by simp
  from o1[rule_format, of 1] id1 old have o1': "associations s1 1 = [1, 2]"
    by simp
  have r0: "fst (create_employee ?d0 ?s) =
      Inr \<lparr>employee_id = 2, employee.first_name = ''Ann'', employee.last_name = ''Lee'',
           employee.department_id = Some 2, employee.birthdate = None\<rparr>"
    using c0 e0' by simp
  have r1: "associations (snd (create_employee ?d0 ?s)) 2 = []"
    using c0 a0 by simp
  have r2: "set (associations (snd (create_employee ?d1 ?s)) 2) = {1, 2}"
    using c1 a1' by simp
  have r3: "issued ?s (snd (create_employee ?d1 ?s)) = [Insert_employee 2, Set_projects 2 [2, 1]]"
    using c1 q1' by simp
  have r4: "associations (snd (create_employee ?d1 ?s)) 1 = [1, 2]"
    using c1 o1' by simp
  show ?thesis
    by (intro conjI) (rule k x0 x1 r0 r1 r2 r3 r4)+
qed

text \<open>
  C7. For project ids P1 and P2 that exist (distinct or not) and a create request with
  project_ids [P1, P2] whose department, if given, exists: the employee is created, the
  read by the id it was given finds it, and the project ids that the response schema
  resolves for it are, as a set, {P1, P2}, in the order of the project table. Whether the
  read returns a response depends on the rest of the request. \<^verbatim>\<open>EmployeeResponse\<close>
  declares \<^verbatim>\<open>department_id: int = None\<close> and \<^verbatim>\<open>birthdate: date = None\<close>: when the
  request gave both a department and a birthdate the read returns a response and its
  project_ids are {P1, P2}; when the request left one of them out, as it may, the row
  holds \<^verbatim>\<open>None\<close> there, the response does not validate, and the read ends with the
  \<open>ValidationError\<close> of the response (HTTP 500) instead.
\<close>

theorem create_then_read_project_ids:
  assumes "sequence_ahead s"
    and "P1 \<in> set (map project_id (project_rows s))"
    and "P2 \<in> set (map project_id (project_rows s))"
    and "EmployeeRequest.project_ids data = [P1, P2]"
    and "department_ok s (EmployeeRequest.department_id data)"
  shows "\<exists>e s1 s2. create_employee data s = (Inr e, s1) \<and>
           employee_id e = employee_seq s \<and>
           get_employee (employee_id e) s1 = (Inr e, s2) \<and>
           set (resolve_project_ids s2 e) = {P1, P2} \<and>
           (\<forall>d b. EmployeeRequest.department_id data = Some d \<and>
              EmployeeRequest.birthdate data = Some b \<longrightarrow>
              (\<exists>r. respond (get_employee (employee_id e) s1) = (Inr r, s2) \<and>
                 id' r = employee_id e \<and>
                 set (EmployeeResponse.project_ids r) = {P1, P2})) \<and>
           (EmployeeRequest.department_id data = None \<or>
            EmployeeRequest.birthdate data = None \<longrightarrow>
              respond (get_employee (employee_id e) s1) = (Inl ValidationError, s2))"
proof -
  let ?e = "\<lparr>employee_id = employee_seq s,
          employee.first_name = EmployeeRequest.first_name data,
          employee.last_name = EmployeeRequest.last_name data,
          employee.department_id = EmployeeRequest.department_id data,
          employee.birthdate = EmployeeRequest.birthdate data\<rparr>"
  have ex: "projects_exist s (EmployeeRequest.project_ids data)"
    using assms(2,3) by (simp add: assms(4) projects_exist_def)
  from create_employee_succeeds[OF assms(5) ex refl] obtain s1 where
    c: "create_employee data s = (Inr ?e, s1)"
    and rows: "employee_rows s1 = employee_rows s @ [?e]"
    and prj: "project_rows s1 = project_rows s"
    and l: "\<forall>p. (employee_seq s, p) \<in> set (employee_projects s1) \<longleftrightarrow>
              p \<in> set (EmployeeRequest.project_ids data)"
    by (elim exE conjE)
  let ?s2 = "log_call (Select_employee (employee_seq s)) s1"
  have i: "employee_id ?e = employee_seq s"
    by simp
  have "find (\<lambda>r. employee_id r = employee_seq s) (employee_rows s1) = Some ?e"
    unfolding rows by (rule find_created[OF assms(1)]) simp
  then have "get_object_or_404 (employee_seq s) s1 = (Inr ?e, ?s2)"
    by (rule get_object_or_404_found(1))
  then have g: "get_employee (employee_id ?e) s1 = (Inr ?e, ?s2)"
    by (simp add: get_employee_def)
  have links: "(employee_seq s, p) \<in> set (employee_projects ?s2) \<longleftrightarrow> p \<in> {P1, P2}" for p
    using l by (simp add: employee_projects_log_call assms(4))
  have prj2: "project_rows ?s2 = project_rows s"
    by (simp add: project_rows_log_call prj)
  have res: "set (resolve_project_ids ?s2 ?e) = {P1, P2}"
    unfolding resolve_project_ids_set prj2 using assms(2,3) links by auto
  have good: "\<forall>d b. EmployeeRequest.department_id data = Some d \<and>
      EmployeeRequest.birthdate data = Some b \<longrightarrow>
      (\<exists>r. respond (get_employee (employee_id ?e) s1) = (Inr r, ?s2) \<and>
         id' r = employee_id ?e \<and>
         set (EmployeeResponse.project_ids r) = {P1, P2})"
  proof (intro allI impI)
    fix d b
    assume h: "EmployeeRequest.department_id data = Some d \<and>
      EmployeeRequest.birthdate data = Some b"
    let ?r = "\<lparr>id' = employee_id ?e,
               EmployeeResponse.first_name = employee.first_name ?e,
               EmployeeResponse.last_name = employee.last_name ?e,
               EmployeeResponse.department_id = d,
               EmployeeResponse.project_ids = resolve_project_ids ?s2 ?e,
               EmployeeResponse.birthdate = b\<rparr>"
    from h have "EmployeeResponse_from_orm ?s2 ?e = Inr ?r"
      by (simp add: EmployeeResponse_from_orm_def)
    then have 1: "respond (get_employee (employee_id ?e) s1) = (Inr ?r, ?s2)"
      unfolding g by (simp add: respond_def)
    have 2: "id' ?r = employee_id ?e"
      by simp
    have 3: "set (EmployeeResponse.project_ids ?r) = {P1, P2}"
      using res by simp
    show "\<exists>r. respond (get_employee (employee_id ?e) s1) = (Inr r, ?s2) \<and>
         id' r = employee_id ?e \<and>
         set (EmployeeResponse.project_ids r) = {P1, P2}"
      by (intro exI[of _ ?r] conjI) (rule 1 2 3)+
  qed
  have bad: "EmployeeRequest.department_id data = None \<or>
      EmployeeRequest.birthdate data = None \<longrightarrow>
      respond (get_employee (employee_id ?e) s1) = (Inl ValidationError, ?s2)"
  proof
    assume "EmployeeRequest.department_id data = None \<or>
      EmployeeRequest.birthdate data = None"
    then have "EmployeeResponse_from_orm ?s2 ?e = Inl ValidationError"
      by (auto simp: EmployeeResponse_from_orm_def split: option.split)
    then show "respond (get_employee (employee_id ?e) s1) = (Inl ValidationError, ?s2)"
      unfolding g by (simp add: respond_def)
  qed
  show ?thesis
    by (intro exI[of _ ?e] exI[of _ s1] exI[of _ ?s2])
       (rule conjI[OF c conjI[OF i conjI[OF g conjI[OF res conjI[OF good bad]]]]])
qed

theorem create_then_read_project_ids_witness:
  "sequence_ahead (seed_basic_app (Date 2024 3 15) empty_db) \<and>
   2 \<in> set (map project_id (project_rows (seed_basic_app (Date 2024 3 15) empty_db))) \<and>
   1 \<in> set (map project_id (project_rows (seed_basic_app (Date 2024 3 15) empty_db))) \<and>
   department_ok (seed_basic_app (Date 2024 3 15) empty_db) (Some 2) \<and>
   department_ok (seed_basic_app (Date 2024 3 15) empty_db) None \<and>
   (\<exists>r. fst (respond (get_employee 2 (snd (create_employee
        \<lparr>EmployeeRequest.first_name = ''Ann'', last_name = ''Lee'', department_id = Some 2,
         project_ids = [2, 1], birthdate = Some (Date 1990 5 17)\<rparr>
        (seed_basic_app (Date 2024 3 15) empty_db))))) = Inr r \<and>
      id' r = 2 \<and>
      set (EmployeeResponse.project_ids r) = {2, 1}) \<and>
   fst (create_employee
        \<lparr>EmployeeRequest.first_name = ''Ann'', last_name = ''Lee'', department_id = None,
         project_ids = [2, 1], birthdate = None\<rparr>
        (seed_basic_app (Date 2024 3 15) empty_db)) =
     Inr \<lparr>employee_id = 2, employee.first_name = ''Ann'', employee.last_name = ''Lee'',
          employee.department_id = None, employee.birthdate = None\<rparr> \<and>
   fst (respond (get_employee 2 (snd (create_employee
        \<lparr>EmployeeRequest.first_name = ''Ann'', last_name = ''Lee'', department_id = None,
         project_ids = [2, 1], birthdate = None\<rparr>
        (seed_basic_app (Date 2024 3 15) empty_db))))) = Inl ValidationError"
proof -
  let ?s = "seed_basic_app (Date 2024 3 15) empty_db"
  let ?d = "\<lparr>EmployeeRequest.first_name = ''Ann'', last_name = ''Lee'', department_id = Some 2,
         project_ids = [2, 1], birthdate = Some (Date 1990 5 17)\<rparr>"
  let ?n = "\<lparr>EmployeeRequest.first_name = ''Ann'', last_name = ''Lee'', department_id = None,
         project_ids = [2, 1], birthdate = None\<rparr>"
  have h1: "sequence_ahead ?s"
    by (simp add: seeded_db sequence_ahead_def)
  have h2: "2 \<in> set (map project_id (project_rows ?s))"
    by (simp add: seeded_db)
  have h3: "1 \<in> set (map project_id (project_rows ?s))"
    by (simp add: seeded_db)
  have k2: "department_ok ?s (Some 2)" and k0: "department_ok ?s None"
    by (simp_all add: seeded_db department_ok_def)
  have seq: "employee_seq ?s = 2"
    by (simp add: seeded_db)
  have h4: "EmployeeRequest.project_ids ?d = [2, 1]" and h4n: "EmployeeRequest.project_ids ?n = [2, 1]"
    by simp_all
  have h5: "department_ok ?s (EmployeeRequest.department_id ?d)"
    and h5n: "department_ok ?s (EmployeeRequest.department_id ?n)"
    using k2 k0 by simp_all
  from create_then_read_project_ids[OF h1 h2 h3 h4 h5] obtain e s1 s2 where
    c: "create_employee ?d ?s = (Inr e, s1)"
    and i: "employee_id e = employee_seq ?s"
    and good: "\<forall>d b. EmployeeRequest.department_id ?d = Some d \<and>
              EmployeeRequest.birthdate ?d = Some b \<longrightarrow>
              (\<exists>r. respond (get_employee (employee_id e) s1) = (Inr r, s2) \<and>
                 id' r = employee_id e \<and>
                 set (EmployeeResponse.project_ids r) = {2, 1})"
    by (elim exE conjE)
  from good[rule_format, of 2 "Date 1990 5 17"] obtain r where
    "respond (get_employee (employee_id e) s1) = (Inr r, s2)" "id' r = employee_id e"
    "set (EmployeeResponse.project_ids r) = {2, 1}"
    by auto
  with c i seq have a: "\<exists>r. fst (respond (get_employee 2 (snd (create_employee ?d ?s)))) = Inr r \<and>
      id' r = 2 \<and> set (EmployeeResponse.project_ids r) = {2, 1}"
    by simp
  from create_then_read_project_ids[OF h1 h2 h3 h4n h5n] obtain e' s1' s2' where
    c': "create_employee ?n ?s = (Inr e', s1')"
    and i': "employee_id e' = employee_seq ?s"
    and bad: "EmployeeRequest.department_id ?n = None \<or>
            EmployeeRequest.birthdate ?n = None \<longrightarrow>
              respond (get_employee (employee_id e') s1') = (Inl ValidationError, s2')"
    by (elim exE conjE)
  from bad have "respond (get_employee (employee_id e') s1') = (Inl ValidationError, s2')"
    by simp
  with c' i' seq
  have b: "fst (respond (get_employee 2 (snd (create_employee ?n ?s)))) = Inl ValidationError"
    by simp
  have cn: "fst (create_employee ?n ?s) =
     Inr \<lparr>employee_id = 2, employee.first_name = ''Ann'', employee.last_name = ''Lee'',
          employee.department_id = None, employee.birthdate = None\<rparr>"
    using create_employee_ok[of ?s ?n] h5n h2 h3 seq by (simp add: projects_exist_def)
  show ?thesis
    by (intro conjI) (rule h1 h2 h3 k2 k0 a cn b)+
qed

section \<open>Persistence calls\<close>

text \<open>
  C5 says that every operation is exactly one persistence call and that a failure leaves
  the store as it was before the operation. Neither holds: on the seeded store, the
  create request with project_ids [99], the id of no project, issues two calls, the
  insert of the row and then the call that sets the associations; the second raises
  \<open>IntegrityError\<close>, the request fails, and the row of the first stays in the store.
\<close>

theorem create_fails_after_insert_counterexample:
  "issued (seed_basic_app (Date 2024 3 15) empty_db)
     (snd (create_employee
        \<lparr>EmployeeRequest.first_name = ''Ann'', last_name = ''Lee'', department_id = None,
         project_ids = [99], birthdate = None\<rparr>
        (seed_basic_app (Date 2024 3 15) empty_db))) =
     [Insert_employee 2, Set_projects 2 [99]] \<and>
   length (issued (seed_basic_app (Date 2024 3 15) empty_db)
     (snd (create_employee
        \<lparr>EmployeeRequest.first_name = ''Ann'', last_name = ''Lee'', department_id = None,
         project_ids = [99], birthdate = None\<rparr>
        (seed_basic_app (Date 2024 3 15) empty_db)))) \<noteq> 1 \<and>
   fst (create_employee
        \<lparr>EmployeeRequest.first_name = ''Ann'', last_name = ''Lee'', department_id = None,
         project_ids = [99], birthdate = None\<rparr>
        (seed_basic_app (Date 2024 3 15) empty_db)) = Inl IntegrityError \<and>
   stored (snd (create_employee
        \<lparr>EmployeeRequest.first_name = ''Ann'', last_name = ''Lee'', department_id = None,
         project_ids = [99], birthdate = None\<rparr>
        (seed_basic_app (Date 2024 3 15) empty_db))) \<noteq>
     stored (seed_basic_app (Date 2024 3 15) empty_db)"
proof -
  let ?s = "seed_basic_app (Date 2024 3 15) empty_db"
  let ?d = "\<lparr>EmployeeRequest.first_name = ''Ann'', last_name = ''Lee'', department_id = None,
           project_ids = [99], birthdate = None\<rparr>"
  have ok: "department_ok ?s (EmployeeRequest.department_id ?d)"
    by (simp add: department_ok_def)
  have no: "\<not> projects_exist ?s (EmployeeRequest.project_ids ?d)"
    by (simp add: seeded_db projects_exist_def)
  have seq: "employee_seq ?s = 2"
    by (simp add: seeded_db)
  note hd = create_employee_half_done[OF ok no]
  have 1: "issued ?s (snd (create_employee ?d ?s)) = [Insert_employee 2, Set_projects 2 [99]]"
    using create_employee_issued[OF ok] seq by simp
  then have 2: "length (issued ?s (snd (create_employee ?d ?s))) \<noteq> 1"
    by simp
  have "employee_rows (snd (create_employee ?d ?s)) \<noteq> employee_rows ?s"
    unfolding hd(2) by simp
  then have 3: "stored (snd (create_employee ?d ?s)) \<noteq> stored ?s"
    by (simp add: stored_def)
  show ?thesis
    by (intro conjI) (rule 1 2 hd(1) 3)+
qed

text \<open>
  C5, as the handlers have it. The handlers issue their ORM calls one after the other,
  each call atomic by itself, with no transaction around them and no retry.

  Reading is one call, the fetch, and changes no table. Creating is the insert of the
  row, followed, when the insert went through, by the call that sets the associations.
  Updating is the fetch; for an employee that exists the save follows, and, when the
  save went through and the request provides a list that is not empty, a third call that
  sets the associations. Deleting is the fetch, followed by the delete for an employee
  that exists.

  A failure of the first write of an operation, or of the fetch before it, leaves the
  tables as they were: the insert of a create raises \<open>IntegrityError\<close> for a department
  that does not exist, the fetch of an update fails with \<open>Http404\<close> for an id that no
  row has, its save raises \<open>IntegrityError\<close> for a department that does not exist, and a
  delete fails only with \<open>Http404\<close>. A failure of the later call that sets the
  associations (\<open>IntegrityError\<close> for an id of no project) leaves the through table as it
  was, but the earlier write of the same operation stays: the employee of the create is
  in the table, and the row of the update is saved.
\<close>

theorem handler_persistence_calls:
  "issued s (snd (get_employee i s)) = [Select_employee i] \<and>
   stored (snd (get_employee i s)) = stored s \<and>
   issued s (snd (create_employee data s)) =
     (if department_ok s (EmployeeRequest.department_id data)
      then [Insert_employee (employee_seq s),
            Set_projects (employee_seq s) (EmployeeRequest.project_ids data)]
      else [Insert_employee (employee_seq s)]) \<and>
   issued s (snd (update_employee i upd s)) =
     (case find (\<lambda>r. employee_id r = i) (employee_rows s) of
        None \<Rightarrow> [Select_employee i]
      | Some e \<Rightarrow>
          if department_ok s (employee.department_id (assign_provided upd e))
          then [Select_employee i, Update_employee i] @
               (case EmployeeUpdateRequest.project_ids upd of
                  None \<Rightarrow> []
                | Some [] \<Rightarrow> []
                | Some (p # ps) \<Rightarrow> [Set_projects i (p # ps)])
          else [Select_employee i, Update_employee i]) \<and>
   issued s (snd (delete_employee i s)) =
     (if i \<in> set (map employee_id (employee_rows s))
      then [Select_employee i, Delete_employee i]
      else [Select_employee i]) \<and>
   (\<not> department_ok s (EmployeeRequest.department_id data) \<longrightarrow>
      fst (create_employee data s) = Inl IntegrityError \<and>
      stored (snd (create_employee data s)) = stored s) \<and>
   (department_ok s (EmployeeRequest.department_id data) \<and>
    \<not> projects_exist s (EmployeeRequest.project_ids data) \<longrightarrow>
      fst (create_employee data s) = Inl IntegrityError \<and>
      employee_rows (snd (create_employee data s)) =
        employee_rows s @
          [\<lparr>employee_id = employee_seq s,
            employee.first_name = EmployeeRequest.first_name data,
            employee.last_name = EmployeeRequest.last_name data,
            employee.department_id = EmployeeRequest.department_id data,
            employee.birthdate = EmployeeRequest.birthdate data\<rparr>] \<and>
      employee_projects (snd (create_employee data s)) = employee_projects s) \<and>
   (department_ok s (EmployeeRequest.department_id data) \<and>
    projects_exist s (EmployeeRequest.project_ids data) \<longrightarrow>
      \<not> isl (fst (create_employee data s))) \<and>
   (find (\<lambda>r. employee_id r = i) (employee_rows s) = None \<longrightarrow>
      fst (update_employee i upd s) = Inl Http404 \<and>
      stored (snd (update_employee i upd s)) = stored s) \<and>
   (\<forall>e. find (\<lambda>r. employee_id r = i) (employee_rows s) = Some e \<and>
      \<not> department_ok s (employee.department_id (assign_provided upd e)) \<longrightarrow>
      fst (update_employee i upd s) = Inl IntegrityError \<and>
      stored (snd (update_employee i upd s)) = stored s) \<and>
   (\<forall>e ids. find (\<lambda>r. employee_id r = i) (employee_rows s) = Some e \<and>
      department_ok s (employee.department_id (assign_provided upd e)) \<and>
      EmployeeUpdateRequest.project_ids upd = Some ids \<and> \<not> projects_exist s ids \<longrightarrow>
      fst (update_employee i upd s) = Inl IntegrityError \<and>
      find (\<lambda>r. employee_id r = i) (employee_rows (snd (update_employee i upd s))) =
        Some (assign_provided upd e) \<and>
      employee_projects (snd (update_employee i upd s)) = employee_projects s) \<and>
   (\<forall>e. find (\<lambda>r. employee_id r = i) (employee_rows s) = Some e \<and>
      department_ok s (employee.department_id (assign_provided upd e)) \<and>
      (\<forall>ids. EmployeeUpdateRequest.project_ids upd = Some ids \<longrightarrow> projects_exist s ids) \<longrightarrow>
      \<not> isl (fst (update_employee i upd s))) \<and>
   (isl (fst (delete_employee i s)) \<longrightarrow>
      fst (delete_employee i s) = Inl Http404 \<and>
      stored (snd (delete_employee i s)) = stored s)"
proof -
  have g1: "issued s (snd (get_employee i s)) = [Select_employee i]"
    by (rule get_employee_calls(1))
  have g2: "stored (snd (get_employee i s)) = stored s"
    by (rule get_employee_calls(2))
  have c: "issued s (snd (create_employee data s)) =
     (if department_ok s (EmployeeRequest.department_id data)
      then [Insert_employee (employee_seq s),
            Set_projects (employee_seq s) (EmployeeRequest.project_ids data)]
      else [Insert_employee (employee_seq s)])"
    by (simp add: create_employee_issued create_employee_rejected(3))
  have u: "issued s (snd (update_employee i upd s)) =
     (case find (\<lambda>r. employee_id r = i) (employee_rows s) of
        None \<Rightarrow> [Select_employee i]
      | Some e \<Rightarrow>
          if department_ok s (employee.department_id (assign_provided upd e))
          then [Select_employee i, Update_employee i] @
               (case EmployeeUpdateRequest.project_ids upd of
                  None \<Rightarrow> []
                | Some [] \<Rightarrow> []
                | Some (p # ps) \<Rightarrow> [Set_projects i (p # ps)])
          else [Select_employee i, Update_employee i])"
  proof (cases "find (\<lambda>r. employee_id r = i) (employee_rows s)")
    case None
    then show ?thesis
      by (simp add: update_employee_missing issued_log_call)
  next
    case (Some e)
    show ?thesis
      unfolding Some option.case by (rule update_employee_issued[OF Some])
  qed
  have d: "issued s (snd (delete_employee i s)) =
     (if i \<in> set (map employee_id (employee_rows s))
      then [Select_employee i, Delete_employee i]
      else [Select_employee i])"
    by (rule delete_employee_issued)
  have f1: "\<not> department_ok s (EmployeeRequest.department_id data) \<longrightarrow>
      fst (create_employee data s) = Inl IntegrityError \<and>
      stored (snd (create_employee data s)) = stored s"
    by (simp add: create_employee_rejected)
  have f2: "department_ok s (EmployeeRequest.department_id data) \<and>
    \<not> projects_exist s (EmployeeRequest.project_ids data) \<longrightarrow>
      fst (create_employee data s) = Inl IntegrityError \<and>
      employee_rows (snd (create_employee data s)) =
        employee_rows s @
          [\<lparr>employee_id = employee_seq s,
            employee.first_name = EmployeeRequest.first_name data,
            employee.last_name = EmployeeRequest.last_name data,
            employee.department_id = EmployeeRequest.department_id data,
            employee.birthdate = EmployeeRequest.birthdate data\<rparr>] \<and>
      employee_projects (snd (create_employee data s)) = employee_projects s"
    by (simp add: create_employee_half_done)
  have f3: "department_ok s (EmployeeRequest.department_id data) \<and>
    projects_exist s (EmployeeRequest.project_ids data) \<longrightarrow>
      \<not> isl (fst (create_employee data s))"
    by (simp add: create_employee_ok)
  have f4: "find (\<lambda>r. employee_id r = i) (employee_rows s) = None \<longrightarrow>
      fst (update_employee i upd s) = Inl Http404 \<and>
      stored (snd (update_employee i upd s)) = stored s"
    by (simp add: update_employee_missing stored_log_call)
  have f5: "\<forall>e. find (\<lambda>r. employee_id r = i) (employee_rows s) = Some e \<and>
      \<not> department_ok s (employee.department_id (assign_provided upd e)) \<longrightarrow>
      fst (update_employee i upd s) = Inl IntegrityError \<and>
      stored (snd (update_employee i upd s)) = stored s"
    by (simp add: update_employee_unsaved)
  have f6: "\<forall>e ids. find (\<lambda>r. employee_id r = i) (employee_rows s) = Some e \<and>
      department_ok s (employee.department_id (assign_provided upd e)) \<and>
      EmployeeUpdateRequest.project_ids upd = Some ids \<and> \<not> projects_exist s ids \<longrightarrow>
      fst (update_employee i upd s) = Inl IntegrityError \<and>
      find (\<lambda>r. employee_id r = i) (employee_rows (snd (update_employee i upd s))) =
        Some (assign_provided upd e) \<and>
      employee_projects (snd (update_employee i upd s)) = employee_projects s"
  proof (intro allI impI)
    fix e ids
    assume h: "find (\<lambda>r. employee_id r = i) (employee_rows s) = Some e \<and>
      department_ok s (employee.department_id (assign_provided upd e)) \<and>
      EmployeeUpdateRequest.project_ids upd = Some ids \<and> \<not> projects_exist s ids"
    then have h1: "find (\<lambda>r. employee_id r = i) (employee_rows s) = Some e"
      and h2: "department_ok s (employee.department_id (assign_provided upd e))"
      and h3: "EmployeeUpdateRequest.project_ids upd = Some ids"
      and h4: "\<not> projects_exist s ids"
      by simp_all
    note hd = update_employee_half_done[OF h1 h2 h3 h4]
    show "fst (update_employee i upd s) = Inl IntegrityError \<and>
      find (\<lambda>r. employee_id r = i) (employee_rows (snd (update_employee i upd s))) =
        Some (assign_provided upd e) \<and>
      employee_projects (snd (update_employee i upd s)) = employee_projects s"
      by (rule conjI[OF hd(1) conjI[OF hd(2) hd(3)]])
  qed
  have f7: "\<forall>e. find (\<lambda>r. employee_id r = i) (employee_rows s) = Some e \<and>
      department_ok s (employee.department_id (assign_provided upd e)) \<and>
      (\<forall>ids. EmployeeUpdateRequest.project_ids upd = Some ids \<longrightarrow> projects_exist s ids) \<longrightarrow>
      \<not> isl (fst (update_employee i upd s))"
  proof (intro allI impI)
    fix e
    assume h: "find (\<lambda>r. employee_id r = i) (employee_rows s) = Some e \<and>
      department_ok s (employee.department_id (assign_provided upd e)) \<and>
      (\<forall>ids. EmployeeUpdateRequest.project_ids upd = Some ids \<longrightarrow> projects_exist s ids)"
    then have h1: "find (\<lambda>r. employee_id r = i) (employee_rows s) = Some e"
      and h2: "department_ok s (employee.department_id (assign_provided upd e))"
      and h3: "\<forall>ids. EmployeeUpdateRequest.project_ids upd = Some ids \<longrightarrow> projects_exist s ids"
      by simp_all
    show "\<not> isl (fst (update_employee i upd s))"
      by (simp add: update_employee_ok[OF h1 h2 h3])
  qed
  have f8: "isl (fst (delete_employee i s)) \<longrightarrow>
      fst (delete_employee i s) = Inl Http404 \<and>
      stored (snd (delete_employee i s)) = stored s"
    by (simp add: delete_employee_failed)
  show ?thesis
    by (rule conjI[OF g1 conjI[OF g2 conjI[OF c conjI[OF u conjI[OF d conjI[OF f1
          conjI[OF f2 conjI[OF f3 conjI[OF f4 conjI[OF f5 conjI[OF f6 conjI[OF f7 f8]]]]]]]]]]]])
qed

theorem handler_persistence_calls_witness:
  "issued (seed_basic_app (Date 2024 3 15) empty_db)
     (snd (update_employee 1
        \<lparr>EmployeeUpdateRequest.first_name = None, last_name = Some ''Jones'',
         department_id = None, project_ids = Some [2], birthdate = None\<rparr>
        (seed_basic_app (Date 2024 3 15) empty_db))) =
     [Select_employee 1, Update_employee 1, Set_projects 1 [2]] \<and>
   issued (seed_basic_app (Date 2024 3 15) empty_db)
     (snd (delete_employee 1 (seed_basic_app (Date 2024 3 15) empty_db))) =
     [Select_employee 1, Delete_employee 1] \<and>
   \<not> department_ok (seed_basic_app (Date 2024 3 15) empty_db) (Some 9) \<and>
   fst (create_employee
        \<lparr>EmployeeRequest.first_name = ''Ann'', last_name = ''Lee'', department_id = Some 9,
         project_ids = [1], birthdate = None\<rparr>
        (seed_basic_app (Date 2024 3 15) empty_db)) = Inl IntegrityError \<and>
   stored (snd (create_employee
        \<lparr>EmployeeRequest.first_name = ''Ann'', last_name = ''Lee'', department_id = Some 9,
         project_ids = [1], birthdate = None\<rparr>
        (seed_basic_app (Date 2024 3 15) empty_db))) =
     stored (seed_basic_app (Date 2024 3 15) empty_db) \<and>
   \<not> projects_exist (seed_basic_app (Date 2024 3 15) empty_db) [99] \<and>
   fst (create_employee
        \<lparr>EmployeeRequest.first_name = ''Ann'', last_name = ''Lee'', department_id = None,
         project_ids = [99], birthdate = None\<rparr>
        (seed_basic_app (Date 2024 3 15) empty_db)) = Inl IntegrityError \<and>
   employee_rows (snd (create_employee
        \<lparr>EmployeeRequest.first_name = ''Ann'', last_name = ''Lee'', department_id = None,
         project_ids = [99], birthdate = None\<rparr>
        (seed_basic_app (Date 2024 3 15) empty_db))) =
     [\<lparr>employee_id = 1, employee.first_name = ''Bob'', employee.last_name = ''Smith'',
       employee.department_id = Some 1, employee.birthdate = Some (Date 2024 3 15)\<rparr>,
      \<lparr>employee_id = 2, employee.first_name = ''Ann'', employee.last_name = ''Lee'',
       employee.department_id = None, employee.birthdate = None\<rparr>] \<and>
   find (\<lambda>r. employee_id r = 7) (employee_rows (seed_basic_app (Date 2024 3 15) empty_db)) =
     None \<and>
   fst (update_employee 7
        \<lparr>EmployeeUpdateRequest.first_name = None, last_name = Some ''Jones'',
         department_id = None, project_ids = Some [2], birthdate = None\<rparr>
        (seed_basic_app (Date 2024 3 15) empty_db)) = Inl Http404 \<and>
   stored (snd (update_employee 7
        \<lparr>EmployeeUpdateRequest.first_name = None, last_name = Some ''Jones'',
         department_id = None, project_ids = Some [2], birthdate = None\<rparr>
        (seed_basic_app (Date 2024 3 15) empty_db))) =
     stored (seed_basic_app (Date 2024 3 15) empty_db) \<and>
   fst (update_employee 1
        \<lparr>EmployeeUpdateRequest.first_name = None, last_name = Some ''Jones'',
         department_id = Some 9, project_ids = None, birthdate = None\<rparr>
        (seed_basic_app (Date 2024 3 15) empty_db)) = Inl IntegrityError \<and>
   stored (snd (update_employee 1
        \<lparr>EmployeeUpdateRequest.first_name = None, last_name = Some ''Jones'',
         department_id = Some 9, project_ids = None, birthdate = None\<rparr>
        (seed_basic_app (Date 2024 3 15) empty_db))) =
     stored (seed_basic_app (Date 2024 3 15) empty_db) \<and>
   fst (update_employee 1
        \<lparr>EmployeeUpdateRequest.first_name = None, last_name = Some ''Jones'',
         department_id = None, project_ids = Some [99], birthdate = None\<rparr>
        (seed_basic_app (Date 2024 3 15) empty_db)) = Inl IntegrityError \<and>
   find (\<lambda>r. employee_id r = 1) (employee_rows (snd (update_employee 1
        \<lparr>EmployeeUpdateRequest.first_name = None, last_name = Some ''Jones'',
         department_id = None, project_ids = Some [99], birthdate = None\<rparr>
        (seed_basic_app (Date 2024 3 15) empty_db)))) =
     Some \<lparr>employee_id = 1, employee.first_name = ''Bob'', employee.last_name = ''Jones'',
           employee.department_id = Some 1, employee.birthdate = Some (Date 2024 3 15)\<rparr> \<and>
   isl (fst (delete_employee 7 (seed_basic_app (Date 2024 3 15) empty_db))) \<and>
   stored (snd (delete_employee 7 (seed_basic_app (Date 2024 3 15) empty_db))) =
     stored (seed_basic_app (Date 2024 3 15) empty_db)"
proof -
  let ?s = "seed_basic_app (Date 2024 3 15) empty_db"
  let ?e = "\<lparr>employee_id = 1, employee.first_name = ''Bob'', employee.last_name = ''Smith'',
           employee.department_id = Some 1, employee.birthdate = Some (Date 2024 3 15)\<rparr>"
  let ?u2 = "\<lparr>EmployeeUpdateRequest.first_name = None, last_name = Some ''Jones'',
         department_id = None, project_ids = Some [2], birthdate = None\<rparr>"
  let ?u9 = "\<lparr>EmployeeUpdateRequest.first_name = None, last_name = Some ''Jones'',
         department_id = Some 9, project_ids = None, birthdate = None\<rparr>"
  let ?u99 = "\<lparr>EmployeeUpdateRequest.first_name = None, last_name = Some ''Jones'',
         department_id = None, project_ids = Some [99], birthdate = None\<rparr>"
  let ?d9 = "\<lparr>EmployeeRequest.first_name = ''Ann'', last_name = ''Lee'',
         department_id = Some 9, project_ids = [1], birthdate = None\<rparr>"
  let ?d99 = "\<lparr>EmployeeRequest.first_name = ''Ann'', last_name = ''Lee'',
         department_id = None, project_ids = [99], birthdate = None\<rparr>"
  have h1: "find (\<lambda>r. employee_id r = 1) (employee_rows ?s) = Some ?e"
    and h7: "find (\<lambda>r. employee_id r = 7) (employee_rows ?s) = None"
    and in1: "1 \<in> set (map employee_id (employee_rows ?s))"
    and seq: "employee_seq ?s = 2"
    and rows: "employee_rows ?s = [?e]"
    by (simp_all add: seeded_db)
  have k1: "department_ok ?s (Some 1)" and k9: "\<not> department_ok ?s (Some 9)"
    and k0: "department_ok ?s None"
    by (simp_all add: seeded_db department_ok_def)
  have x2: "projects_exist ?s [2]" and x99: "\<not> projects_exist ?s [99]"
    by (simp_all add: seeded_db projects_exist_def)
  have a2: "employee.department_id (assign_provided ?u2 ?e) = Some 1"
    and a9: "employee.department_id (assign_provided ?u9 ?e) = Some 9"
    and a99: "employee.department_id (assign_provided ?u99 ?e) = Some 1"
    and r99: "assign_provided ?u99 ?e =
      \<lparr>employee_id = 1, employee.first_name = ''Bob'', employee.last_name = ''Jones'',
       employee.department_id = Some 1, employee.birthdate = Some (Date 2024 3 15)\<rparr>"
    by (simp_all add: assign_provided_def dict_get_def)
  have i7: "isl (fst (delete_employee 7 ?s))"
    by (simp add: delete_employee_def get_object_or_404_def h7)
  note t1 = handler_persistence_calls[where s = ?s and i = 1 and data = ?d9 and upd = ?u2]
  note t2 = handler_persistence_calls[where s = ?s and i = 7 and data = ?d99 and upd = ?u2]
  note t3 = handler_persistence_calls[where s = ?s and i = 1 and data = ?d99 and upd = ?u9]
  note t4 = handler_persistence_calls[where s = ?s and i = 1 and data = ?d99 and upd = ?u99]
  have w1: "issued ?s (snd (update_employee 1 ?u2 ?s)) =
      [Select_employee 1, Update_employee 1, Set_projects 1 [2]]"
    using t1[THEN conjunct2, THEN conjunct2, THEN conjunct2, THEN conjunct1]
    by (simp add: h1 a2 k1)
  have w2: "issued ?s (snd (delete_employee 1 ?s)) = [Select_employee 1, Delete_employee 1]"
    using t1[THEN conjunct2, THEN conjunct2, THEN conjunct2, THEN conjunct2, THEN conjunct1] in1
    by simp
  have w3: "fst (create_employee ?d9 ?s) = Inl IntegrityError"
    and w3': "stored (snd (create_employee ?d9 ?s)) = stored ?s"
    using t1[THEN conjunct2, THEN conjunct2, THEN conjunct2, THEN conjunct2, THEN conjunct2,
        THEN conjunct1] k9
    by simp_all
  have w4: "fst (create_employee ?d99 ?s) = Inl IntegrityError"
    and w4r: "employee_rows (snd (create_employee ?d99 ?s)) =
      employee_rows ?s @
        [\<lparr>employee_id = employee_seq ?s,
          employee.first_name = EmployeeRequest.first_name ?d99,
          employee.last_name = EmployeeRequest.last_name ?d99,
          employee.department_id = EmployeeRequest.department_id ?d99,
          employee.birthdate = EmployeeRequest.birthdate ?d99\<rparr>]"
    using t2[THEN conjunct2, THEN conjunct2, THEN conjunct2, THEN conjunct2, THEN conjunct2,
        THEN conjunct2, THEN conjunct1] k0 x99
    by simp_all
  have w4': "employee_rows (snd (create_employee ?d99 ?s)) =
     [?e,
      \<lparr>employee_id = 2, employee.first_name = ''Ann'', employee.last_name = ''Lee'',
       employee.department_id = None, employee.birthdate = None\<rparr>]"
    unfolding w4r rows seq by simp
  have w5: "fst (update_employee 7 ?u2 ?s) = Inl Http404"
    and w5': "stored (snd (update_employee 7 ?u2 ?s)) = stored ?s"
    using t2[THEN conjunct2, THEN conjunct2, THEN conjunct2, THEN conjunct2, THEN conjunct2,
        THEN conjunct2, THEN conjunct2, THEN conjunct2, THEN conjunct1] h7
    by simp_all
  have w6: "fst (update_employee 1 ?u9 ?s) = Inl IntegrityError"
    and w6': "stored (snd (update_employee 1 ?u9 ?s)) = stored ?s"
    using t3[THEN conjunct2, THEN conjunct2, THEN conjunct2, THEN conjunct2, THEN conjunct2,
        THEN conjunct2, THEN conjunct2, THEN conjunct2, THEN conjunct2, THEN conjunct1,
        rule_format, of ?e] h1 a9 k9
    by simp_all
  have w7: "fst (update_employee 1 ?u99 ?s) = Inl IntegrityError"
    and w7r: "find (\<lambda>r. employee_id r = 1) (employee_rows (snd (update_employee 1 ?u99 ?s))) =
      Some (assign_provided ?u99 ?e)"
    using t4[THEN conjunct2, THEN conjunct2, THEN conjunct2, THEN conjunct2, THEN conjunct2,
        THEN conjunct2, THEN conjunct2, THEN conjunct2, THEN conjunct2, THEN conjunct2,
        THEN conjunct1, rule_format, of ?e "[99]"] h1 a99 k1 x99
    by simp_all
  have w7': "find (\<lambda>r. employee_id r = 1) (employee_rows (snd (update_employee 1 ?u99 ?s))) =
     Some \<lparr>employee_id = 1, employee.first_name = ''Bob'', employee.last_name = ''Jones'',
           employee.department_id = Some 1, employee.birthdate = Some (Date 2024 3 15)\<rparr>"
    unfolding w7r r99 by (rule refl)
  have w8: "stored (snd (delete_employee 7 ?s)) = stored ?s"
    using t2[THEN conjunct2, THEN conjunct2, THEN conjunct2, THEN conjunct2, THEN conjunct2,
        THEN conjunct2, THEN conjunct2, THEN conjunct2, THEN conjunct2, THEN conjunct2,
        THEN conjunct2, THEN conjunct2] i7
    by simp
  show ?thesis
    by (intro conjI)
       (rule w1 w2 k9 w3 w3' x99 w4 w4' h7 w5 w5' w6 w6' w7 w7' i7 w8)+
qed

section \<open>Validation of the payload\<close>

text \<open>
  C8. The string fields first_name and last_name of a create or update payload are stored
  stripped. With the hand-written API, the row that \<open>create_employee\<close> inserts and the
  row that \<open>update_employee\<close> saves carry the stripped strings: whenever the database
  accepts the row (its department, if any, exists) the row with the stripped strings is
  in the table afterwards, and it is what the handler returns when the project ids
  exist too; when the database does not accept the row, the handler fails with
  \<open>IntegrityError\<close> and the table of employees is as it was, so no string is stored that
  is not stripped. With the generated API, the validated request, which the generated
  views store, carries the stripped strings. The stripped string is the input without a
  leading and a trailing run of whitespace characters, and it neither starts nor ends
  with one.
\<close>

theorem string_fields_stripped:
  "(EmployeeRequest_validate lib payload = Inr data \<and>
    payload ''first_name'' = Some (JStr a) \<and> payload ''last_name'' = Some (JStr b) \<longrightarrow>
      (\<exists>r s'. create_employee data s = (r, s') \<and>
         (if department_ok s (EmployeeRequest.department_id data)
          then \<exists>e. e \<in> set (employee_rows s') \<and> employee_id e = employee_seq s \<and>
                 employee.first_name e = strip (whitespace lib) a \<and>
                 employee.last_name e = strip (whitespace lib) b \<and>
                 (projects_exist s (EmployeeRequest.project_ids data) \<longrightarrow> r = Inr e)
          else r = Inl IntegrityError \<and> employee_rows s' = employee_rows s))) \<and>
   (EmployeeUpdateRequest_validate lib payload = Inr upd \<and>
    find (\<lambda>r. employee_id r = i) (employee_rows s) = Some old \<longrightarrow>
      (\<exists>r s'. update_employee i upd s = (r, s') \<and>
         (if department_ok s (employee.department_id (assign_provided upd old))
          then \<exists>e'. find (\<lambda>r. employee_id r = i) (employee_rows s') = Some e' \<and>
                 (payload ''first_name'' = Some (JStr a) \<longrightarrow>
                    employee.first_name e' = strip (whitespace lib) a) \<and>
                 (payload ''last_name'' = Some (JStr b) \<longrightarrow>
                    employee.last_name e' = strip (whitespace lib) b) \<and>
                 ((\<forall>ids. EmployeeUpdateRequest.project_ids upd = Some ids \<longrightarrow>
                     projects_exist s ids) \<longrightarrow> r = Inr e')
          else r = Inl IntegrityError \<and> employee_rows s' = employee_rows s))) \<and>
   (crud_EmployeeRequest_validate lib payload = Inr cdata \<and>
    payload ''first_name'' = Some (JStr a) \<and> payload ''last_name'' = Some (JStr b) \<longrightarrow>
      crud_EmployeeRequest.first_name cdata = strip (whitespace lib) a \<and>
      crud_EmployeeRequest.last_name cdata = strip (whitespace lib) b) \<and>
   (crud_EmployeeUpdateRequest_validate lib payload = Inr cupd \<longrightarrow>
      (payload ''first_name'' = Some (JStr a) \<longrightarrow>
         crud_EmployeeUpdateRequest.first_name cupd = Some (strip (whitespace lib) a)) \<and>
      (payload ''last_name'' = Some (JStr b) \<longrightarrow>
         crud_EmployeeUpdateRequest.last_name cupd = Some (strip (whitespace lib) b))) \<and>
   (\<exists>pre suf. a = pre @ strip (whitespace lib) a @ suf \<and>
      list_all (whitespace lib) pre \<and> list_all (whitespace lib) suf) \<and>
   (strip (whitespace lib) a = [] \<or>
      (\<not> whitespace lib (hd (strip (whitespace lib) a)) \<and>
       \<not> whitespace lib (last (strip (whitespace lib) a))))"
proof -
  have 1: "EmployeeRequest_validate lib payload = Inr data \<and>
    payload ''first_name'' = Some (JStr a) \<and> payload ''last_name'' = Some (JStr b) \<longrightarrow>
      (\<exists>r s'. create_employee data s = (r, s') \<and>
         (if department_ok s (EmployeeRequest.department_id data)
          then \<exists>e. e \<in> set (employee_rows s') \<and> employee_id e = employee_seq s \<and>
                 employee.first_name e = strip (whitespace lib) a \<and>
                 employee.last_name e = strip (whitespace lib) b \<and>
                 (projects_exist s (EmployeeRequest.project_ids data) \<longrightarrow> r = Inr e)
          else r = Inl IntegrityError \<and> employee_rows s' = employee_rows s))"
  proof
    assume h: "EmployeeRequest_validate lib payload = Inr data \<and>
      payload ''first_name'' = Some (JStr a) \<and> payload ''last_name'' = Some (JStr b)"
    then have h1: "EmployeeRequest_validate lib payload = Inr data"
      and h2: "payload ''first_name'' = Some (JStr a)"
      and h3: "payload ''last_name'' = Some (JStr b)"
      by simp_all
    show "\<exists>r s'. create_employee data s = (r, s') \<and>
         (if department_ok s (EmployeeRequest.department_id data)
          then \<exists>e. e \<in> set (employee_rows s') \<and> employee_id e = employee_seq s \<and>
                 employee.first_name e = strip (whitespace lib) a \<and>
                 employee.last_name e = strip (whitespace lib) b \<and>
                 (projects_exist s (EmployeeRequest.project_ids data) \<longrightarrow> r = Inr e)
          else r = Inl IntegrityError \<and> employee_rows s' = employee_rows s)"
      by (rule create_strips[where payload = payload, OF h1 h2 h3])
  qed
  have 2: "EmployeeUpdateRequest_validate lib payload = Inr upd \<and>
    find (\<lambda>r. employee_id r = i) (employee_rows s) = Some old \<longrightarrow>
      (\<exists>r s'. update_employee i upd s = (r, s') \<and>
         (if department_ok s (employee.department_id (assign_provided upd old))
          then \<exists>e'. find (\<lambda>r. employee_id r = i) (employee_rows s') = Some e' \<and>
                 (payload ''first_name'' = Some (JStr a) \<longrightarrow>
                    employee.first_name e' = strip (whitespace lib) a) \<and>
                 (payload ''last_name'' = Some (JStr b) \<longrightarrow>
                    employee.last_name e' = strip (whitespace lib) b) \<and>
                 ((\<forall>ids. EmployeeUpdateRequest.project_ids upd = Some ids \<longrightarrow>
                     projects_exist s ids) \<longrightarrow> r = Inr e')
          else r = Inl IntegrityError \<and> employee_rows s' = employee_rows s))"
  proof
    assume h: "EmployeeUpdateRequest_validate lib payload = Inr upd \<and>
      find (\<lambda>r. employee_id r = i) (employee_rows s) = Some old"
    then have h1: "EmployeeUpdateRequest_validate lib payload = Inr upd"
      and h2: "find (\<lambda>r. employee_id r = i) (employee_rows s) = Some old"
      by simp_all
    show "\<exists>r s'. update_employee i upd s = (r, s') \<and>
         (if department_ok s (employee.department_id (assign_provided upd old))
          then \<exists>e'. find (\<lambda>r. employee_id r = i) (employee_rows s') = Some e' \<and>
                 (payload ''first_name'' = Some (JStr a) \<longrightarrow>
                    employee.first_name e' = strip (whitespace lib) a) \<and>
                 (payload ''last_name'' = Some (JStr b) \<longrightarrow>
                    employee.last_name e' = strip (whitespace lib) b) \<and>
                 ((\<forall>ids. EmployeeUpdateRequest.project_ids upd = Some ids \<longrightarrow>
                     projects_exist s ids) \<longrightarrow> r = Inr e')
          else r = Inl IntegrityError \<and> employee_rows s' = employee_rows s)"
      by (rule update_strips[OF h1 h2])
  qed
  have 3: "crud_EmployeeRequest_validate lib payload = Inr cdata \<and>
    payload ''first_name'' = Some (JStr a) \<and> payload ''last_name'' = Some (JStr b) \<longrightarrow>
      crud_EmployeeRequest.first_name cdata = strip (whitespace lib) a \<and>
      crud_EmployeeRequest.last_name cdata = strip (whitespace lib) b"
    using crud_create_strips by blast
  have 4: "crud_EmployeeUpdateRequest_validate lib payload = Inr cupd \<longrightarrow>
      (payload ''first_name'' = Some (JStr a) \<longrightarrow>
         crud_EmployeeUpdateRequest.first_name cupd = Some (strip (whitespace lib) a)) \<and>
      (payload ''last_name'' = Some (JStr b) \<longrightarrow>
         crud_EmployeeUpdateRequest.last_name cupd = Some (strip (whitespace lib) b))"
    using crud_update_strips by blast
  have 5: "\<exists>pre suf. a = pre @ strip (whitespace lib) a @ suf \<and>
      list_all (whitespace lib) pre \<and> list_all (whitespace lib) suf"
    by (rule strip_decompose)
  have 6: "strip (whitespace lib) a = [] \<or>
      (\<not> whitespace lib (hd (strip (whitespace lib) a)) \<and>
       \<not> whitespace lib (last (strip (whitespace lib) a)))"
    by (rule strip_ends)
  show ?thesis
    by (rule conjI[OF 1 conjI[OF 2 conjI[OF 3 conjI[OF 4 conjI[OF 5 6]]]]])
qed

theorem string_fields_stripped_witness:
  "EmployeeRequest_validate example_validators
     [''first_name'' \<mapsto> JStr ''  Ann '', ''last_name'' \<mapsto> JStr ''Lee  '',
      ''project_ids'' \<mapsto> JArr [JNum 1]] =
     Inr \<lparr>EmployeeRequest.first_name = ''Ann'', last_name = ''Lee'', department_id = None,
          project_ids = [1], birthdate = None\<rparr> \<and>
   department_ok (seed_basic_app (Date 2024 3 15) empty_db) None \<and>
   department_ok (seed_basic_app (Date 2024 3 15) empty_db) (Some 1) \<and>
   projects_exist (seed_basic_app (Date 2024 3 15) empty_db) [1] \<and>
   (\<exists>e s'. create_employee
        \<lparr>EmployeeRequest.first_name = ''Ann'', last_name = ''Lee'', department_id = None,
          project_ids = [1], birthdate = None\<rparr>
        (seed_basic_app (Date 2024 3 15) empty_db) = (Inr e, s') \<and>
      e \<in> set (employee_rows s') \<and>
      employee.first_name e = ''Ann'' \<and> employee.last_name e = ''Lee'') \<and>
   EmployeeUpdateRequest_validate example_validators
     [''first_name'' \<mapsto> JStr ''  Ann '', ''last_name'' \<mapsto> JStr ''Lee  '',
      ''project_ids'' \<mapsto> JArr [JNum 1]] =
     Inr \<lparr>EmployeeUpdateRequest.first_name = Some ''Ann'', last_name = Some ''Lee'',
          department_id = None, project_ids = Some [1], birthdate = None\<rparr> \<and>
   (\<exists>e' s'. update_employee 1
        \<lparr>EmployeeUpdateRequest.first_name = Some ''Ann'', last_name = Some ''Lee'',
          department_id = None, project_ids = Some [1], birthdate = None\<rparr>
        (seed_basic_app (Date 2024 3 15) empty_db) = (Inr e', s') \<and>
      find (\<lambda>r. employee_id r = 1) (employee_rows s') = Some e' \<and>
      employee.first_name e' = ''Ann'' \<and> employee.last_name e' = ''Lee'') \<and>
   crud_EmployeeRequest_validate example_validators
     [''first_name'' \<mapsto> JStr ''  Ann '', ''last_name'' \<mapsto> JStr ''Lee  '',
      ''project_ids'' \<mapsto> JArr [JNum 1]] =
     Inr \<lparr>crud_EmployeeRequest.first_name = ''Ann'', last_name = ''Lee'', department_id = None,
          projects = [1], birthdate = None\<rparr> \<and>
   crud_EmployeeUpdateRequest_validate example_validators
     [''first_name'' \<mapsto> JStr ''  Ann '', ''last_name'' \<mapsto> JStr ''Lee  '',
      ''project_ids'' \<mapsto> JArr [JNum 1]] =
     Inr \<lparr>crud_EmployeeUpdateRequest.first_name = Some ''Ann'', last_name = Some ''Lee'',
          department_id = None, projects = Some [1], birthdate = None\<rparr>"
proof -
  let ?s = "seed_basic_app (Date 2024 3 15) empty_db"
  let ?p = "[''first_name'' \<mapsto> JStr ''  Ann '', ''last_name'' \<mapsto> JStr ''Lee  '',
      ''project_ids'' \<mapsto> JArr [JNum 1]]"
  let ?data = "\<lparr>EmployeeRequest.first_name = ''Ann'', last_name = ''Lee'', department_id = None,
          project_ids = [1], birthdate = None\<rparr>"
  let ?upd = "\<lparr>EmployeeUpdateRequest.first_name = Some ''Ann'', last_name = Some ''Lee'',
          department_id = None, project_ids = Some [1], birthdate = None\<rparr>"
  let ?cdata = "\<lparr>crud_EmployeeRequest.first_name = ''Ann'', last_name = ''Lee'',
          department_id = None, projects = [1], birthdate = None\<rparr>"
  let ?cupd = "\<lparr>crud_EmployeeUpdateRequest.first_name = Some ''Ann'', last_name = Some ''Lee'',
          department_id = None, projects = Some [1], birthdate = None\<rparr>"
  let ?old = "\<lparr>employee_id = 1, employee.first_name = ''Bob'', employee.last_name = ''Smith'',
           employee.department_id = Some 1, employee.birthdate = Some (Date 2024 3 15)\<rparr>"
  have sa: "strip (whitespace example_validators) ''  Ann '' = ''Ann''"
    and sb: "strip (whitespace example_validators) ''Lee  '' = ''Lee''"
    by (simp_all add: strip_def example_validators_def)
  have pa: "?p ''first_name'' = Some (JStr ''  Ann '')"
    and pb: "?p ''last_name'' = Some (JStr ''Lee  '')"
    by simp_all
  have h1: "EmployeeRequest_validate example_validators ?p = Inr ?data"
    by (simp add: EmployeeRequest_validate_def validation_defs example_validators_def strip_def)
  have h2: "EmployeeUpdateRequest_validate example_validators ?p = Inr ?upd"
    by (simp add: EmployeeUpdateRequest_validate_def validation_defs example_validators_def strip_def)
  have h3: "find (\<lambda>r. employee_id r = 1) (employee_rows ?s) = Some ?old"
    by (simp add: seeded_db)
  have h4: "crud_EmployeeRequest_validate example_validators ?p = Inr ?cdata"
    by (simp add: crud_EmployeeRequest_validate_def validation_defs example_validators_def strip_def)
  have h5: "crud_EmployeeUpdateRequest_validate example_validators ?p = Inr ?cupd"
    by (simp add: crud_EmployeeUpdateRequest_validate_def validation_defs example_validators_def strip_def)
  have k0: "department_ok ?s None" and k1: "department_ok ?s (Some 1)"
    and x1: "projects_exist ?s [1]"
    by (simp_all add: seeded_db department_ok_def projects_exist_def)
  have kd: "department_ok ?s (EmployeeRequest.department_id ?data) = True"
    using k0 by simp
  have ku: "department_ok ?s (employee.department_id (assign_provided ?upd ?old)) = True"
    using k1 by (simp add: assign_provided_def dict_get_def)
  note t = string_fields_stripped[where lib = example_validators and payload = ?p
      and data = ?data and a = "''  Ann ''" and b = "''Lee  ''" and s = ?s and upd = ?upd
      and i = 1 and old = ?old and cdata = ?cdata and cupd = ?cupd]
  from t[THEN conjunct1, rule_format, OF conjI[OF h1 conjI[OF pa pb]]] obtain r s' where
    c: "create_employee ?data ?s = (r, s')"
    and ci: "if department_ok ?s (EmployeeRequest.department_id ?data)
          then \<exists>e. e \<in> set (employee_rows s') \<and> employee_id e = employee_seq ?s \<and>
                 employee.first_name e = strip (whitespace example_validators) ''  Ann '' \<and>
                 employee.last_name e = strip (whitespace example_validators) ''Lee  '' \<and>
                 (projects_exist ?s (EmployeeRequest.project_ids ?data) \<longrightarrow> r = Inr e)
          else r = Inl IntegrityError \<and> employee_rows s' = employee_rows ?s"
    by (elim exE conjE)
  from ci obtain e where
    e1: "e \<in> set (employee_rows s')"
    and e2: "employee.first_name e = strip (whitespace example_validators) ''  Ann ''"
    and e3: "employee.last_name e = strip (whitespace example_validators) ''Lee  ''"
    and e4: "projects_exist ?s (EmployeeRequest.project_ids ?data) \<longrightarrow> r = Inr e"
    unfolding kd if_True by (elim exE conjE)
  from e4 x1 have e5: "r = Inr e"
    by simp
  have cw: "\<exists>e s'. create_employee ?data ?s = (Inr e, s') \<and>
      e \<in> set (employee_rows s') \<and>
      employee.first_name e = ''Ann'' \<and> employee.last_name e = ''Lee''"
    using c e1 e2 e3 e5 unfolding sa sb by blast
  from t[THEN conjunct2, THEN conjunct1, rule_format, OF conjI[OF h2 h3]] obtain r' s'' where
    u: "update_employee 1 ?upd ?s = (r', s'')"
    and ui: "if department_ok ?s (employee.department_id (assign_provided ?upd ?old))
          then \<exists>e'. find (\<lambda>r. employee_id r = 1) (employee_rows s'') = Some e' \<and>
                 (?p ''first_name'' = Some (JStr ''  Ann '') \<longrightarrow>
                    employee.first_name e' = strip (whitespace example_validators) ''  Ann '') \<and>
                 (?p ''last_name'' = Some (JStr ''Lee  '') \<longrightarrow>
                    employee.last_name e' = strip (whitespace example_validators) ''Lee  '') \<and>
                 ((\<forall>ids. EmployeeUpdateRequest.project_ids ?upd = Some ids \<longrightarrow>
                     projects_exist ?s ids) \<longrightarrow> r' = Inr e')
          else r' = Inl IntegrityError \<and> employee_rows s'' = employee_rows ?s"
    by (elim exE conjE)
  from ui obtain e' where
    f1: "find (\<lambda>r. employee_id r = 1) (employee_rows s'') = Some e'"
    and f2: "?p ''first_name'' = Some (JStr ''  Ann '') \<longrightarrow>
                    employee.first_name e' = strip (whitespace example_validators) ''  Ann ''"
    and f3: "?p ''last_name'' = Some (JStr ''Lee  '') \<longrightarrow>
                    employee.last_name e' = strip (whitespace example_validators) ''Lee  ''"
    and f4: "(\<forall>ids. EmployeeUpdateRequest.project_ids ?upd = Some ids \<longrightarrow>
                     projects_exist ?s ids) \<longrightarrow> r' = Inr e'"
    unfolding ku if_True by (elim exE conjE)
  from f2 pa have g2: "employee.first_name e' = ''Ann''"
    unfolding sa by simp
  from f3 pb have g3: "employee.last_name e' = ''Lee''"
    unfolding sb by simp
  from f4 x1 have g4: "r' = Inr e'"
    by simp
  have uw: "\<exists>e' s'. update_employee 1 ?upd ?s = (Inr e', s') \<and>
      find (\<lambda>r. employee_id r = 1) (employee_rows s') = Some e' \<and>
      employee.first_name e' = ''Ann'' \<and> employee.last_name e' = ''Lee''"
    using u f1 g2 g3 g4 by blast
  show ?thesis
    by (intro conjI) (rule h1 k0 k1 x1 cw h2 uw h4 h5)+
qed

text \<open>
  C9. In the generated API the relation field of the create and update schemas is named
  \<^verbatim>\<open>projects\<close> and is read from the key \<^verbatim>\<open>project_ids\<close> of the payload: a payload with
  that key populates \<open>projects\<close> with the validated list, and a key \<^verbatim>\<open>projects\<close> in the
  payload is not read at all. On such payloads the external contract is that of the
  hand-written API: both accept and reject the same payloads, with the same errors, and
  the validated requests agree field by field, \<open>projects\<close> against \<open>project_ids\<close>.
\<close>

theorem project_ids_alias:
  assumes "payload ''project_ids'' = Some j"
  shows "(\<forall>data. crud_EmployeeRequest_validate lib payload = Inr data \<longrightarrow>
            list_int_validator lib j = Some (crud_EmployeeRequest.projects data)) \<and>
         (\<forall>upd. crud_EmployeeUpdateRequest_validate lib payload = Inr upd \<longrightarrow>
            list_int_validator lib j = crud_EmployeeUpdateRequest.projects upd \<and>
            crud_EmployeeUpdateRequest.projects upd \<noteq> None) \<and>
         crud_EmployeeRequest_validate lib (payload(''projects'' := x)) =
           crud_EmployeeRequest_validate lib payload \<and>
         crud_EmployeeUpdateRequest_validate lib (payload(''projects'' := x)) =
           crud_EmployeeUpdateRequest_validate lib payload \<and>
         map_sum id
           (\<lambda>d. \<lparr>EmployeeRequest.first_name = crud_EmployeeRequest.first_name d,
                 last_name = crud_EmployeeRequest.last_name d,
                 department_id = crud_EmployeeRequest.department_id d,
                 project_ids = crud_EmployeeRequest.projects d,
                 birthdate = crud_EmployeeRequest.birthdate d\<rparr>)
           (crud_EmployeeRequest_validate lib payload) =
           EmployeeRequest_validate lib payload \<and>
         map_sum id
           (\<lambda>d. \<lparr>EmployeeUpdateRequest.first_name = crud_EmployeeUpdateRequest.first_name d,
                 last_name = crud_EmployeeUpdateRequest.last_name d,
                 department_id = crud_EmployeeUpdateRequest.department_id d,
                 project_ids = crud_EmployeeUpdateRequest.projects d,
                 birthdate = crud_EmployeeUpdateRequest.birthdate d\<rparr>)
           (crud_EmployeeUpdateRequest_validate lib payload) =
           EmployeeUpdateRequest_validate lib payload"
proof -
  have 1: "\<forall>data. crud_EmployeeRequest_validate lib payload = Inr data \<longrightarrow>
      list_int_validator lib j = Some (crud_EmployeeRequest.projects data)"
  proof (intro allI impI)
    fix data
    assume "crud_EmployeeRequest_validate lib payload = Inr data"
    from crud_EmployeeRequest_validate_Inr(4)[OF this] assms
    show "list_int_validator lib j = Some (crud_EmployeeRequest.projects data)"
      by (simp add: required_def field_def split: option.splits)
  qed
  have 2: "\<forall>upd. crud_EmployeeUpdateRequest_validate lib payload = Inr upd \<longrightarrow>
      list_int_validator lib j = crud_EmployeeUpdateRequest.projects upd \<and>
      crud_EmployeeUpdateRequest.projects upd \<noteq> None"
  proof (intro allI impI)
    fix upd
    assume v: "crud_EmployeeUpdateRequest_validate lib payload = Inr upd"
    from provided_field_present[OF assms crud_EmployeeUpdateRequest_validate_Inr(9)[OF v]]
      crud_EmployeeUpdateRequest_validate_Inr(4)[OF v]
    show "list_int_validator lib j = crud_EmployeeUpdateRequest.projects upd \<and>
      crud_EmployeeUpdateRequest.projects upd \<noteq> None"
      by simp
  qed
  have 3: "crud_EmployeeRequest_validate lib (payload(''projects'' := x)) =
      crud_EmployeeRequest_validate lib payload"
    by (simp add: crud_EmployeeRequest_validate_def alias_key_def field_other_key
        required_other_key)
  have 4: "crud_EmployeeUpdateRequest_validate lib (payload(''projects'' := x)) =
      crud_EmployeeUpdateRequest_validate lib payload"
    by (simp add: crud_EmployeeUpdateRequest_validate_def alias_key_def field_other_key)
  have 5: "map_sum id
           (\<lambda>d. \<lparr>EmployeeRequest.first_name = crud_EmployeeRequest.first_name d,
                 last_name = crud_EmployeeRequest.last_name d,
                 department_id = crud_EmployeeRequest.department_id d,
                 project_ids = crud_EmployeeRequest.projects d,
                 birthdate = crud_EmployeeRequest.birthdate d\<rparr>)
           (crud_EmployeeRequest_validate lib payload) =
           EmployeeRequest_validate lib payload"
  proof -
    have rf: "field payload ''project_ids'' (list_int_validator lib) =
        required payload ''project_ids'' (list_int_validator lib)"
      using assms by (simp add: required_def field_def split: option.split)
    show ?thesis
      unfolding crud_EmployeeRequest_validate_def EmployeeRequest_validate_def Let_def
        alias_key_def option.case rf
      by (rule create_schemas_agree) (rule required_not_Unset)+
  qed
  show ?thesis
    by (rule conjI[OF 1 conjI[OF 2 conjI[OF 3 conjI[OF 4 conjI[OF 5 update_schemas_agree]]]]])
qed

theorem project_ids_alias_witness:
  "[''first_name'' \<mapsto> JStr ''Ann'', ''last_name'' \<mapsto> JStr ''Lee'',
    ''project_ids'' \<mapsto> JArr [JNum 1, JNum 2]] ''project_ids'' = Some (JArr [JNum 1, JNum 2]) \<and>
   crud_EmployeeRequest_validate example_validators
     [''first_name'' \<mapsto> JStr ''Ann'', ''last_name'' \<mapsto> JStr ''Lee'',
      ''project_ids'' \<mapsto> JArr [JNum 1, JNum 2]] =
     Inr \<lparr>crud_EmployeeRequest.first_name = ''Ann'', last_name = ''Lee'', department_id = None,
          projects = [1, 2], birthdate = None\<rparr> \<and>
   crud_EmployeeUpdateRequest_validate example_validators
     [''first_name'' \<mapsto> JStr ''Ann'', ''last_name'' \<mapsto> JStr ''Lee'',
      ''project_ids'' \<mapsto> JArr [JNum 1, JNum 2]] =
     Inr \<lparr>crud_EmployeeUpdateRequest.first_name = Some ''Ann'', last_name = Some ''Lee'',
          department_id = None, projects = Some [1, 2], birthdate = None\<rparr> \<and>
   list_int_validator example_validators (JArr [JNum 1, JNum 2]) = Some [1, 2] \<and>
   crud_EmployeeRequest_validate example_validators
     ([''first_name'' \<mapsto> JStr ''Ann'', ''last_name'' \<mapsto> JStr ''Lee'',
       ''project_ids'' \<mapsto> JArr [JNum 1, JNum 2]](''projects'' \<mapsto> JArr [JNum 9])) =
     Inr \<lparr>crud_EmployeeRequest.first_name = ''Ann'', last_name = ''Lee'', department_id = None,
          projects = [1, 2], birthdate = None\<rparr> \<and>
   EmployeeRequest_validate example_validators
     [''first_name'' \<mapsto> JStr ''Ann'', ''last_name'' \<mapsto> JStr ''Lee'',
      ''project_ids'' \<mapsto> JArr [JNum 1, JNum 2]] =
     Inr \<lparr>EmployeeRequest.first_name = ''Ann'', last_name = ''Lee'', department_id = None,
          project_ids = [1, 2], birthdate = None\<rparr> \<and>
   EmployeeUpdateRequest_validate example_validators
     [''first_name'' \<mapsto> JStr ''Ann'', ''last_name'' \<mapsto> JStr ''Lee'',
      ''project_ids'' \<mapsto> JArr [JNum 1, JNum 2]] =
     Inr \<lparr>EmployeeUpdateRequest.first_name = Some ''Ann'', last_name = Some ''Lee'',
          department_id = None, project_ids = Some [1, 2], birthdate = None\<rparr>"
proof -
  let ?p = "[''first_name'' \<mapsto> JStr ''Ann'', ''last_name'' \<mapsto> JStr ''Lee'',
      ''project_ids'' \<mapsto> JArr [JNum 1, JNum 2]]"
  let ?cdata = "\<lparr>crud_EmployeeRequest.first_name = ''Ann'', last_name = ''Lee'',
          department_id = None, projects = [1, 2], birthdate = None\<rparr>"
  let ?cupd = "\<lparr>crud_EmployeeUpdateRequest.first_name = Some ''Ann'', last_name = Some ''Lee'',
          department_id = None, projects = Some [1, 2], birthdate = None\<rparr>"
  have h: "?p ''project_ids'' = Some (JArr [JNum 1, JNum 2])"
    by simp
  have c: "crud_EmployeeRequest_validate example_validators ?p = Inr ?cdata"
    by (simp add: crud_EmployeeRequest_validate_def validation_defs example_validators_def
        strip_def)
  have u: "crud_EmployeeUpdateRequest_validate example_validators ?p = Inr ?cupd"
    by (simp add: crud_EmployeeUpdateRequest_validate_def validation_defs example_validators_def
        strip_def)
  note t = project_ids_alias[where payload = ?p and j = "JArr [JNum 1, JNum 2]"
      and lib = example_validators and x = "Some (JArr [JNum 9])", OF h]
  from t c have 1: "list_int_validator example_validators (JArr [JNum 1, JNum 2]) = Some [1, 2]"
    by simp
  from t c have 2: "crud_EmployeeRequest_validate example_validators
      (?p(''projects'' \<mapsto> JArr [JNum 9])) = Inr ?cdata"
    by (simp only:)
  from t have "map_sum id
           (\<lambda>d. \<lparr>EmployeeRequest.first_name = crud_EmployeeRequest.first_name d,
                 last_name = crud_EmployeeRequest.last_name d,
                 department_id = crud_EmployeeRequest.department_id d,
                 project_ids = crud_EmployeeRequest.projects d,
                 birthdate = crud_EmployeeRequest.birthdate d\<rparr>)
           (crud_EmployeeRequest_validate example_validators ?p) =
           EmployeeRequest_validate example_validators ?p"
    by (elim conjE)
  then have 3: "EmployeeRequest_validate example_validators ?p =
      Inr \<lparr>EmployeeRequest.first_name = ''Ann'', last_name = ''Lee'', department_id = None,
          project_ids = [1, 2], birthdate = None\<rparr>"
    unfolding c by simp
  from t have "map_sum id
           (\<lambda>d. \<lparr>EmployeeUpdateRequest.first_name = crud_EmployeeUpdateRequest.first_name d,
                 last_name = crud_EmployeeUpdateRequest.last_name d,
                 department_id = crud_EmployeeUpdateRequest.department_id d,
                 project_ids = crud_EmployeeUpdateRequest.projects d,
                 birthdate = crud_EmployeeUpdateRequest.birthdate d\<rparr>)
           (crud_EmployeeUpdateRequest_validate example_validators ?p) =
           EmployeeUpdateRequest_validate example_validators ?p"
    by (elim conjE)
  then have 4: "EmployeeUpdateRequest_validate example_validators ?p =
      Inr \<lparr>EmployeeUpdateRequest.first_name = Some ''Ann'', last_name = Some ''Lee'',
          department_id = None, project_ids = Some [1, 2], birthdate = None\<rparr>"
    unfolding u by simp
  show ?thesis
    by (intro conjI) (rule h c u 1 2 3 4)+
qed

text \<open>
  C10. The two variants differ on a create payload without the key \<^verbatim>\<open>project_ids\<close>.
  The generated API rejects it: validation fails and reports the key as missing. The
  hand-written API validates it as it validates the payload with an empty list under
  that key; it is valid whenever first_name and last_name are strings and a
  department_id or birthdate, if given, is accepted. The validated request then has
  the default, the empty list, and the handler, when the department of the request, if
  given, exists, creates from it an employee with no association. (What the router
  answers after the handler is a matter of the response schema, not of the request
  schema; see C7.)
\<close>

theorem create_without_project_ids:
  assumes "payload ''project_ids'' = None"
  shows "(\<exists>errs. crud_EmployeeRequest_validate lib payload = Inl errs \<and>
            Missing ''project_ids'' \<in> set errs) \<and>
         EmployeeRequest_validate lib (payload(''project_ids'' \<mapsto> JArr [])) =
           EmployeeRequest_validate lib payload \<and>
         (\<forall>a b. payload ''first_name'' = Some (JStr a) \<and> payload ''last_name'' = Some (JStr b) \<and>
            (\<forall>j. payload ''department_id'' = Some j \<longrightarrow> int_validator lib j \<noteq> None) \<and>
            (\<forall>j. payload ''birthdate'' = Some j \<longrightarrow> date_validator lib j \<noteq> None) \<longrightarrow>
            (\<exists>data. EmployeeRequest_validate lib payload = Inr data)) \<and>
         (\<forall>data. EmployeeRequest_validate lib payload = Inr data \<longrightarrow>
            EmployeeRequest.project_ids data = [] \<and>
            (department_ok s (EmployeeRequest.department_id data) \<longrightarrow>
               (\<exists>e s'. create_employee data s = (Inr e, s') \<and>
                  e \<in> set (employee_rows s') \<and>
                  associations s' (employee_id e) = [])))"
proof -
  have 3: "\<forall>a b. payload ''first_name'' = Some (JStr a) \<and> payload ''last_name'' = Some (JStr b) \<and>
            (\<forall>j. payload ''department_id'' = Some j \<longrightarrow> int_validator lib j \<noteq> None) \<and>
            (\<forall>j. payload ''birthdate'' = Some j \<longrightarrow> date_validator lib j \<noteq> None) \<longrightarrow>
            (\<exists>data. EmployeeRequest_validate lib payload = Inr data)"
  proof (intro allI impI, elim conjE)
    fix a b
    assume "payload ''first_name'' = Some (JStr a)" "payload ''last_name'' = Some (JStr b)"
      "\<forall>j. payload ''department_id'' = Some j \<longrightarrow> int_validator lib j \<noteq> None"
      "\<forall>j. payload ''birthdate'' = Some j \<longrightarrow> date_validator lib j \<noteq> None"
    moreover from assms
    have "\<forall>j. payload ''project_ids'' = Some j \<longrightarrow> list_int_validator lib j \<noteq> None"
      by simp
    ultimately show "\<exists>data. EmployeeRequest_validate lib payload = Inr data"
      by (intro create_valid)
  qed
  have 4: "\<forall>data. EmployeeRequest_validate lib payload = Inr data \<longrightarrow>
            EmployeeRequest.project_ids data = [] \<and>
            (department_ok s (EmployeeRequest.department_id data) \<longrightarrow>
               (\<exists>e s'. create_employee data s = (Inr e, s') \<and>
                  e \<in> set (employee_rows s') \<and>
                  associations s' (employee_id e) = []))"
  proof (intro allI impI)
    fix data
    assume "EmployeeRequest_validate lib payload = Inr data"
    from EmployeeRequest_validate_Inr(4)[OF this]
    have e: "EmployeeRequest.project_ids data = []"
      by (simp add: field_def assms with_default_def)
    have c: "department_ok s (EmployeeRequest.department_id data) \<longrightarrow>
               (\<exists>e s'. create_employee data s = (Inr e, s') \<and>
                  e \<in> set (employee_rows s') \<and>
                  associations s' (employee_id e) = [])"
      using create_without_associations[OF e] by blast
    from e c
    show "EmployeeRequest.project_ids data = [] \<and>
            (department_ok s (EmployeeRequest.department_id data) \<longrightarrow>
               (\<exists>e s'. create_employee data s = (Inr e, s') \<and>
                  e \<in> set (employee_rows s') \<and>
                  associations s' (employee_id e) = []))"
      by (rule conjI)
  qed
  show ?thesis
    by (rule conjI[OF crud_create_requires_project_ids[where payload = payload, OF assms]
          conjI[OF create_default_project_ids[where payload = payload, OF assms]
            conjI[OF 3 4]]])
qed

theorem create_without_project_ids_witness:
  "[''first_name'' \<mapsto> JStr ''Ann'', ''last_name'' \<mapsto> JStr ''Lee''] ''project_ids'' = None \<and>
   (\<exists>errs. crud_EmployeeRequest_validate example_validators
        [''first_name'' \<mapsto> JStr ''Ann'', ''last_name'' \<mapsto> JStr ''Lee''] = Inl errs \<and>
      Missing ''project_ids'' \<in> set errs) \<and>
   EmployeeRequest_validate example_validators
     [''first_name'' \<mapsto> JStr ''Ann'', ''last_name'' \<mapsto> JStr ''Lee''] =
     Inr \<lparr>EmployeeRequest.first_name = ''Ann'', last_name = ''Lee'', department_id = None,
          project_ids = [], birthdate = None\<rparr> \<and>
   EmployeeRequest_validate example_validators
     ([''first_name'' \<mapsto> JStr ''Ann'', ''last_name'' \<mapsto> JStr ''Lee'']
        (''project_ids'' \<mapsto> JArr [])) =
     Inr \<lparr>EmployeeRequest.first_name = ''Ann'', last_name = ''Lee'', department_id = None,
          project_ids = [], birthdate = None\<rparr> \<and>
   department_ok (seed_basic_app (Date 2024 3 15) empty_db) None \<and>
   (\<exists>e s'. create_employee
        \<lparr>EmployeeRequest.first_name = ''Ann'', last_name = ''Lee'', department_id = None,
          project_ids = [], birthdate = None\<rparr>
        (seed_basic_app (Date 2024 3 15) empty_db) = (Inr e, s') \<and>
      e \<in> set (employee_rows s') \<and>
      associations s' (employee_id e) = [])"
proof -
  let ?p = "[''first_name'' \<mapsto> JStr ''Ann'', ''last_name'' \<mapsto> JStr ''Lee'']"
  let ?s = "seed_basic_app (Date 2024 3 15) empty_db"
  let ?data = "\<lparr>EmployeeRequest.first_name = ''Ann'', last_name = ''Lee'', department_id = None,
          project_ids = [], birthdate = None\<rparr>"
  have h: "?p ''project_ids'' = None"
    by simp
  have b: "EmployeeRequest_validate example_validators ?p = Inr ?data"
    by (simp add: EmployeeRequest_validate_def validation_defs example_validators_def strip_def)
  have k0: "department_ok ?s None"
    by (simp add: department_ok_def)
  have kd: "department_ok ?s (EmployeeRequest.department_id ?data)"
    using k0 by simp
  note t = create_without_project_ids[where payload = ?p and lib = example_validators
      and s = ?s, OF h]
  from t have 1: "\<exists>errs. crud_EmployeeRequest_validate example_validators ?p = Inl errs \<and>
      Missing ''project_ids'' \<in> set errs"
    by (elim conjE)
  from t have "EmployeeRequest_validate example_validators (?p(''project_ids'' \<mapsto> JArr [])) =
      EmployeeRequest_validate example_validators ?p"
    by (elim conjE)
  with b have 2: "EmployeeRequest_validate example_validators (?p(''project_ids'' \<mapsto> JArr [])) =
      Inr ?data"
    by (simp only:)
  from t have "\<forall>data. EmployeeRequest_validate example_validators ?p = Inr data \<longrightarrow>
      EmployeeRequest.project_ids data = [] \<and>
      (department_ok ?s (EmployeeRequest.department_id data) \<longrightarrow>
         (\<exists>e s'. create_employee data ?s = (Inr e, s') \<and>
            e \<in> set (employee_rows s') \<and>
            associations s' (employee_id e) = []))"
    by (elim conjE)
  from this[rule_format, OF b, THEN conjunct2, rule_format, OF kd]
  have 3: "\<exists>e s'. create_employee ?data ?s = (Inr e, s') \<and>
      e \<in> set (employee_rows s') \<and>
      associations s' (employee_id e) = []" .
  show ?thesis
    by (intro conjI) (rule h 1 b 2 k0 3)+
qed

section \<open>Authentication\<close>

text \<open>
  C3 says that authentication fails only when the token does not split into exactly two
  parts or the secret differs, and succeeds otherwise, with an anonymous placeholder for
  an unknown user. It does not succeed then: the token \<^verbatim>\<open>supersecret:2\<close> splits into
  two parts and carries the right secret, there is no user 2, and \<open>authenticate\<close>
  returns \<^verbatim>\<open>None\<close>, which the router takes as a failed authentication.
\<close>

theorem unknown_user_rejected_counterexample:
  "length (split ''supersecret:2'' CHR '':'') = 2 \<and>
   hd (split ''supersecret:2'' CHR '':'') = ''supersecret'' \<and>
   authenticate (\<lambda>s. if s = ''1'' then Some 1 else if s = ''2'' then Some 2 else None)
     [\<lparr>auth_user_id = 1, username = ''testuser''\<rparr>]
     \<lparr>request_user = AnonymousUser\<rparr> ''supersecret:2'' =
     Inr (None, \<lparr>request_user = AnonymousUser\<rparr>)"
  by (simp add: authenticate_def filter_first_def)

text \<open>
  C3, as \<open>authenticate\<close> has it. A token that does not split on \<^verbatim>\<open>:\<close> into exactly two
  parts, or whose first part is not \<^verbatim>\<open>supersecret\<close>, fails and leaves the request
  untouched. A token with the secret and the id of a user that exists succeeds: that
  user is returned and attached to the request. A token with the secret and a number
  that is the id of no user fails as well; the anonymous placeholder is then what is
  attached to the request. A token with the secret and a second part that is not a
  number makes the lookup raise \<^verbatim>\<open>ValueError\<close>, and the method returns nothing.

  These are all the cases, so each outcome has exactly one cause. The method succeeds,
  returning a user \<open>u\<close>, if and only if the token has the secret and a number that is
  the id of \<open>u\<close>, and the request then carries \<open>u\<close>. It fails, returning \<^verbatim>\<open>None\<close>, if
  and only if the token does not split into two parts, or the secret differs, or the
  number is the id of no user. It raises if and only if the token has the secret and
  its second part is not a number.
\<close>

theorem bearer_token_authentication:
  "(length (split token CHR '':'') \<noteq> 2 \<or> hd (split token CHR '':'') \<noteq> ''supersecret'' \<longrightarrow>
      authenticate to_python users request token = Inr (None, request)) \<and>
   (\<forall>uid n u. split token CHR '':'' = [''supersecret'', uid] \<and> to_python uid = Some n \<and>
      find (\<lambda>u. auth_user_id u = n) users = Some u \<longrightarrow>
      authenticate to_python users request token =
        Inr (Some u, request\<lparr>request_user := User u\<rparr>)) \<and>
   (\<forall>uid n. split token CHR '':'' = [''supersecret'', uid] \<and> to_python uid = Some n \<and>
      find (\<lambda>u. auth_user_id u = n) users = None \<longrightarrow>
      authenticate to_python users request token =
        Inr (None, request\<lparr>request_user := AnonymousUser\<rparr>)) \<and>
   (\<forall>uid. split token CHR '':'' = [''supersecret'', uid] \<and> to_python uid = None \<longrightarrow>
      authenticate to_python users request token = Inl ValueError) \<and>
   (\<forall>u request'. authenticate to_python users request token = Inr (Some u, request') \<longleftrightarrow>
      (\<exists>uid n. split token CHR '':'' = [''supersecret'', uid] \<and> to_python uid = Some n \<and>
         find (\<lambda>u. auth_user_id u = n) users = Some u) \<and>
      request' = request\<lparr>request_user := User u\<rparr>) \<and>
   (\<forall>request'. authenticate to_python users request token = Inr (None, request') \<longleftrightarrow>
      (length (split token CHR '':'') \<noteq> 2 \<or> hd (split token CHR '':'') \<noteq> ''supersecret'') \<and>
      request' = request \<or>
      (\<exists>uid n. split token CHR '':'' = [''supersecret'', uid] \<and> to_python uid = Some n \<and>
         find (\<lambda>u. auth_user_id u = n) users = None) \<and>
      request' = request\<lparr>request_user := AnonymousUser\<rparr>) \<and>
   (authenticate to_python users request token = Inl ValueError \<longleftrightarrow>
      (\<exists>uid. split token CHR '':'' = [''supersecret'', uid] \<and> to_python uid = None))"
proof -
  let ?rejected = "length (split token CHR '':'') \<noteq> 2 \<or>
    hd (split token CHR '':'') \<noteq> ''supersecret''"
  let ?auth = "authenticate to_python users request token"
  have A: "?rejected \<longrightarrow> ?auth = Inr (None, request)"
    using authenticate_rejected by blast
  have B: "\<forall>uid n u. split token CHR '':'' = [''supersecret'', uid] \<and> to_python uid = Some n \<and>
      find (\<lambda>u. auth_user_id u = n) users = Some u \<longrightarrow>
      ?auth = Inr (Some u, request\<lparr>request_user := User u\<rparr>)"
    by (simp add: authenticate_user)
  have C: "\<forall>uid n. split token CHR '':'' = [''supersecret'', uid] \<and> to_python uid = Some n \<and>
      find (\<lambda>u. auth_user_id u = n) users = None \<longrightarrow>
      ?auth = Inr (None, request\<lparr>request_user := AnonymousUser\<rparr>)"
    by (simp add: authenticate_unknown_user)
  have D: "\<forall>uid. split token CHR '':'' = [''supersecret'', uid] \<and> to_python uid = None \<longrightarrow>
      ?auth = Inl ValueError"
    by (simp add: authenticate_not_a_number)
  consider
    (rejected) "?rejected" "?auth = Inr (None, request)"
    | (user) uid n u where "\<not> ?rejected" "split token CHR '':'' = [''supersecret'', uid]"
        "to_python uid = Some n" "find (\<lambda>u. auth_user_id u = n) users = Some u"
        "?auth = Inr (Some u, request\<lparr>request_user := User u\<rparr>)"
    | (unknown) uid n where "\<not> ?rejected" "split token CHR '':'' = [''supersecret'', uid]"
        "to_python uid = Some n" "find (\<lambda>u. auth_user_id u = n) users = None"
        "?auth = Inr (None, request\<lparr>request_user := AnonymousUser\<rparr>)"
    | (raised) uid where "\<not> ?rejected" "split token CHR '':'' = [''supersecret'', uid]"
        "to_python uid = None" "?auth = Inl ValueError"
  proof (cases ?rejected)
    case True
    with A rejected show ?thesis
      by blast
  next
    case False
    then obtain uid where s: "split token CHR '':'' = [''supersecret'', uid]"
      using two_parts by blast
    show ?thesis
    proof (cases "to_python uid")
      case None
      with D s raised[OF False s None] show ?thesis
        by blast
    next
      case (Some n)
      show ?thesis
      proof (cases "find (\<lambda>u. auth_user_id u = n) users")
        case None
        with C s Some unknown[OF False s Some None] show ?thesis
          by blast
      next
        case u: (Some u)
        with B s Some user[OF False s Some u] show ?thesis
          by blast
      qed
    qed
  qed
  note cases = this
  have E: "\<forall>u request'. ?auth = Inr (Some u, request') \<longleftrightarrow>
      (\<exists>uid n. split token CHR '':'' = [''supersecret'', uid] \<and> to_python uid = Some n \<and>
         find (\<lambda>u. auth_user_id u = n) users = Some u) \<and>
      request' = request\<lparr>request_user := User u\<rparr>"
  proof (intro allI)
    fix u request'
    show "?auth = Inr (Some u, request') \<longleftrightarrow>
      (\<exists>uid n. split token CHR '':'' = [''supersecret'', uid] \<and> to_python uid = Some n \<and>
         find (\<lambda>u. auth_user_id u = n) users = Some u) \<and>
      request' = request\<lparr>request_user := User u\<rparr>"
    proof (cases rule: cases)
      case rejected
      then show ?thesis
        by auto
    next
      case (user uid n u')
      then show ?thesis
        by auto
    next
      case (unknown uid n)
      then show ?thesis
        by auto
    next
      case (raised uid)
      then show ?thesis
        by auto
    qed
  qed
  have F: "\<forall>request'. ?auth = Inr (None, request') \<longleftrightarrow>
      ?rejected \<and> request' = request \<or>
      (\<exists>uid n. split token CHR '':'' = [''supersecret'', uid] \<and> to_python uid = Some n \<and>
         find (\<lambda>u. auth_user_id u = n) users = None) \<and>
      request' = request\<lparr>request_user := AnonymousUser\<rparr>"
  proof (intro allI)
    fix request'
    show "?auth = Inr (None, request') \<longleftrightarrow>
      ?rejected \<and> request' = request \<or>
      (\<exists>uid n. split token CHR '':'' = [''supersecret'', uid] \<and> to_python uid = Some n \<and>
         find (\<lambda>u. auth_user_id u = n) users = None) \<and>
      request' = request\<lparr>request_user := AnonymousUser\<rparr>"
    proof (cases rule: cases)
      case rejected
      then show ?thesis
        by auto
    next
      case (user uid n u')
      then show ?thesis
        by auto
    next
      case (unknown uid n)
      then show ?thesis
        by auto
    next
      case (raised uid)
      then show ?thesis
        by auto
    qed
  qed
  have G: "?auth = Inl ValueError \<longleftrightarrow>
      (\<exists>uid. split token CHR '':'' = [''supersecret'', uid] \<and> to_python uid = None)"
  proof (cases rule: cases)
    case rejected
    then show ?thesis
      by auto
  next
    case (user uid n u')
    then show ?thesis
      by auto
  next
    case (unknown uid n)
    then show ?thesis
      by auto
  next
    case (raised uid)
    then show ?thesis
      by auto
  qed
  show ?thesis
    by (rule conjI[OF A conjI[OF B conjI[OF C conjI[OF D conjI[OF E conjI[OF F G]]]]]])
qed

theorem bearer_token_authentication_witness:
  "length (split ''supersecret'' CHR '':'') \<noteq> 2 \<and>
   authenticate (\<lambda>s. if s = ''1'' then Some 1 else if s = ''2'' then Some 2 else None)
     [\<lparr>auth_user_id = 1, username = ''testuser''\<rparr>]
     \<lparr>request_user = AnonymousUser\<rparr> ''supersecret'' =
     Inr (None, \<lparr>request_user = AnonymousUser\<rparr>) \<and>
   hd (split ''secret:1'' CHR '':'') \<noteq> ''supersecret'' \<and>
   authenticate (\<lambda>s. if s = ''1'' then Some 1 else if s = ''2'' then Some 2 else None)
     [\<lparr>auth_user_id = 1, username = ''testuser''\<rparr>]
     \<lparr>request_user = AnonymousUser\<rparr> ''secret:1'' =
     Inr (None, \<lparr>request_user = AnonymousUser\<rparr>) \<and>
   split ''supersecret:1'' CHR '':'' = [''supersecret'', ''1''] \<and>
   authenticate (\<lambda>s. if s = ''1'' then Some 1 else if s = ''2'' then Some 2 else None)
     [\<lparr>auth_user_id = 1, username = ''testuser''\<rparr>]
     \<lparr>request_user = AnonymousUser\<rparr> ''supersecret:1'' =
     Inr (Some \<lparr>auth_user_id = 1, username = ''testuser''\<rparr>,
          \<lparr>request_user = User \<lparr>auth_user_id = 1, username = ''testuser''\<rparr>\<rparr>) \<and>
   split ''supersecret:2'' CHR '':'' = [''supersecret'', ''2''] \<and>
   authenticate (\<lambda>s. if s = ''1'' then Some 1 else if s = ''2'' then Some 2 else None)
     [\<lparr>auth_user_id = 1, username = ''testuser''\<rparr>]
     \<lparr>request_user = User \<lparr>auth_user_id = 1, username = ''testuser''\<rparr>\<rparr> ''supersecret:2'' =
     Inr (None, \<lparr>request_user = AnonymousUser\<rparr>) \<and>
   split ''supersecret:abc'' CHR '':'' = [''supersecret'', ''abc''] \<and>
   authenticate (\<lambda>s. if s = ''1'' then Some 1 else if s = ''2'' then Some 2 else None)
     [\<lparr>auth_user_id = 1, username = ''testuser''\<rparr>]
     \<lparr>request_user = AnonymousUser\<rparr> ''supersecret:abc'' = Inl ValueError \<and>
   authenticate (\<lambda>s. if s = ''1'' then Some 1 else if s = ''2'' then Some 2 else None)
     [\<lparr>auth_user_id = 1, username = ''testuser''\<rparr>]
     \<lparr>request_user = AnonymousUser\<rparr> ''supersecret:abc'' \<noteq>
     Inr (Some \<lparr>auth_user_id = 1, username = ''testuser''\<rparr>,
          \<lparr>request_user = User \<lparr>auth_user_id = 1, username = ''testuser''\<rparr>\<rparr>)"
proof -
  let ?conv = "\<lambda>s. if s = ''1'' then Some (1::int) else if s = ''2'' then Some 2 else None"
  let ?testuser = "\<lparr>auth_user_id = 1, username = ''testuser''\<rparr>"
  let ?anon = "\<lparr>request_user = AnonymousUser\<rparr>"
  have a: "length (split ''supersecret'' CHR '':'') \<noteq> 2"
    and b: "hd (split ''secret:1'' CHR '':'') \<noteq> ''supersecret''"
    and c: "split ''supersecret:1'' CHR '':'' = [''supersecret'', ''1'']"
    and d: "split ''supersecret:2'' CHR '':'' = [''supersecret'', ''2'']"
    and e: "split ''supersecret:abc'' CHR '':'' = [''supersecret'', ''abc'']"
    by simp_all
  have f1: "find (\<lambda>u. auth_user_id u = 1) [?testuser] = Some ?testuser"
    and f2: "find (\<lambda>u. auth_user_id u = 2) [?testuser] = None"
    by simp_all
  have n: "?conv ''abc'' = None"
    by simp
  note t0 = bearer_token_authentication[where token = "''supersecret''" and to_python = ?conv
      and users = "[?testuser]" and request = ?anon]
  from t0[THEN conjunct1] a
  have 1: "authenticate ?conv [?testuser] ?anon ''supersecret'' = Inr (None, ?anon)"
    by blast
  note t1 = bearer_token_authentication[where token = "''secret:1''" and to_python = ?conv
      and users = "[?testuser]" and request = ?anon]
  from t1[THEN conjunct1] b
  have 2: "authenticate ?conv [?testuser] ?anon ''secret:1'' = Inr (None, ?anon)"
    by blast
  note t2 = bearer_token_authentication[where token = "''supersecret:1''" and to_python = ?conv
      and users = "[?testuser]" and request = ?anon]
  from t2[THEN conjunct2, THEN conjunct1, rule_format, of "''1''" 1 ?testuser] c f1
  have 3: "authenticate ?conv [?testuser] ?anon ''supersecret:1'' =
      Inr (Some ?testuser, \<lparr>request_user = User ?testuser\<rparr>)"
    by simp
  note t3 = bearer_token_authentication[where token = "''supersecret:2''" and to_python = ?conv
      and users = "[?testuser]" and request = "\<lparr>request_user = User ?testuser\<rparr>"]
  from t3[THEN conjunct2, THEN conjunct2, THEN conjunct1, rule_format, of "''2''" 2] d f2
  have 4: "authenticate ?conv [?testuser] \<lparr>request_user = User ?testuser\<rparr> ''supersecret:2'' =
      Inr (None, ?anon)"
    by simp
  note t4 = bearer_token_authentication[where token = "''supersecret:abc''"
      and to_python = ?conv and users = "[?testuser]" and request = ?anon]
  from t4[THEN conjunct2, THEN conjunct2, THEN conjunct2, THEN conjunct1, rule_format,
      of "''abc''"] e n
  have 5: "authenticate ?conv [?testuser] ?anon ''supersecret:abc'' = Inl ValueError"
    by simp
  from t4[THEN conjunct2, THEN conjunct2, THEN conjunct2, THEN conjunct2, THEN conjunct1,
      rule_format, of ?testuser "\<lparr>request_user = User ?testuser\<rparr>"] e
  have 6: "authenticate ?conv [?testuser] ?anon ''supersecret:abc'' \<noteq>
      Inr (Some ?testuser, \<lparr>request_user = User ?testuser\<rparr>)"
    by simp
  show ?thesis
    by (intro conjI) (rule a 1 b 2 c 3 d 4 e 5 6)+
qed

end
